(* ===== verification/Prelude.thy ===== *)
theory Prelude
  imports Complex_Main "HOL-Library.Multiset" "HOL-Library.Sublist" "HOL-Library.Product_Lexorder"
begin

text \<open>
  Shared vocabulary of the development. The collections below gather the evaluation
  rules of the JavaScript built-ins model (\<open>js_eval\<close>) and the unfolding rules of
  the application's predicates (\<open>model_defs\<close>), so that component proofs say
  \<open>simp add: js_eval\<close> instead of listing definitions. The generic lemmas relate
  the accumulator loops of the source (\<open>Array.prototype.reduce\<close>,
  \<open>.filter(...).length\<close>) to the list library's \<open>sum_list\<close> and \<open>length\<close>.
\<close>

named_theorems js_eval "evaluation rules of the JavaScript built-ins model"
named_theorems model_defs "unfolding rules of the application's predicates"

type_synonym timestamp = int \<comment> \<open>a JS \<open>Date\<close>, as milliseconds since the epoch\<close>

lemma foldl_add_sum_list:
  fixes f :: "'a \<Rightarrow> 'b::comm_monoid_add"
  shows "foldl (\<lambda>s x. s + f x) a xs = a + sum_list (map f xs)"
  by (induction xs arbitrary: a) (simp_all add: add.assoc)

lemma foldl_plus_sum_list:
  fixes xs :: "'b::comm_monoid_add list"
  shows "foldl (+) a xs = a + sum_list xs"
  using foldl_add_sum_list [where f = "\<lambda>x. x"] by simp

lemma sum_list_perm:
  fixes xs :: "'b::comm_monoid_add list"
  shows "mset xs = mset ys \<Longrightarrow> sum_list xs = sum_list ys"
  by (metis sum_mset_sum_list)

lemma length_filter_perm:
  "mset xs = mset ys \<Longrightarrow> length (filter P xs) = length (filter P ys)"
  by (metis mset_filter size_mset)

lemma sum_list_nonneg_map:
  fixes f :: "'a \<Rightarrow> 'b::ordered_comm_monoid_add"
  shows "(\<And>x. x \<in> set xs \<Longrightarrow> 0 \<le> f x) \<Longrightarrow> 0 \<le> sum_list (map f xs)"
  by (induction xs) simp_all

end
