(* ===== verification/JsNumber.thy ===== *)
theory JsNumber
  imports Prelude
begin

text \<open>
  JavaScript numbers as the application uses them. A JS number is an IEEE double; the
  model keeps its four kinds of value (finite, \<open>Infinity\<close>, \<open>-Infinity\<close>, \<open>NaN\<close>)
  and the ECMAScript rules for them, and represents finite values exactly as rationals.
  Rounding of finite results to 53 bits and the sign of zero are not modelled: every
  zero is \<open>+0\<close>. The operations are those the dashboard endpoint
  (\<open>src/server/routes.ts\<close>) and the projects page (\<open>src/client/src/pages/projects.tsx\<close>)
  apply: \<open>+\<close>, \<open>-\<close>, \<open>*\<close>, \<open>/\<close>, \<open>Math.floor\<close>, \<open>isNaN\<close>, the relational
  operators and \<open>Number.prototype.toFixed(1)\<close>.
\<close>

datatype jsnum = Fin rat | PosInf | NegInf | NaN

text \<open>The sign of a non-NaN value, and the infinity of a given sign (NaN for sign 0).\<close>

fun js_sign :: "jsnum \<Rightarrow> rat" where
  "js_sign (Fin a) = sgn a"
| "js_sign PosInf = 1"
| "js_sign NegInf = -1"
| "js_sign NaN = 0"

definition inf_of_sign :: "rat \<Rightarrow> jsnum" where
  "inf_of_sign s = (if 0 < s then PosInf else if s < 0 then NegInf else NaN)"

text \<open>ECMAScript Number::add: NaN absorbs, opposite infinities give NaN.\<close>

fun js_add :: "jsnum \<Rightarrow> jsnum \<Rightarrow> jsnum" where
  "js_add NaN y = NaN"
| "js_add x NaN = NaN"
| "js_add (Fin a) (Fin b) = Fin (a + b)"
| "js_add PosInf NegInf = NaN"
| "js_add NegInf PosInf = NaN"
| "js_add PosInf y = PosInf"
| "js_add NegInf y = NegInf"
| "js_add (Fin a) y = y"

fun js_neg :: "jsnum \<Rightarrow> jsnum" where
  "js_neg (Fin a) = Fin (- a)"
| "js_neg PosInf = NegInf"
| "js_neg NegInf = PosInf"
| "js_neg NaN = NaN"

definition js_sub :: "jsnum \<Rightarrow> jsnum \<Rightarrow> jsnum" where
  "js_sub x y = js_add x (js_neg y)"

text \<open>Number::multiply: an infinity times zero is NaN, otherwise the signs multiply.\<close>

fun js_mul :: "jsnum \<Rightarrow> jsnum \<Rightarrow> jsnum" where
  "js_mul NaN y = NaN"
| "js_mul x NaN = NaN"
| "js_mul (Fin a) (Fin b) = Fin (a * b)"
| "js_mul x y = inf_of_sign (js_sign x * js_sign y)"

text \<open>
  Number::divide: a finite value divided by zero is an infinity of its sign, and
  \<open>0 / 0\<close> is NaN; an infinity divided by (positive) zero keeps its sign; a finite
  value divided by an infinity is zero; two infinities give NaN.
\<close>

fun js_div :: "jsnum \<Rightarrow> jsnum \<Rightarrow> jsnum" where
  "js_div NaN y = NaN"
| "js_div x NaN = NaN"
| "js_div (Fin a) (Fin b) = (if b = 0 then inf_of_sign (sgn a) else Fin (a / b))"
| "js_div (Fin a) y = Fin 0"
| "js_div x (Fin b) = (if b = 0 then x else inf_of_sign (js_sign x * sgn b))"
| "js_div x y = NaN"

fun js_floor :: "jsnum \<Rightarrow> jsnum" where
  "js_floor (Fin a) = Fin (of_int \<lfloor>a\<rfloor>)"
| "js_floor x = x"

text \<open>The rational of a finite value (0 for the other kinds).\<close>

fun fin_val :: "jsnum \<Rightarrow> rat" where
  "fin_val (Fin a) = a"
| "fin_val x = 0"

definition js_isNaN :: "jsnum \<Rightarrow> bool" where
  "js_isNaN x \<longleftrightarrow> x = NaN"

text \<open>
  The extended order of the non-NaN values, as a key into \<open>int \<times> rat\<close> with the
  lexicographic order: \<open>-Infinity < finite < Infinity\<close>. The relational operators
  are false whenever an operand is NaN.
\<close>

fun js_key :: "jsnum \<Rightarrow> int \<times> rat" where
  "js_key NegInf = (-1, 0)"
| "js_key (Fin a) = (0, a)"
| "js_key PosInf = (1, 0)"
| "js_key NaN = (0, 0)"

definition js_le :: "jsnum \<Rightarrow> jsnum \<Rightarrow> bool" where
  "js_le x y \<longleftrightarrow> x \<noteq> NaN \<and> y \<noteq> NaN \<and> js_key x \<le> js_key y"

definition js_lt :: "jsnum \<Rightarrow> jsnum \<Rightarrow> bool" where
  "js_lt x y \<longleftrightarrow> x \<noteq> NaN \<and> y \<noteq> NaN \<and> js_key x < js_key y"

abbreviation js_ge :: "jsnum \<Rightarrow> jsnum \<Rightarrow> bool" where
  "js_ge x y \<equiv> js_le y x"

text \<open>\<open>x || 0\<close> on a number: the falsy numbers \<open>0\<close> and \<open>NaN\<close> become \<open>0\<close>.\<close>

definition js_or_zero :: "jsnum \<Rightarrow> jsnum" where
  "js_or_zero x = (if x = NaN \<or> x = Fin 0 then Fin 0 else x)"

text \<open>Decimal digits of a natural number, most significant first (\<open>String(n)\<close>).\<close>

fun digit_char :: "nat \<Rightarrow> char" where
  "digit_char d = char_of (48 + d)"

fun nat_digits :: "nat \<Rightarrow> string" where
  "nat_digits n = (if n < 10 then [digit_char n] else nat_digits (n div 10) @ [digit_char (n mod 10)])"

declare nat_digits.simps [simp del]

text \<open>
  \<open>x.toFixed(1)\<close> (ECMAScript Number.prototype.toFixed with one fraction digit): the
  integer \<open>n\<close> nearest to \<open>10 * |x|\<close>, the larger one on a tie, printed with one
  digit after the point and a leading zero below 1, with \<open>-\<close> when \<open>x < 0\<close>.
  For \<open>|x| \<ge> 10^21\<close> toFixed falls back to the exponential \<open>Number::toString\<close>,
  which is not modelled: the result is \<open>None\<close> there.
\<close>

definition fixed1_digits :: "nat \<Rightarrow> string" where
  "fixed1_digits n =
     (let m = nat_digits n;
          m' = (if length m \<le> 1 then replicate (2 - length m) CHR ''0'' @ m else m)
      in take (length m' - 1) m' @ ''.'' @ drop (length m' - 1) m')"

fun js_toFixed1 :: "jsnum \<Rightarrow> string option" where
  "js_toFixed1 NaN = Some ''NaN''"
| "js_toFixed1 PosInf = Some ''Infinity''"
| "js_toFixed1 NegInf = Some ''-Infinity''"
| "js_toFixed1 (Fin x) =
     (if 10 ^ 21 \<le> \<bar>x\<bar> then None
      else Some ((if x < 0 then ''-'' else []) @ fixed1_digits (nat \<lfloor>\<bar>x\<bar> * 10 + 1 / 2\<rfloor>)))"

text \<open>
  JS \<open>+\<close> with \<open>0\<close> as unit is a commutative monoid on the four kinds of value, so
  the library's sums apply to it; this is what makes \<open>reduce((s, r) => s + r, 0)\<close>
  independent of the order of the records.
\<close>

instantiation jsnum :: comm_monoid_add
begin

definition zero_jsnum :: jsnum where
  "zero_jsnum = Fin 0"

definition plus_jsnum :: "jsnum \<Rightarrow> jsnum \<Rightarrow> jsnum" where
  "plus_jsnum = js_add"

instance
proof
  fix a b c :: jsnum
  show "a + b + c = a + (b + c)"
    by (cases a; cases b; cases c) (simp_all add: plus_jsnum_def add.assoc)
  show "a + b = b + a"
    by (cases a; cases b) (simp_all add: plus_jsnum_def add.commute)
  show "0 + a = a"
    by (cases a) (simp_all add: plus_jsnum_def zero_jsnum_def)
qed

end

lemma js_add_plus [js_eval]: "js_add x y = x + y"
  by (simp add: plus_jsnum_def)

lemma fin_plus [simp]: "Fin a + Fin b = Fin (a + b)"
  by (simp add: plus_jsnum_def)

lemma fin_zero: "Fin 0 = 0"
  by (simp add: zero_jsnum_def)

lemma nan_plus [simp]: "NaN + x = NaN" "x + NaN = NaN"
  by (simp_all add: plus_jsnum_def, cases x, simp_all)

lemma sum_list_fin: "sum_list (map (\<lambda>x. Fin (f x)) xs) = Fin (sum_list (map f xs))"
  by (induction xs) (simp_all add: fin_zero)

lemma js_le_fin [simp]: "js_le (Fin a) (Fin b) \<longleftrightarrow> a \<le> b"
  by (simp add: js_le_def)

lemma js_lt_fin [simp]: "js_lt (Fin a) (Fin b) \<longleftrightarrow> a < b"
  by (simp add: js_lt_def)

lemma js_le_nan [simp]: "\<not> js_le NaN x" "\<not> js_le x NaN"
  by (simp_all add: js_le_def)

lemma js_lt_nan [simp]: "\<not> js_lt NaN x" "\<not> js_lt x NaN"
  by (simp_all add: js_lt_def)

lemma js_sub_fin [simp]: "js_sub (Fin a) (Fin b) = Fin (a - b)"
  by (simp add: js_sub_def)

lemma js_div_fin [simp]: "b \<noteq> 0 \<Longrightarrow> js_div (Fin a) (Fin b) = Fin (a / b)"
  by simp

lemma js_div_zero_zero: "js_div (Fin 0) (Fin 0) = NaN"
  by (simp add: inf_of_sign_def)

lemma js_div_pos_zero: "0 < a \<Longrightarrow> js_div (Fin a) (Fin 0) = PosInf"
  by (simp add: inf_of_sign_def)

lemma js_toFixed1_bound:
  "js_toFixed1 x = None \<longleftrightarrow> (\<exists>a. x = Fin a \<and> 10 ^ 21 \<le> \<bar>a\<bar>)"
  by (cases x) auto

end
