(* ===== verification/JsString.thy ===== *)
theory JsString
  imports JsNumber
begin

text \<open>
  The JavaScript string built-ins the application calls: \<open>toLowerCase\<close>,
  \<open>includes\<close>, \<open>startsWith\<close>, and the two string-to-number conversions
  \<open>parseFloat\<close> (dashboard endpoint) and \<open>Number(...)\<close> (projects page). Strings
  are \<open>char list\<close>s; Isabelle characters are bytes, so case mapping and white space
  are modelled on ASCII (the Unicode cases of \<open>toLowerCase\<close> and the non-ASCII white
  space characters are not modelled). Both number parsers follow the ECMAScript
  grammar StrDecimalLiteral: optional sign, \<open>Infinity\<close>, or digits with an optional
  fraction and exponent. \<open>parseFloat\<close> takes the longest such prefix after leading
  white space; \<open>Number\<close> trims both ends, reads the empty string as 0, accepts the
  \<open>0x\<close>/\<open>0o\<close>/\<open>0b\<close> literals and needs the whole string to be a literal.
\<close>

definition digit_value :: "char \<Rightarrow> nat" where
  "digit_value c =
     (let n = of_char c :: nat in
      if 48 \<le> n \<and> n \<le> 57 then n - 48
      else if 97 \<le> n \<and> n \<le> 122 then n - 87
      else if 65 \<le> n \<and> n \<le> 90 then n - 55
      else 36)"

definition is_dec :: "char \<Rightarrow> bool" where
  "is_dec c \<longleftrightarrow> digit_value c < 10"

definition js_is_ws :: "char \<Rightarrow> bool" where
  "js_is_ws c \<longleftrightarrow> (of_char c :: nat) \<in> {9, 10, 11, 12, 13, 32}"

definition js_lower_char :: "char \<Rightarrow> char" where
  "js_lower_char c =
     (let n = of_char c :: nat in if 65 \<le> n \<and> n \<le> 90 then char_of (n + 32) else c)"

definition js_toLowerCase :: "string \<Rightarrow> string" where
  "js_toLowerCase s = map js_lower_char s"

text \<open>\<open>s.startsWith(t)\<close> and \<open>s.includes(t)\<close>, by direct recursion on \<open>s\<close>.\<close>

fun js_startsWith :: "string \<Rightarrow> string \<Rightarrow> bool" where
  "js_startsWith s [] = True"
| "js_startsWith [] (c # t) = False"
| "js_startsWith (d # s) (c # t) = (d = c \<and> js_startsWith s t)"

fun js_includes :: "string \<Rightarrow> string \<Rightarrow> bool" where
  "js_includes [] t = (t = [])"
| "js_includes (c # s) t = (js_startsWith (c # s) t \<or> js_includes s t)"

definition js_trim :: "string \<Rightarrow> string" where
  "js_trim s = rev (dropWhile js_is_ws (rev (dropWhile js_is_ws s)))"

fun radix_value :: "nat \<Rightarrow> nat \<Rightarrow> string \<Rightarrow> nat" where
  "radix_value r acc [] = acc"
| "radix_value r acc (c # cs) = radix_value r (r * acc + digit_value c) cs"

definition scale10 :: "rat \<Rightarrow> int \<Rightarrow> rat" where
  "scale10 m e = (if 0 \<le> e then m * 10 ^ nat e else m / 10 ^ nat (- e))"

text \<open>ExponentPart: \<open>e\<close> or \<open>E\<close>, an optional sign, at least one digit.\<close>

definition scan_exp_digits :: "string \<Rightarrow> (int \<times> string) option" where
  "scan_exp_digits s =
     (let (sg, r) = (case s of
                       c # r \<Rightarrow> if c = CHR ''+'' then (1, r)
                                else if c = CHR ''-'' then (-1, r) else (1, s)
                     | [] \<Rightarrow> (1, []));
          ds = takeWhile is_dec r
      in if ds = [] then None else Some (sg * int (radix_value 10 0 ds), dropWhile is_dec r))"

definition scan_exponent :: "string \<Rightarrow> int \<times> string" where
  "scan_exponent s =
     (case s of
        c # r \<Rightarrow> if c = CHR ''e'' \<or> c = CHR ''E''
                 then (case scan_exp_digits r of Some er \<Rightarrow> er | None \<Rightarrow> (0, s))
                 else (0, s)
      | [] \<Rightarrow> (0, []))"

text \<open>Digits, an optional point and fraction digits; at least one digit in all.\<close>

definition scan_mantissa :: "string \<Rightarrow> (rat \<times> string) option" where
  "scan_mantissa s =
     (let d1 = takeWhile is_dec s; r1 = dropWhile is_dec s in
      case r1 of
        c # r2 \<Rightarrow>
          if c = CHR ''.'' then
            (let d2 = takeWhile is_dec r2 in
             if d1 = [] \<and> d2 = [] then None
             else Some (of_nat (radix_value 10 0 d1) + of_nat (radix_value 10 0 d2) / 10 ^ length d2,
                        dropWhile is_dec r2))
          else if d1 = [] then None else Some (of_nat (radix_value 10 0 d1), r1)
      | [] \<Rightarrow> if d1 = [] then None else Some (of_nat (radix_value 10 0 d1), []))"

definition scan_unsigned :: "string \<Rightarrow> (jsnum \<times> string) option" where
  "scan_unsigned s =
     (if js_startsWith s ''Infinity'' then Some (PosInf, drop 8 s)
      else case scan_mantissa s of
             None \<Rightarrow> None
           | Some (m, r) \<Rightarrow> (case scan_exponent r of (e, r') \<Rightarrow> Some (Fin (scale10 m e), r')))"

definition scan_str_decimal :: "string \<Rightarrow> (jsnum \<times> string) option" where
  "scan_str_decimal s =
     (case s of
        c # r \<Rightarrow>
          if c = CHR ''+'' then scan_unsigned r
          else if c = CHR ''-'' then map_option (\<lambda>(v, r'). (js_neg v, r')) (scan_unsigned r)
          else scan_unsigned s
      | [] \<Rightarrow> None)"

definition js_parseFloat :: "string \<Rightarrow> jsnum" where
  "js_parseFloat s =
     (case scan_str_decimal (dropWhile js_is_ws s) of None \<Rightarrow> NaN | Some (v, _) \<Rightarrow> v)"

text \<open>NonDecimalIntegerLiteral of \<open>Number(...)\<close>: \<open>0x\<close>, \<open>0o\<close>, \<open>0b\<close> and digits.\<close>

definition radix_of_prefix :: "char \<Rightarrow> nat" where
  "radix_of_prefix c =
     (if c = CHR ''x'' \<or> c = CHR ''X'' then 16
      else if c = CHR ''o'' \<or> c = CHR ''O'' then 8
      else if c = CHR ''b'' \<or> c = CHR ''B'' then 2 else 0)"

definition scan_nondecimal :: "string \<Rightarrow> jsnum option" where
  "scan_nondecimal s =
     (case s of
        c0 # c1 # ds \<Rightarrow>
          (let r = radix_of_prefix c1 in
           if c0 = CHR ''0'' \<and> r \<noteq> 0 \<and> ds \<noteq> [] \<and> list_all (\<lambda>d. digit_value d < r) ds
           then Some (Fin (of_nat (radix_value r 0 ds))) else None)
      | _ \<Rightarrow> None)"

definition js_Number :: "string \<Rightarrow> jsnum" where
  "js_Number s =
     (let t = js_trim s in
      if t = [] then Fin 0
      else case scan_nondecimal t of
             Some v \<Rightarrow> v
           | None \<Rightarrow> (case scan_str_decimal t of Some (v, []) \<Rightarrow> v | _ \<Rightarrow> NaN))"

text \<open>
  \<open>parseInt(s)\<close> without a radix: leading white space, an optional sign, a \<open>0x\<close>/\<open>0X\<close>
  prefix selecting radix 16 (radix 10 otherwise), then the longest run of digits of the
  radix; \<open>NaN\<close> when the run is empty. What follows the run is ignored.
\<close>

definition int_digits :: "nat \<Rightarrow> string \<Rightarrow> jsnum" where
  "int_digits r s =
     (let z = takeWhile (\<lambda>d. digit_value d < r) s in
      if z = [] then NaN else Fin (of_nat (radix_value r 0 z)))"

definition js_parseInt :: "string \<Rightarrow> jsnum" where
  "js_parseInt s =
     (let t = dropWhile js_is_ws s;
          (sg, u) = (case t of
                       c # r \<Rightarrow> (if c = CHR ''-'' then (-1, r)
                                else if c = CHR ''+'' then (1, r) else (1, t))
                     | [] \<Rightarrow> (1, []));
          (rd, w) = (case u of
                       c0 # c1 # r \<Rightarrow> (if c0 = CHR ''0'' \<and> (c1 = CHR ''x'' \<or> c1 = CHR ''X'')
                                     then (16, r) else (10, u))
                     | _ \<Rightarrow> (10, u))
      in case int_digits rd w of Fin v \<Rightarrow> Fin (sg * v) | v \<Rightarrow> v)"

lemmas js_string_defs [js_eval] =
  digit_value_def is_dec_def js_is_ws_def js_lower_char_def js_toLowerCase_def js_trim_def
  scale10_def scan_exp_digits_def scan_exponent_def scan_mantissa_def scan_unsigned_def
  scan_str_decimal_def js_parseFloat_def radix_of_prefix_def scan_nondecimal_def js_Number_def

lemma js_startsWith_prefix: "js_startsWith s t \<longleftrightarrow> prefix t s"
  by (induction s t rule: js_startsWith.induct) auto

lemma js_includes_sublist: "js_includes s t \<longleftrightarrow> sublist t s"
  by (induction s) (auto simp: js_startsWith_prefix sublist_Cons_right)

lemma js_includes_empty [simp]: "js_includes s []"
  by (simp add: js_includes_sublist)

lemma js_toLowerCase_Nil [simp]: "js_toLowerCase [] = []"
  by (simp add: js_toLowerCase_def)

lemma length_js_toLowerCase [simp]: "length (js_toLowerCase s) = length s"
  by (simp add: js_toLowerCase_def)

lemma digit_value_digit_char [simp]: "d < 10 \<Longrightarrow> digit_value (digit_char d) = d"
  by (simp add: digit_value_def)

lemma is_dec_digit_char [simp]: "d < 10 \<Longrightarrow> is_dec (digit_char d)"
  unfolding is_dec_def by (simp del: digit_char.simps)

lemma radix_value_snoc: "radix_value r acc (xs @ [c]) = r * radix_value r acc xs + digit_value c"
  by (induction xs arbitrary: acc) simp_all

lemma nat_digits_props:
  "nat_digits n \<noteq> [] \<and> list_all is_dec (nat_digits n) \<and> radix_value 10 0 (nat_digits n) = n"
proof (induction n rule: nat_digits.induct)
  case (1 n)
  show ?case
  proof (cases "n < 10")
    case True
    then have "nat_digits n = [digit_char n]" by (subst nat_digits.simps) simp
    with True show ?thesis by (simp del: digit_char.simps)
  next
    case False
    then have eq: "nat_digits n = nat_digits (n div 10) @ [digit_char (n mod 10)]"
      by (subst nat_digits.simps) simp
    from False "1.IH" have ih: "list_all is_dec (nat_digits (n div 10))"
        "radix_value 10 0 (nat_digits (n div 10)) = n div 10"
      by auto
    then show ?thesis
      by (simp add: eq radix_value_snoc del: digit_char.simps)
  qed
qed

lemma takeWhile_all: "list_all P xs \<Longrightarrow> takeWhile P xs = xs"
  by (induction xs) simp_all

lemma dropWhile_all: "list_all P xs \<Longrightarrow> dropWhile P xs = []"
  by (induction xs) simp_all

lemma is_dec_range: "is_dec c \<longleftrightarrow> 48 \<le> (of_char c :: nat) \<and> (of_char c :: nat) \<le> 57"
  unfolding is_dec_def digit_value_def Let_def by (cases "48 \<le> (of_char c :: nat)") arith+

lemma dropWhile_none: "list_all (\<lambda>x. \<not> P x) xs \<Longrightarrow> dropWhile P xs = xs"
  by (cases xs) simp_all

lemma dec_not_special:
  assumes "is_dec c"
  shows "\<not> js_is_ws c \<and> c \<noteq> CHR ''+'' \<and> c \<noteq> CHR ''-'' \<and> c \<noteq> CHR ''I'' \<and>
     radix_of_prefix c = 0"
proof -
  have r: "48 \<le> (of_char c :: nat)" "(of_char c :: nat) \<le> 57"
    using assms by (simp_all add: is_dec_range)
  have "\<not> js_is_ws c" using r by (auto simp: js_is_ws_def)
  moreover have "c \<noteq> CHR ''+''" "c \<noteq> CHR ''-''" "c \<noteq> CHR ''I''" using r by auto
  moreover have "radix_of_prefix c = 0" using r by (auto simp: radix_of_prefix_def)
  ultimately show ?thesis by blast
qed

lemma scan_str_decimal_digits:
  assumes "ds \<noteq> []" "list_all is_dec ds"
  shows "scan_str_decimal ds = Some (Fin (of_nat (radix_value 10 0 ds)), [])"
proof -
  obtain c cs where ds: "ds = c # cs" using assms(1) by (cases ds) auto
  have c: "is_dec c" using assms(2) ds by simp
  have "scan_mantissa ds = Some (of_nat (radix_value 10 0 ds), [])"
    using assms by (simp add: scan_mantissa_def takeWhile_all dropWhile_all)
  moreover have "\<not> js_startsWith ds ''Infinity''"
    using c dec_not_special ds by simp
  ultimately show ?thesis
    using c dec_not_special ds by (simp add: scan_str_decimal_def scan_unsigned_def scan_exponent_def
      scale10_def)
qed

text \<open>
  Printing a natural number in decimal and reading it back gives the number, with both
  readers the application uses (\<open>parseFloat\<close> on the dashboard, \<open>Number\<close> on
  the projects page).
\<close>

lemma parse_nat_digits_roundtrip:
  "js_parseFloat (nat_digits n) = Fin (of_nat n) \<and> js_Number (nat_digits n) = Fin (of_nat n)"
proof -
  obtain c cs where ds: "nat_digits n = c # cs"
    using nat_digits_props [of n] by (cases "nat_digits n") auto
  have all: "list_all is_dec (nat_digits n)" and v: "radix_value 10 0 (nat_digits n) = n"
    using nat_digits_props [of n] by auto
  have c: "is_dec c" using all ds by simp
  have sc: "scan_str_decimal (nat_digits n) = Some (Fin (of_nat n), [])"
    using scan_str_decimal_digits [OF _ all] v ds by simp
  have nw: "list_all (\<lambda>x. \<not> js_is_ws x) (nat_digits n)"
    using all dec_not_special by (simp add: list_all_iff)
  then have ws: "dropWhile js_is_ws (nat_digits n) = nat_digits n"
    and "dropWhile js_is_ws (rev (nat_digits n)) = rev (nat_digits n)"
    by (simp_all add: dropWhile_none)
  then have tr: "js_trim (nat_digits n) = nat_digits n"
    by (simp add: js_trim_def)
  have nd: "scan_nondecimal (nat_digits n) = None"
    using all ds by (cases cs) (auto simp: scan_nondecimal_def dec_not_special Let_def)
  show ?thesis
    using sc ws tr nd ds by (simp add: js_parseFloat_def js_Number_def)
qed

lemma js_parseInt_nat_digits: "js_parseInt (nat_digits n) = Fin (of_nat n)"
proof -
  obtain c cs where ds: "nat_digits n = c # cs"
    using nat_digits_props [of n] by (cases "nat_digits n") auto
  have all: "list_all is_dec (nat_digits n)" and v: "radix_value 10 0 (nat_digits n) = n"
    using nat_digits_props [of n] by auto
  have c: "is_dec c" using all ds by simp
  have ws: "dropWhile js_is_ws (nat_digits n) = nat_digits n"
    using all dec_not_special by (simp add: list_all_iff dropWhile_none)
  have nx: "\<not> (c = CHR ''0'' \<and> (d = CHR ''x'' \<or> d = CHR ''X''))" if "is_dec d" for d
    using that dec_not_special [OF that] by (auto simp: radix_of_prefix_def)
  have dig: "int_digits 10 (c # cs) = Fin (of_nat n)"
    using all v ds by (simp add: int_digits_def takeWhile_all is_dec_def [symmetric])
  have pre: "(case c # cs of c0 # c1 # r \<Rightarrow>
                (if c0 = CHR ''0'' \<and> (c1 = CHR ''x'' \<or> c1 = CHR ''X'') then (16, r)
                 else (10, c # cs)) | _ \<Rightarrow> (10::nat, c # cs)) = (10, c # cs)"
    using all ds nx by (cases cs) auto
  show ?thesis
    using ws c dec_not_special [OF c] pre dig by (simp add: js_parseInt_def ds)
qed

end
