(* ===== verification/Schema.thy ===== *)
theory Schema
  imports JsString
begin

text \<open>
  The row type of the \<open>projects\<close> table (\<open>src/shared/schema.ts\<close>, \<open>projects\<close> and
  \<open>type Project = typeof projects.$inferSelect\<close>) as a record. A column declared
  \<open>.notNull()\<close> is a plain field; a nullable column is an \<open>option\<close>
  (\<open>None\<close> is SQL/JS \<open>null\<close>). \<open>decimal\<close> columns arrive as strings (the driver
  returns numerics as text), \<open>jsonb\<close> arrays as lists, dates as strings and
  timestamps as \<^typ>\<open>timestamp\<close>. The \<open>id\<close> column is the field \<open>pid\<close>
  (\<open>id\<close> is HOL's identity function).
\<close>

record document =
  docName :: string
  docUrl :: string
  docType :: string

record project =
  pid :: int
  title :: string
  description :: string
  shortDescription :: "string option"
  location :: string
  category :: string
  propertyType :: string
  roi :: string
  minInvestment :: int
  targetAmount :: int
  currentAmount :: "int option"
  status :: string
  featured :: "bool option"
  priority :: "int option"
  propertySize :: "int option"
  bedrooms :: "int option"
  bathrooms :: "int option"
  floors :: "int option"
  parkingSpaces :: "int option"
  expectedCompletionDate :: "string option"
  monthlyRent :: "int option"
  annualAppreciation :: "string option"
  imageUrl :: "string option"
  gallery :: "string list option"
  videoUrl :: "string option"
  latitude :: "string option"
  longitude :: "string option"
  address :: "string option"
  city :: "string option"
  state :: "string option"
  country :: "string option"
  postalCode :: "string option"
  constructionStartDate :: "string option"
  constructionEndDate :: "string option"
  tags :: "string list option"
  amenities :: "string list option"
  documents :: "document list option"
  createdAt :: "timestamp option"
  updatedAt :: "timestamp option"

text \<open>
  \<open>p.currentAmount ?? 0\<close> (projects page) and \<open>p.currentAmount || 0\<close> (dashboard):
  both read a null amount as 0, and agree on integers since \<open>0 || 0 = 0\<close>.
\<close>

definition current_or_zero :: "project \<Rightarrow> int" where
  "current_or_zero p = (case currentAmount p of None \<Rightarrow> 0 | Some a \<Rightarrow> a)"

text \<open>
  A project with every nullable column null and the given required columns; used to
  write concrete records in examples and witnesses.
\<close>

definition mk_project ::
  "int \<Rightarrow> string \<Rightarrow> string \<Rightarrow> string \<Rightarrow> int \<Rightarrow> int option \<Rightarrow> project" where
  "mk_project i t st r target cur =
     \<lparr>pid = i, title = t, description = [], shortDescription = None, location = [],
      category = [], propertyType = [], roi = r, minInvestment = 0, targetAmount = target,
      currentAmount = cur, status = st, featured = None, priority = None,
      propertySize = None, bedrooms = None, bathrooms = None, floors = None,
      parkingSpaces = None, expectedCompletionDate = None, monthlyRent = None,
      annualAppreciation = None, imageUrl = None, gallery = None, videoUrl = None,
      latitude = None, longitude = None, address = None, city = None, state = None,
      country = None, postalCode = None, constructionStartDate = None,
      constructionEndDate = None, tags = None, amenities = None, documents = None,
      createdAt = None, updatedAt = None\<rparr>"

text \<open>The three records of the scenario in the specification's section 8.\<close>

definition scenario_projects :: "project list" where
  "scenario_projects =
     [mk_project 1 ''Dubai Marina Tower'' ''ACTIVE'' ''12.50'' 5000000 (Some 3000000),
      mk_project 2 ''Singapore Business Hub'' ''COMPLETE'' ''15.20'' 8000000 (Some 8000000),
      mk_project 3 ''London Tech District'' ''FUNDING'' ''8.75'' 3000000 (Some 1500000)]"

lemma mk_project_sel [simp]:
  "pid (mk_project i t st r target cur) = i"
  "title (mk_project i t st r target cur) = t"
  "description (mk_project i t st r target cur) = []"
  "status (mk_project i t st r target cur) = st"
  "roi (mk_project i t st r target cur) = r"
  "targetAmount (mk_project i t st r target cur) = target"
  "currentAmount (mk_project i t st r target cur) = cur"
  by (simp_all add: mk_project_def)

end
