(* ===== verification/Dashboard.thy ===== *)
theory Dashboard
  imports Schema
begin

text \<open>
  The metrics aggregator: the body of the \<open>GET /api/dashboard/stats\<close> handler
  (\<open>src/server/routes.ts\<close>, lines 61--86), a pure function of the project list that
  \<open>storage.getAllProjects()\<close> returns. The response object is the record
  \<open>dashboard_stats\<close> (the \<open>DashboardStats\<close> interface of
  \<open>src/client/src/lib/mock-data.ts\<close>); its fields are computed as the handler does:
  \<open>reduce\<close> loops as \<open>foldl\<close>, \<open>filter(...).length\<close> as a filtered length,
  \<open>parseFloat\<close>, \<open>isNaN\<close>, \<open>Math.floor\<close> and \<open>toFixed(1)\<close> from
  the theory JsString. The amounts are JS numbers holding integers,
  modelled as \<^typ>\<open>int\<close> (exact below \<open>2^53\<close>).
\<close>

record dashboard_stats =
  totalInvested :: int
  monthlyReturns :: jsnum
  activeProjects :: nat
  totalProjects :: nat
  avgROI :: "string option"

definition total_invested :: "project list \<Rightarrow> int" where
  "total_invested ps = foldl (\<lambda>sum p. sum + current_or_zero p) 0 ps"

definition active_projects :: "project list \<Rightarrow> nat" where
  "active_projects ps = length (filter (\<lambda>p. status p = ''ACTIVE'') ps)"

definition valid_rois :: "project list \<Rightarrow> jsnum list" where
  "valid_rois ps = filter (\<lambda>r. \<not> js_isNaN r) (map (\<lambda>p. js_parseFloat (roi p)) ps)"

definition avg_roi :: "project list \<Rightarrow> jsnum" where
  "avg_roi ps =
     (let v = valid_rois ps in
      if 0 < length v then js_div (foldl js_add (Fin 0) v) (Fin (of_nat (length v))) else Fin 0)"

definition monthly_returns :: "int \<Rightarrow> jsnum \<Rightarrow> jsnum" where
  "monthly_returns ti a = js_floor (js_div (js_mul (Fin (of_int ti)) (js_div a (Fin 100))) (Fin 12))"

definition compute_stats :: "project list \<Rightarrow> dashboard_stats" where
  "compute_stats ps =
     (let ti = total_invested ps; a = avg_roi ps
      in \<lparr>totalInvested = ti,
          monthlyReturns = monthly_returns ti a,
          activeProjects = active_projects ps,
          totalProjects = length ps,
          avgROI = js_toFixed1 a\<rparr>)"

lemmas dashboard_defs [model_defs] =
  total_invested_def active_projects_def valid_rois_def avg_roi_def monthly_returns_def
  compute_stats_def

lemma compute_stats_fields [simp]:
  "totalInvested (compute_stats ps) = total_invested ps"
  "monthlyReturns (compute_stats ps) = monthly_returns (total_invested ps) (avg_roi ps)"
  "activeProjects (compute_stats ps) = active_projects ps"
  "totalProjects (compute_stats ps) = length ps"
  "avgROI (compute_stats ps) = js_toFixed1 (avg_roi ps)"
  by (simp_all add: compute_stats_def Let_def)

lemma total_invested_sum: "total_invested ps = sum_list (map current_or_zero ps)"
  by (simp add: total_invested_def foldl_add_sum_list)

lemma foldl_js_add_sum: "foldl js_add (Fin 0) v = sum_list v"
proof -
  have "foldl js_add (Fin 0) v = foldl (+) 0 v"
    by (simp add: js_add_plus fin_zero cong: foldl_cong)
  then show ?thesis by (simp add: foldl_plus_sum_list)
qed

lemma avg_roi_sum:
  "avg_roi ps =
     (if valid_rois ps = [] then Fin 0
      else js_div (sum_list (valid_rois ps)) (Fin (of_nat (length (valid_rois ps)))))"
  by (simp add: avg_roi_def foldl_js_add_sum Let_def)

lemma valid_rois_perm: "mset ps = mset qs \<Longrightarrow> mset (valid_rois ps) = mset (valid_rois qs)"
  by (simp add: valid_rois_def)

lemma valid_rois_all_fin:
  "\<forall>p\<in>set ps. \<exists>a. js_parseFloat (roi p) = Fin a \<Longrightarrow>
   valid_rois ps = map (\<lambda>p. Fin (fin_val (js_parseFloat (roi p)))) ps"
  by (induction ps) (auto simp: valid_rois_def js_isNaN_def)

lemma valid_rois_nan: "\<forall>p\<in>set ps. js_isNaN (js_parseFloat (roi p)) \<Longrightarrow> valid_rois ps = []"
  by (simp add: valid_rois_def filter_empty_conv)

lemma sum_list_no_nan_neginf:
  "NaN \<notin> set v \<Longrightarrow> NegInf \<notin> set v \<Longrightarrow> sum_list v \<noteq> NaN \<and> sum_list v \<noteq> NegInf"
  by (induction v) (auto simp: plus_jsnum_def zero_jsnum_def elim!: js_add.elims)

lemma sum_list_posinf:
  "PosInf \<in> set v \<Longrightarrow> NaN \<notin> set v \<Longrightarrow> NegInf \<notin> set v \<Longrightarrow> sum_list v = PosInf"
proof (induction v)
  case Nil
  then show ?case by simp
next
  case (Cons x v)
  have rest: "sum_list v \<noteq> NaN \<and> sum_list v \<noteq> NegInf"
    using Cons.prems by (simp add: sum_list_no_nan_neginf)
  show ?case
  proof (cases "x = PosInf")
    case True
    with rest show ?thesis by (cases "sum_list v") (simp_all add: plus_jsnum_def)
  next
    case False
    with Cons have "sum_list v = PosInf" by simp
    with False Cons.prems show ?thesis by (cases x) (simp_all add: plus_jsnum_def)
  qed
qed

lemma active_projects_perm:
  "mset ps = mset qs \<Longrightarrow> active_projects ps = active_projects qs"
  unfolding active_projects_def by (rule length_filter_perm)

lemma total_invested_perm:
  "mset ps = mset qs \<Longrightarrow> total_invested ps = total_invested qs"
  unfolding total_invested_sum by (rule sum_list_perm) simp

lemma avg_roi_perm:
  assumes "mset ps = mset qs"
  shows "avg_roi ps = avg_roi qs"
proof -
  have m: "mset (valid_rois ps) = mset (valid_rois qs)"
    using assms by (rule valid_rois_perm)
  then have "sum_list (valid_rois ps) = sum_list (valid_rois qs)"
    by (rule sum_list_perm)
  moreover have "length (valid_rois ps) = length (valid_rois qs)"
    using m by (metis size_mset)
  moreover have "valid_rois ps = [] \<longleftrightarrow> valid_rois qs = []"
    using m by (metis mset_zero_iff)
  ultimately show ?thesis by (simp add: avg_roi_sum)
qed

lemma monthly_returns_fin:
  "monthly_returns ti (Fin a) = Fin (of_int \<lfloor>of_int ti * a / 1200\<rfloor>)"
proof -
  have "js_div (Fin a) (Fin 100) = Fin (a / 100)" by simp
  moreover have "js_div (Fin (of_int ti * (a / 100))) (Fin 12) = Fin (of_int ti * (a / 100) / 12)"
    by simp
  moreover have "of_int ti * (a / 100) / 12 = of_int ti * a / (1200 :: rat)" by simp
  ultimately show ?thesis by (simp add: monthly_returns_def)
qed





text \<open>
  When the average ROI is finite, the monthly return estimate is
  \<open>floor(totalInvested * avgROI / 1200)\<close>, computed from the unrounded average
  (not from the one-decimal display string).
\<close>

theorem monthly_returns_of_finite_average:
  assumes "avg_roi ps = Fin a"
  shows "monthlyReturns (compute_stats ps) = Fin (of_int \<lfloor>of_int (total_invested ps) * a / 1200\<rfloor>)"
  using assms by (simp add: monthly_returns_fin)

theorem monthly_returns_of_finite_average_witness:
  "avg_roi scenario_projects = Fin (1215 / 100) \<and>
   monthlyReturns (compute_stats scenario_projects) = Fin 126562"
proof -
  have a: "avg_roi scenario_projects = Fin (1215 / 100)"
    by (simp add: scenario_projects_def avg_roi_sum valid_rois_def js_isNaN_def js_eval)
  have t: "total_invested scenario_projects = 12500000"
    by (simp add: scenario_projects_def total_invested_sum current_or_zero_def)
  have f: "\<lfloor>of_int (12500000::int) * (1215 / 100) / (1200::rat)\<rfloor> = 126562"
    by code_simp
  from monthly_returns_of_finite_average [OF a] a t f show ?thesis by simp
qed

text \<open>The number of active projects never exceeds the number of projects.\<close>

theorem active_le_total: "activeProjects (compute_stats ps) \<le> totalProjects (compute_stats ps)"
  by (simp add: active_projects_def)

text \<open>
  When no project has a negative current amount, the total invested is
  non-negative (a null amount counts as 0).
\<close>

theorem total_invested_nonneg:
  assumes "\<forall>p\<in>set ps. 0 \<le> current_or_zero p"
  shows "0 \<le> totalInvested (compute_stats ps)"
  using assms by (simp add: total_invested_sum sum_list_nonneg_map)

theorem total_invested_nonneg_witness:
  "0 \<le> totalInvested (compute_stats scenario_projects)"
proof -
  have h: "\<forall>p\<in>set scenario_projects. 0 \<le> current_or_zero p"
    by (simp add: scenario_projects_def current_or_zero_def)
  with total_invested_nonneg [OF h] show ?thesis by simp
qed

text \<open>
  When no ROI string parses (every \<open>parseFloat\<close> is NaN), the average is 0,
  shown as "0.0", and the monthly return estimate is 0; unparseable values are
  excluded, not averaged in as 0.
\<close>

theorem avg_roi_zero_without_parseable:
  assumes "\<forall>p\<in>set ps. js_isNaN (js_parseFloat (roi p))"
  shows "avgROI (compute_stats ps) = Some ''0.0'' \<and> monthlyReturns (compute_stats ps) = Fin 0"
proof -
  have "avg_roi ps = Fin 0"
    using assms by (simp add: avg_roi_sum valid_rois_nan)
  moreover have "fixed1_digits 0 = ''0.0''"
    by code_simp
  ultimately show ?thesis
    by (simp add: monthly_returns_fin)
qed

theorem avg_roi_zero_without_parseable_witness:
  "avgROI (compute_stats [mk_project 1 [] ''DRAFT'' ''n/a'' 100 (Some 40)]) = Some ''0.0''"
proof -
  have h: "\<forall>p\<in>set [mk_project 1 [] ''DRAFT'' ''n/a'' 100 (Some 40)]. js_isNaN (js_parseFloat (roi p))"
    by (simp add: js_isNaN_def js_eval)
  from avg_roi_zero_without_parseable [OF h] show ?thesis by simp
qed

text \<open>
  C16. \<open>parseFloat\<close> accepts "Infinity", and the handler only filters out NaN: one
  project whose ROI string is "Infinity" (and none with "-Infinity") makes the average
  ROI infinite and the displayed average "Infinity", where the specification averages
  finite values only.
\<close>

theorem infinity_roi_makes_average_infinite:
  assumes "\<exists>p\<in>set ps. js_parseFloat (roi p) = PosInf"
    and "\<forall>p\<in>set ps. js_parseFloat (roi p) \<noteq> NegInf"
  shows "avg_roi ps = PosInf \<and> avgROI (compute_stats ps) = Some ''Infinity''"
proof -
  have "PosInf \<in> set (valid_rois ps)"
    using assms(1) by (force simp: valid_rois_def js_isNaN_def)
  moreover have "NaN \<notin> set (valid_rois ps)" "NegInf \<notin> set (valid_rois ps)"
    using assms(2) by (auto simp: valid_rois_def js_isNaN_def)
  ultimately have "sum_list (valid_rois ps) = PosInf" and "valid_rois ps \<noteq> []"
    by (auto intro: sum_list_posinf)
  then have "avg_roi ps = PosInf"
    by (simp add: avg_roi_sum inf_of_sign_def)
  then show ?thesis by simp
qed

theorem infinity_roi_makes_average_infinite_witness:
  "avgROI (compute_stats [mk_project 1 [] ''FUNDING'' ''Infinity'' 100 (Some 40),
            mk_project 2 [] ''FUNDING'' ''12.50'' 100 (Some 40)]) = Some ''Infinity''"
proof -
  let ?ps = "[mk_project 1 [] ''FUNDING'' ''Infinity'' 100 (Some 40),
              mk_project 2 [] ''FUNDING'' ''12.50'' 100 (Some 40)]"
  have h1: "\<exists>p\<in>set ?ps. js_parseFloat (roi p) = PosInf" by (simp add: js_eval)
  have h2: "\<forall>p\<in>set ?ps. js_parseFloat (roi p) \<noteq> NegInf" by (simp add: js_eval)
  from infinity_roi_makes_average_infinite [OF h1 h2] show ?thesis by simp
qed

text \<open>
  Nothing in the schema or the insert validation keeps \<open>currentAmount\<close>
  non-negative, and the handler sums it as stored: a single project with amount -500
  makes the total invested -500, where the specification states that it is never
  negative.
\<close>

theorem total_invested_negative_amount:
  "totalInvested (compute_stats [mk_project 1 [] ''FUNDING'' ''10'' 100 (Some (-500))]) = -500"
  by (simp add: total_invested_sum current_or_zero_def)



text \<open>
  The two pages read ROI strings with different parsers. \<open>parseFloat\<close> (dashboard)
  takes the longest numeric prefix, \<open>Number\<close> (projects page) needs the whole string
  and reads the empty string as 0. So a ROI "12.5%" counts as 12.5 in the dashboard
  average but is NaN on the projects page (excluded from every ROI band), and an empty
  ROI is excluded from the average but is 0 on the projects page, where the
  specification excludes unparseable values everywhere and never reads them as 0.
\<close>

theorem roi_parsers_disagree:
  "valid_rois [mk_project 1 [] [] ''12.5%'' 1 None] = [Fin (25 / 2)] \<and>
   js_Number ''12.5%'' = NaN \<and>
   valid_rois [mk_project 1 [] [] [] 1 None] = [] \<and>
   js_Number [] = Fin 0"
  by (simp add: valid_rois_def js_isNaN_def js_eval)

end
