(* ===== verification/JsSort.thy ===== *)
theory JsSort
  imports JsNumber
begin

text \<open>
  \<open>Array.prototype.sort(comparefn)\<close>, the built-in the projects page sorts with.
  ECMAScript (since 2019) requires the sort to be stable and, when \<open>comparefn\<close> is
  a consistent comparator, its result is then unique: the permutation of the input that
  is ordered by the comparator and keeps equal elements in input order. The engine's
  algorithm is not specified; the model is a stable insertion sort that calls
  \<open>comparefn(x, y)\<close> with \<open>x\<close> earlier in the input, and reads the result as
  SortCompare does (\<open>NaN\<close> counts as \<open>+0\<close>): \<open>x\<close> goes after \<open>y\<close> only when the
  result is positive. For consistent comparators the model is shown equal to the
  library's stable \<open>sort_key\<close> and to the unique list the ECMAScript contract allows,
  so it agrees with every conforming engine. For inconsistent comparators (the
  ECMAScript "implementation-defined" case) the model fixes one behaviour; only the
  permutation property is claimed there.
\<close>

definition cmp_sign :: "jsnum \<Rightarrow> int" where
  "cmp_sign v =
     (case v of
        Fin a \<Rightarrow> if 0 < a then 1 else if a < 0 then -1 else 0
      | PosInf \<Rightarrow> 1
      | NegInf \<Rightarrow> -1
      | NaN \<Rightarrow> 0)"

fun js_insort :: "('a \<Rightarrow> 'a \<Rightarrow> jsnum) \<Rightarrow> 'a \<Rightarrow> 'a list \<Rightarrow> 'a list" where
  "js_insort cmp x [] = [x]"
| "js_insort cmp x (y # ys) =
     (if 0 < cmp_sign (cmp x y) then y # js_insort cmp x ys else x # y # ys)"

definition js_sort :: "('a \<Rightarrow> 'a \<Rightarrow> jsnum) \<Rightarrow> 'a list \<Rightarrow> 'a list" where
  "js_sort cmp xs = foldr (js_insort cmp) xs []"

text \<open>
  A comparator is consistent on a list, with respect to a key into a linear order, when
  the sign it returns (after SortCompare) is the sign of the comparison of the keys.
\<close>

definition key_sign :: "'k::linorder \<Rightarrow> 'k \<Rightarrow> int" where
  "key_sign a b = (if a < b then -1 else if a = b then 0 else 1)"

definition consistent_on :: "('a \<Rightarrow> 'a \<Rightarrow> jsnum) \<Rightarrow> ('a \<Rightarrow> 'k::linorder) \<Rightarrow> 'a list \<Rightarrow> bool" where
  "consistent_on cmp key xs \<longleftrightarrow>
     (\<forall>a\<in>set xs. \<forall>b\<in>set xs. cmp_sign (cmp a b) = key_sign (key a) (key b))"

lemma js_sort_simps [simp]:
  "js_sort cmp [] = []"
  "js_sort cmp (x # xs) = js_insort cmp x (js_sort cmp xs)"
  by (simp_all add: js_sort_def)

lemma mset_js_insort [simp]: "mset (js_insort cmp x ys) = add_mset x (mset ys)"
  by (induction ys) auto

lemma mset_js_sort [simp]: "mset (js_sort cmp xs) = mset xs"
  by (induction xs) simp_all

lemma set_js_sort [simp]: "set (js_sort cmp xs) = set xs"
  by (metis mset_js_sort set_mset_mset)

lemma length_js_sort [simp]: "length (js_sort cmp xs) = length xs"
  by (metis mset_js_sort size_mset)

lemma consistent_on_subset:
  "consistent_on cmp key xs \<Longrightarrow> set ys \<subseteq> set xs \<Longrightarrow> consistent_on cmp key ys"
  by (auto simp: consistent_on_def)

lemma js_insort_insort_key:
  "consistent_on cmp key (x # ys) \<Longrightarrow> js_insort cmp x ys = insort_key key x ys"
proof (induction ys)
  case Nil
  then show ?case by simp
next
  case (Cons y ys)
  have sign: "cmp_sign (cmp x y) = key_sign (key x) (key y)"
    using Cons.prems by (simp add: consistent_on_def)
  have "consistent_on cmp key (x # ys)"
    using Cons.prems by (rule consistent_on_subset) auto
  with Cons.IH sign show ?case
    by (auto simp: key_sign_def)
qed

lemma js_sort_sort_key:
  "consistent_on cmp key xs \<Longrightarrow> js_sort cmp xs = sort_key key xs"
proof (induction xs)
  case Nil
  then show ?case by simp
next
  case (Cons x xs)
  have "consistent_on cmp key xs"
    using Cons.prems by (rule consistent_on_subset) auto
  then have "js_sort cmp xs = sort_key key xs"
    by (rule Cons.IH)
  moreover have "consistent_on cmp key (x # sort_key key xs)"
    using Cons.prems by (rule consistent_on_subset) auto
  ultimately show ?case by (simp add: js_insort_insort_key)
qed

lemma js_insort_nonpos: "\<forall>a b. cmp_sign (cmp a b) \<le> 0 \<Longrightarrow> js_insort cmp x ys = x # ys"
  by (cases ys) (auto simp: not_less [symmetric])

lemma js_sort_nonpos: "\<forall>a b. cmp_sign (cmp a b) \<le> 0 \<Longrightarrow> js_sort cmp xs = xs"
  by (induction xs) (simp_all add: js_insort_nonpos)

text \<open>
  The comparators \<open>(a, b) => f(b) - f(a)\<close> and \<open>(a, b) => f(a) - f(b)\<close> are
  consistent on a list whose values \<open>f\<close> are all finite: they order by \<open>- g\<close> and
  \<open>g\<close> respectively, where \<open>Fin (g x)\<close> is the value.
\<close>

lemma cmp_sign_sub_fin: "cmp_sign (js_sub (Fin a) (Fin b)) = key_sign a b"
  by (simp add: cmp_sign_def key_sign_def)

lemma sub_desc_consistent:
  assumes "\<forall>x\<in>set xs. f x = Fin (g x)"
  shows "consistent_on (\<lambda>a b. js_sub (f b) (f a)) (\<lambda>x. - g x) xs"
  using assms by (auto simp: consistent_on_def cmp_sign_def key_sign_def)

lemma sub_asc_consistent:
  assumes "\<forall>x\<in>set xs. f x = Fin (g x)"
  shows "consistent_on (\<lambda>a b. js_sub (f a) (f b)) g xs"
  using assms by (auto simp: consistent_on_def cmp_sign_def key_sign_def)

text \<open>
  For a consistent comparator, the model's result is the one list the ECMAScript
  contract of a stable sort allows: a list is the model's result exactly when it is a
  permutation of the input, ordered by the key, and keeps the input order among
  elements with equal keys. Any conforming engine therefore returns the model's list.
\<close>

lemma js_sort_stable_sort_contract:
  assumes "consistent_on cmp key xs"
  shows "ys = js_sort cmp xs \<longleftrightarrow>
           mset ys = mset xs \<and> sorted (map key ys) \<and>
           (\<forall>k. filter (\<lambda>y. key y = k) ys = filter (\<lambda>y. key y = k) xs)"
proof -
  have eq: "js_sort cmp xs = sort_key key xs"
    using assms by (rule js_sort_sort_key)
  show ?thesis
  proof
    assume "ys = js_sort cmp xs"
    then show "mset ys = mset xs \<and> sorted (map key ys) \<and>
           (\<forall>k. filter (\<lambda>y. key y = k) ys = filter (\<lambda>y. key y = k) xs)"
      by (simp add: eq sort_key_stable)
  next
    assume props: "mset ys = mset xs \<and> sorted (map key ys) \<and>
           (\<forall>k. filter (\<lambda>y. key y = k) ys = filter (\<lambda>y. key y = k) xs)"
    have "sort_key key xs = ys"
    proof (rule properties_for_sort_key)
      show "mset ys = mset xs" "sorted (map key ys)" using props by auto
      fix k
      have "filter (\<lambda>y. key y = key k) ys = filter (\<lambda>y. key y = key k) xs"
        using props by blast
      then show "filter (\<lambda>x. key k = key x) ys = filter (\<lambda>x. key k = key x) xs"
        by (simp add: eq_commute)
    qed
    then show "ys = js_sort cmp xs" by (simp add: eq)
  qed
qed

end
