(* ===== verification/ProjectFilter.thy ===== *)
theory ProjectFilter
  imports Schema JsSort
begin

text \<open>
  The filter-sort engine of the projects page (\<open>src/client/src/pages/projects.tsx\<close>):
  the React state of the filter bar (lines 48--53) is the record \<open>criteria\<close>, the
  memoised \<open>filteredProjects\<close> (lines 64--93) is the function of the same name,
  built as the code builds it: a conjunction of four match predicates, then
  \<open>Array.prototype.sort\<close> (theory JsSort) with the comparator chosen by
  \<open>sortBy\<close>. ROI values are read with \<open>Number(...)\<close> and funding ratios are
  JS divisions, so unparseable ROIs are NaN and a zero target gives an infinity or NaN,
  as in the browser. The "Clear Filters" buttons (lines 296--301, 327--332) are
  \<open>clear_filters\<close>.
\<close>

record criteria =
  searchTerm :: string
  statusFilter :: string
  locationFilter :: string
  roiFilter :: string
  sortBy :: string

definition initial_criteria :: criteria where
  "initial_criteria =
     \<lparr>searchTerm = [], statusFilter = ''all'', locationFilter = ''all'', roiFilter = ''all'',
      sortBy = ''newest''\<rparr>"

definition matchesSearch :: "criteria \<Rightarrow> project \<Rightarrow> bool" where
  "matchesSearch c p \<longleftrightarrow>
     js_includes (js_toLowerCase (title p)) (js_toLowerCase (searchTerm c)) \<or>
     js_includes (js_toLowerCase (description p)) (js_toLowerCase (searchTerm c))"

definition matchesStatus :: "criteria \<Rightarrow> project \<Rightarrow> bool" where
  "matchesStatus c p \<longleftrightarrow> statusFilter c = ''all'' \<or> js_toLowerCase (status p) = statusFilter c"

definition matchesLocation :: "criteria \<Rightarrow> project \<Rightarrow> bool" where
  "matchesLocation c p \<longleftrightarrow> locationFilter c = ''all''"

definition matchesROI :: "criteria \<Rightarrow> project \<Rightarrow> bool" where
  "matchesROI c p \<longleftrightarrow>
     roiFilter c = ''all'' \<or>
     (roiFilter c = ''10-12'' \<and> js_ge (js_Number (roi p)) (Fin 10) \<and> js_le (js_Number (roi p)) (Fin 12)) \<or>
     (roiFilter c = ''12-15'' \<and> js_ge (js_Number (roi p)) (Fin 12) \<and> js_le (js_Number (roi p)) (Fin 15)) \<or>
     (roiFilter c = ''15+'' \<and> js_ge (js_Number (roi p)) (Fin 15))"

definition project_matches :: "criteria \<Rightarrow> project \<Rightarrow> bool" where
  "project_matches c p \<longleftrightarrow>
     matchesSearch c p \<and> matchesStatus c p \<and> matchesLocation c p \<and> matchesROI c p"

definition funding_ratio :: "project \<Rightarrow> jsnum" where
  "funding_ratio p = js_div (Fin (of_int (current_or_zero p))) (Fin (of_int (targetAmount p)))"

definition project_compare :: "string \<Rightarrow> project \<Rightarrow> project \<Rightarrow> jsnum" where
  "project_compare sb a b =
     (if sb = ''roi-high'' then js_sub (js_Number (roi b)) (js_Number (roi a))
      else if sb = ''roi-low'' then js_sub (js_Number (roi a)) (js_Number (roi b))
      else if sb = ''funding-high'' then js_sub (funding_ratio b) (funding_ratio a)
      else if sb = ''funding-low'' then js_sub (funding_ratio a) (funding_ratio b)
      else Fin 0)"

definition filteredProjects :: "criteria \<Rightarrow> project list \<Rightarrow> project list" where
  "filteredProjects c ps = js_sort (project_compare (sortBy c)) (filter (project_matches c) ps)"

definition clear_filters :: "criteria \<Rightarrow> criteria" where
  "clear_filters c =
     c\<lparr>searchTerm := [], statusFilter := ''all'', locationFilter := ''all'', roiFilter := ''all''\<rparr>"

text \<open>The numeric ROI the page compares, for projects whose ROI string is a number.\<close>

definition roi_value :: "project \<Rightarrow> rat" where
  "roi_value p = fin_val (js_Number (roi p))"

text \<open>The funding ratio as a rational, for projects with a positive target.\<close>

definition funding_value :: "project \<Rightarrow> rat" where
  "funding_value p = of_int (current_or_zero p) / of_int (targetAmount p)"

lemmas filter_defs [model_defs] =
  matchesSearch_def matchesStatus_def matchesLocation_def matchesROI_def project_matches_def

lemma js_lower_char_idem [simp]: "js_lower_char (js_lower_char c) = js_lower_char c"
  by (simp add: js_lower_char_def Let_def)

lemma js_toLowerCase_idem [simp]: "js_toLowerCase (js_toLowerCase s) = js_toLowerCase s"
  by (simp add: js_toLowerCase_def comp_def)

lemma project_compare_default:
  "sb \<notin> {''roi-high'', ''roi-low'', ''funding-high'', ''funding-low''} \<Longrightarrow>
   project_compare sb a b = Fin 0"
  by (simp add: project_compare_def)

lemma project_compare_modes:
  "project_compare ''roi-high'' = (\<lambda>a b. js_sub (js_Number (roi b)) (js_Number (roi a)))"
  "project_compare ''roi-low'' = (\<lambda>a b. js_sub (js_Number (roi a)) (js_Number (roi b)))"
  "project_compare ''funding-high'' = (\<lambda>a b. js_sub (funding_ratio b) (funding_ratio a))"
  "project_compare ''funding-low'' = (\<lambda>a b. js_sub (funding_ratio a) (funding_ratio b))"
  by (simp_all add: project_compare_def fun_eq_iff)

lemma funding_ratio_pos_target:
  "0 < targetAmount p \<Longrightarrow> funding_ratio p = Fin (funding_value p)"
  by (simp add: funding_ratio_def funding_value_def)

lemma funding_ratio_zero_target:
  "targetAmount p = 0 \<Longrightarrow> current_or_zero p = 0 \<Longrightarrow> funding_ratio p = NaN"
  by (simp add: funding_ratio_def inf_of_sign_def)

lemma matchesStatus_lower:
  "matchesStatus c p \<Longrightarrow> statusFilter c = ''all'' \<or> js_toLowerCase (statusFilter c) = statusFilter c"
  unfolding matchesStatus_def by (metis js_toLowerCase_idem)

lemma filter_matches_nan:
  "roiFilter c \<noteq> ''all'' \<Longrightarrow> js_Number (roi p) = NaN \<Longrightarrow> \<not> matchesROI c p"
  by (simp add: matchesROI_def)

lemma clear_filters_matches: "project_matches (clear_filters c) p"
  by (simp add: clear_filters_def filter_defs)

lemma roi_value_consistent:
  "\<forall>p\<in>set xs. js_Number (roi p) = Fin (roi_value p) \<Longrightarrow>
   consistent_on (project_compare ''roi-high'') (\<lambda>p. - roi_value p) xs"
  by (simp add: project_compare_modes sub_desc_consistent)

lemma funding_value_consistent:
  "\<forall>p\<in>set xs. 0 < targetAmount p \<Longrightarrow>
   consistent_on (project_compare ''funding-high'') (\<lambda>p. - funding_value p) xs"
  by (simp add: project_compare_modes sub_desc_consistent funding_ratio_pos_target)


text \<open>
  C2. With the default sort key ("newest", or any value other than the four named
  keys) the comparator returns 0 and the stable sort keeps the fetched order: the page
  shows the matching projects in input order.
\<close>

theorem filteredProjects_newest_keeps_order:
  assumes "sortBy c \<notin> {''roi-high'', ''roi-low'', ''funding-high'', ''funding-low''}"
  shows "filteredProjects c ps = filter (project_matches c) ps"
proof -
  have "\<forall>a b. cmp_sign (project_compare (sortBy c) a b) \<le> 0"
    using assms by (simp add: project_compare_default cmp_sign_def)
  then show ?thesis by (simp add: filteredProjects_def js_sort_nonpos)
qed

theorem filteredProjects_newest_keeps_order_witness:
  "sortBy initial_criteria \<notin> {''roi-high'', ''roi-low'', ''funding-high'', ''funding-low''} \<and>
   map pid (filteredProjects initial_criteria scenario_projects) = [1, 2, 3]"
  using filteredProjects_newest_keeps_order [of initial_criteria scenario_projects]
  by (simp add: initial_criteria_def scenario_projects_def filter_defs)

text \<open>
  C3. Sorting by "roi-high", when every shown project's ROI string is a number, yields
  the matching projects in descending ROI order, ties in input order: the result is the
  library's stable sort by the negated ROI.
\<close>

theorem filteredProjects_roi_high_stable:
  assumes "sortBy c = ''roi-high''"
    and "\<forall>p\<in>set ps. project_matches c p \<longrightarrow> js_Number (roi p) = Fin (roi_value p)"
  shows "filteredProjects c ps = sort_key (\<lambda>p. - roi_value p) (filter (project_matches c) ps)"
proof -
  have "consistent_on (project_compare ''roi-high'') (\<lambda>p. - roi_value p) (filter (project_matches c) ps)"
    using assms(2) by (intro roi_value_consistent) simp
  then show ?thesis using assms(1) by (simp add: filteredProjects_def js_sort_sort_key)
qed

theorem filteredProjects_roi_high_stable_witness:
  "sortBy (initial_criteria\<lparr>sortBy := ''roi-high''\<rparr>) = ''roi-high'' \<and>
   map pid (filteredProjects (initial_criteria\<lparr>sortBy := ''roi-high''\<rparr>) scenario_projects) = [2, 1, 3]"
proof -
  have h: "\<forall>p\<in>set scenario_projects. project_matches (initial_criteria\<lparr>sortBy := ''roi-high''\<rparr>) p \<longrightarrow>
      js_Number (roi p) = Fin (roi_value p)"
    by (simp add: scenario_projects_def roi_value_def js_eval)
  from filteredProjects_roi_high_stable [OF _ h] h show ?thesis
    by (simp add: scenario_projects_def initial_criteria_def roi_value_def filter_defs js_eval)
qed

text \<open>
  C4. The ROI band "12-15" keeps a project exactly when its ROI string is a finite
  number between 12 and 15, both ends included.
\<close>

theorem roi_band_12_15:
  assumes "roiFilter c = ''12-15''"
  shows "matchesROI c p \<longleftrightarrow> (\<exists>q. js_Number (roi p) = Fin q \<and> 12 \<le> q \<and> q \<le> 15)"
  using assms by (cases "js_Number (roi p)") (auto simp: matchesROI_def js_le_def)

theorem roi_band_12_15_witness:
  "roiFilter (initial_criteria\<lparr>roiFilter := ''12-15''\<rparr>) = ''12-15'' \<and>
   matchesROI (initial_criteria\<lparr>roiFilter := ''12-15''\<rparr>) (mk_project 1 [] [] ''12.0'' 1 None) \<and>
   matchesROI (initial_criteria\<lparr>roiFilter := ''12-15''\<rparr>) (mk_project 2 [] [] ''15.0'' 1 None) \<and>
   \<not> matchesROI (initial_criteria\<lparr>roiFilter := ''12-15''\<rparr>) (mk_project 3 [] [] ''11.9'' 1 None) \<and>
   \<not> matchesROI (initial_criteria\<lparr>roiFilter := ''12-15''\<rparr>) (mk_project 4 [] [] ''15.1'' 1 None)"
  using roi_band_12_15 [of "initial_criteria\<lparr>roiFilter := ''12-15''\<rparr>"]
  by (simp add: js_eval)

text \<open>
  C11. Sorting by "funding-high", when every shown project has a positive target,
  yields the matching projects by descending funding ratio (current / target), ties in
  input order.
\<close>

theorem filteredProjects_funding_high_stable:
  assumes "sortBy c = ''funding-high''"
    and "\<forall>p\<in>set ps. project_matches c p \<longrightarrow> 0 < targetAmount p"
  shows "filteredProjects c ps = sort_key (\<lambda>p. - funding_value p) (filter (project_matches c) ps)"
proof -
  have "consistent_on (project_compare ''funding-high'') (\<lambda>p. - funding_value p) (filter (project_matches c) ps)"
    using assms(2) by (intro funding_value_consistent) simp
  then show ?thesis using assms(1) by (simp add: filteredProjects_def js_sort_sort_key)
qed

theorem filteredProjects_funding_high_stable_witness:
  "sortBy (initial_criteria\<lparr>sortBy := ''funding-high''\<rparr>) = ''funding-high'' \<and>
   map pid (filteredProjects (initial_criteria\<lparr>sortBy := ''funding-high''\<rparr>) scenario_projects) = [2, 1, 3]"
proof -
  have h: "\<forall>p\<in>set scenario_projects. project_matches (initial_criteria\<lparr>sortBy := ''funding-high''\<rparr>) p \<longrightarrow>
      0 < targetAmount p"
    by (simp add: scenario_projects_def)
  from filteredProjects_funding_high_stable [OF _ h] h show ?thesis
    by (simp add: scenario_projects_def initial_criteria_def funding_value_def current_or_zero_def
        filter_defs js_eval)
qed

text \<open>
  The status filter compares the lower-cased status with the filter value as it
  is: a filter value with an upper-case letter (such as "ACTIVE") matches no project at
  all, even projects whose status is "ACTIVE". The page's drop-down only offers
  lower-case values, so this concerns other callers of the same logic.
\<close>

theorem uppercase_status_filter_matches_nothing:
  assumes "statusFilter c \<noteq> ''all''" and "js_toLowerCase (statusFilter c) \<noteq> statusFilter c"
  shows "filteredProjects c ps = []"
proof -
  have "\<forall>p\<in>set ps. \<not> project_matches c p"
    using assms matchesStatus_lower by (auto simp: project_matches_def)
  then show ?thesis by (simp add: filteredProjects_def filter_empty_conv)
qed

theorem uppercase_status_filter_matches_nothing_witness:
  "statusFilter (initial_criteria\<lparr>statusFilter := ''ACTIVE''\<rparr>) \<noteq> ''all'' \<and>
   js_toLowerCase (statusFilter (initial_criteria\<lparr>statusFilter := ''ACTIVE''\<rparr>)) \<noteq> ''ACTIVE'' \<and>
   filteredProjects (initial_criteria\<lparr>statusFilter := ''ACTIVE''\<rparr>) scenario_projects = [] \<and>
   map pid (filteredProjects (initial_criteria\<lparr>statusFilter := ''active''\<rparr>) scenario_projects) = [1]"
proof -
  have l: "js_toLowerCase ''ACTIVE'' = ''active''" by code_simp
  have h1: "statusFilter (initial_criteria\<lparr>statusFilter := ''ACTIVE''\<rparr>) \<noteq> ''all''"
    by (simp add: initial_criteria_def)
  have h2: "js_toLowerCase (statusFilter (initial_criteria\<lparr>statusFilter := ''ACTIVE''\<rparr>)) \<noteq>
      statusFilter (initial_criteria\<lparr>statusFilter := ''ACTIVE''\<rparr>)"
    by (simp add: l)
  have "map pid (filteredProjects (initial_criteria\<lparr>statusFilter := ''active''\<rparr>) scenario_projects) = [1]"
    by code_simp
  with uppercase_status_filter_matches_nothing [OF h1 h2] h1 h2 show ?thesis by simp
qed

text \<open>
  Under any ROI band other than "all", a project whose ROI string is not a number
  (\<open>Number(roi)\<close> is NaN) is never shown.
\<close>

theorem unparseable_roi_excluded_from_bands:
  assumes "roiFilter c \<noteq> ''all''" and "js_Number (roi p) = NaN"
  shows "p \<notin> set (filteredProjects c ps)"
  using assms filter_matches_nan by (simp add: filteredProjects_def project_matches_def)

theorem unparseable_roi_excluded_from_bands_witness:
  "roiFilter (initial_criteria\<lparr>roiFilter := ''15+''\<rparr>) \<noteq> ''all'' \<and>
   js_Number (roi (mk_project 7 [] [] ''20%'' 1 None)) = NaN \<and>
   mk_project 7 [] [] ''20%'' 1 None \<notin> set (filteredProjects (initial_criteria\<lparr>roiFilter := ''15+''\<rparr>)
     [mk_project 7 [] [] ''20%'' 1 None])"
  using unparseable_roi_excluded_from_bands [of "initial_criteria\<lparr>roiFilter := ''15+''\<rparr>"
      "mk_project 7 [] [] ''20%'' 1 None" "[mk_project 7 [] [] ''20%'' 1 None]"]
  by (simp add: initial_criteria_def js_eval)

text \<open>
  C15. With a project whose target and current amount are both 0, the "funding-high"
  comparator returns NaN against every other project (its ratio is \<open>0 / 0\<close>), which
  SortCompare reads as "equal". Together with two projects of different ratios this is
  no consistent comparator for any key: the order of the sort is implementation-defined
  in ECMAScript, where the specification asks for the ratio to count as \<open>+Infinity\<close>.
\<close>

theorem funding_comparator_inconsistent_zero_target:
  "\<not> consistent_on (project_compare ''funding-high'') key
      [mk_project 1 [] [] ''10'' 100 (Some 100), mk_project 2 [] [] ''10'' 0 None,
       mk_project 3 [] [] ''10'' 100 (Some 50)]"
proof
  let ?a = "mk_project 1 [] [] ''10'' 100 (Some 100)"
  let ?n = "mk_project 2 [] [] ''10'' 0 None"
  let ?b = "mk_project 3 [] [] ''10'' 100 (Some 50)"
  assume "consistent_on (project_compare ''funding-high'') key [?a, ?n, ?b]"
  then have "key_sign (key ?a) (key ?n) = 0" "key_sign (key ?n) (key ?b) = 0"
      "key_sign (key ?a) (key ?b) = -1"
    by (simp_all add: consistent_on_def project_compare_modes funding_ratio_def current_or_zero_def
        cmp_sign_def inf_of_sign_def js_sub_def)
  then show False by (simp add: key_sign_def split: if_splits)
qed

text \<open>
  C18. The search box matches a project when the lower-cased search term is a
  contiguous substring of the lower-cased title or description (the empty term matches
  every project).
\<close>

theorem search_is_case_insensitive_substring:
  "matchesSearch c p \<longleftrightarrow>
     sublist (js_toLowerCase (searchTerm c)) (js_toLowerCase (title p)) \<or>
     sublist (js_toLowerCase (searchTerm c)) (js_toLowerCase (description p))"
  by (simp add: matchesSearch_def js_includes_sublist)

text \<open>
  After "Clear Filters" the page shows every fetched project, in the order of the
  current sort key; with the initial state it shows them in fetched order.
\<close>

theorem clear_filters_shows_every_project:
  "mset (filteredProjects (clear_filters c) ps) = mset ps \<and>
   filteredProjects initial_criteria ps = ps"
proof
  show "mset (filteredProjects (clear_filters c) ps) = mset ps"
    by (simp add: filteredProjects_def clear_filters_matches)
  have "filteredProjects initial_criteria ps = filter (project_matches initial_criteria) ps"
    by (simp add: filteredProjects_def initial_criteria_def js_sort_nonpos project_compare_default
        cmp_sign_def)
  also have "\<dots> = ps"
    by (simp add: initial_criteria_def filter_defs)
  finally show "filteredProjects initial_criteria ps = ps" .
qed



end
