(* ===== verification/Tables.thy ===== *)
theory Tables
  imports Schema
begin

text \<open>
  The other tables of \<open>src/shared/schema.ts\<close> and the insert types of the storage
  interface. A row type (\<open>typeof t.$inferSelect\<close>) is a record whose nullable columns
  are \<open>option\<close>s, as for \<^typ>\<open>project\<close> in theory Schema; the fields carry a short
  prefix per table (\<open>u_\<close> users, \<open>inv_\<close> investments, \<open>tx_\<close> transactions,
  \<open>tm_\<close> testimonials, \<open>nt_\<close>, \<open>faq_\<close>, \<open>ec_\<close>, \<open>md_\<close>, \<open>us_\<close>) because record
  selectors share one name space. An insert type (\<open>z.infer\<close> of a
  \<open>createInsertSchema\<close>) has a plain field for a column that is \<open>notNull\<close> without
  default, and a \<open>'a nullish\<close> for the others: the property may be absent
  (\<open>undefined\<close>), \<open>null\<close>, or a value. The difference matters: \<open>x ?? null\<close> reads
  absent and \<open>null\<close> alike, an SQL \<open>INSERT\<close> stores the column default for an
  absent property and \<open>NULL\<close> for \<open>null\<close>.
\<close>

datatype 'a nullish = Undef | Null | Val 'a

text \<open>\<open>x ?? null\<close>, and \<open>x ?? d\<close> for a default \<open>d\<close>.\<close>

fun or_null :: "'a nullish \<Rightarrow> 'a option" where
  "or_null (Val v) = Some v"
| "or_null _ = None"

fun or_default :: "'a nullish \<Rightarrow> 'a \<Rightarrow> 'a" where
  "or_default (Val v) d = v"
| "or_default _ d = d"

text \<open>The value an SQL \<open>INSERT\<close> stores for a column with default \<open>d\<close> (\<open>None\<close>: no default).\<close>

fun db_column :: "'a nullish \<Rightarrow> 'a option \<Rightarrow> 'a option" where
  "db_column Undef d = d"
| "db_column Null d = None"
| "db_column (Val v) d = Some v"

text \<open>A JSON value, for the \<open>jsonb\<close> columns typed \<open>Record<string, any>\<close>.\<close>

datatype json = JNull | JBool bool | JNum rat | JStr string | JArr "json list"
  | JObj "(string \<times> json) list"

datatype risk_tolerance = RiskLow | RiskMedium | RiskHigh

record user_prefs =
  notifications :: bool
  emailUpdates :: bool
  riskTolerance :: risk_tolerance
  investmentGoals :: "string list"

record user =
  u_id :: int
  u_username :: string
  u_email :: string
  u_password :: string
  u_firstName :: "string option"
  u_lastName :: "string option"
  u_phone :: "string option"
  u_avatar :: "string option"
  u_dateOfBirth :: "string option"
  u_nationality :: "string option"
  u_kycVerified :: "bool option"
  u_isActive :: "bool option"
  u_lastLoginAt :: "timestamp option"
  u_preferences :: "user_prefs option"
  u_createdAt :: "timestamp option"
  u_updatedAt :: "timestamp option"

record investment =
  inv_id :: int
  inv_userId :: "int option"
  inv_projectId :: "int option"
  inv_amount :: int
  inv_units :: "int option"
  inv_returns :: "string option"
  inv_status :: string
  inv_investmentDate :: "timestamp option"
  inv_expectedReturnDate :: "string option"
  inv_actualReturnDate :: "string option"
  inv_notes :: "string option"
  inv_createdAt :: "timestamp option"
  inv_updatedAt :: "timestamp option"

record transaction =
  tx_id :: int
  tx_userId :: "int option"
  tx_projectId :: "int option"
  tx_investmentId :: "int option"
  tx_amount :: int
  tx_type :: string
  tx_status :: string
  tx_paymentMethod :: "string option"
  tx_reference :: "string option"
  tx_description :: "string option"
  tx_fees :: "int option"
  tx_netAmount :: "int option"
  tx_processedAt :: "timestamp option"
  tx_createdAt :: "timestamp option"

record testimonial =
  tm_id :: int
  tm_name :: string
  tm_avatar :: "string option"
  tm_content :: string
  tm_rating :: int
  tm_verified :: "bool option"
  tm_featured :: "bool option"
  tm_userId :: "int option"
  tm_projectId :: "int option"
  tm_investmentAmount :: "int option"
  tm_investmentDuration :: "string option"
  tm_location :: "string option"
  tm_createdAt :: "timestamp option"

record notification =
  nt_id :: int
  nt_userId :: "int option"
  nt_title :: string
  nt_message :: string
  nt_type :: string
  nt_read :: "bool option"
  nt_actionUrl :: "string option"
  nt_metadata :: "json option"
  nt_createdAt :: "timestamp option"

record faq =
  faq_id :: int
  faq_question :: string
  faq_answer :: string
  faq_category :: string
  faq_priority :: "int option"
  faq_tags :: "string list option"
  faq_helpful :: "int option"
  faq_notHelpful :: "int option"
  faq_isActive :: "bool option"
  faq_createdAt :: "timestamp option"
  faq_updatedAt :: "timestamp option"

record educational_content =
  ec_id :: int
  ec_title :: string
  ec_content :: string
  ec_excerpt :: "string option"
  ec_type :: string
  ec_category :: string
  ec_difficulty :: string
  ec_duration :: "int option"
  ec_thumbnail :: "string option"
  ec_videoUrl :: "string option"
  ec_attachments :: "document list option"
  ec_author :: "string option"
  ec_featured :: "bool option"
  ec_views :: "int option"
  ec_likes :: "int option"
  ec_isPublished :: "bool option"
  ec_publishedAt :: "timestamp option"
  ec_createdAt :: "timestamp option"
  ec_updatedAt :: "timestamp option"

record market_data =
  md_id :: int
  md_location :: string
  md_propertyType :: string
  md_averagePrice :: "int option"
  md_averageRent :: "int option"
  md_priceGrowth :: "string option"
  md_rentGrowth :: "string option"
  md_vacancyRate :: "string option"
  md_marketTrend :: "string option"
  md_dataDate :: string
  md_source :: "string option"
  md_createdAt :: "timestamp option"

record user_session =
  us_id :: int
  us_userId :: "int option"
  us_sessionId :: string
  us_userAgent :: "string option"
  us_ipAddress :: "string option"
  us_deviceType :: "string option"
  us_browser :: "string option"
  us_os :: "string option"
  us_country :: "string option"
  us_city :: "string option"
  us_startedAt :: "timestamp option"
  us_endedAt :: "timestamp option"
  us_duration :: "int option"
  us_pagesVisited :: "string list option"
  us_createdAt :: "timestamp option"

text \<open>
  The insert types: \<open>insertUserSchema\<close> picks eight columns of \<open>users\<close>; the others
  omit \<open>id\<close> and the timestamps filled by \<open>defaultNow()\<close>.
\<close>

record insert_user =
  iu_username :: string
  iu_email :: string
  iu_password :: string
  iu_firstName :: "string nullish"
  iu_lastName :: "string nullish"
  iu_phone :: "string nullish"
  iu_nationality :: "string nullish"
  iu_preferences :: "user_prefs nullish"

record insert_project =
  ip_title :: string
  ip_description :: string
  ip_shortDescription :: "string nullish"
  ip_location :: string
  ip_category :: string
  ip_propertyType :: string
  ip_roi :: string
  ip_minInvestment :: int
  ip_targetAmount :: int
  ip_currentAmount :: "int nullish"
  ip_status :: string
  ip_featured :: "bool nullish"
  ip_priority :: "int nullish"
  ip_propertySize :: "int nullish"
  ip_bedrooms :: "int nullish"
  ip_bathrooms :: "int nullish"
  ip_floors :: "int nullish"
  ip_parkingSpaces :: "int nullish"
  ip_expectedCompletionDate :: "string nullish"
  ip_monthlyRent :: "int nullish"
  ip_annualAppreciation :: "string nullish"
  ip_imageUrl :: "string nullish"
  ip_gallery :: "string list nullish"
  ip_videoUrl :: "string nullish"
  ip_latitude :: "string nullish"
  ip_longitude :: "string nullish"
  ip_address :: "string nullish"
  ip_city :: "string nullish"
  ip_state :: "string nullish"
  ip_country :: "string nullish"
  ip_postalCode :: "string nullish"
  ip_constructionStartDate :: "string nullish"
  ip_constructionEndDate :: "string nullish"
  ip_tags :: "string list nullish"
  ip_amenities :: "string list nullish"
  ip_documents :: "document list nullish"

record insert_investment =
  ii_userId :: "int nullish"
  ii_projectId :: "int nullish"
  ii_amount :: int
  ii_units :: "int nullish"
  ii_returns :: "string nullish"
  ii_status :: "string nullish"
  ii_investmentDate :: "timestamp nullish"
  ii_expectedReturnDate :: "string nullish"
  ii_actualReturnDate :: "string nullish"
  ii_notes :: "string nullish"

record insert_transaction =
  it_userId :: "int nullish"
  it_projectId :: "int nullish"
  it_investmentId :: "int nullish"
  it_amount :: int
  it_type :: string
  it_status :: string
  it_paymentMethod :: "string nullish"
  it_reference :: "string nullish"
  it_description :: "string nullish"
  it_fees :: "int nullish"
  it_netAmount :: "int nullish"
  it_processedAt :: "timestamp nullish"

record insert_testimonial =
  its_name :: string
  its_avatar :: "string nullish"
  its_content :: string
  its_rating :: int
  its_verified :: "bool nullish"
  its_featured :: "bool nullish"
  its_userId :: "int nullish"
  its_projectId :: "int nullish"
  its_investmentAmount :: "int nullish"
  its_investmentDuration :: "string nullish"
  its_location :: "string nullish"

end
