(* ===== verification/JsMap.thy ===== *)
theory JsMap
  imports JsNumber "HOL-Library.AList"
begin

text \<open>
  A JS \<open>Map<number, V>\<close> keyed by row ids, as the in-memory backend uses it: an
  association list in insertion order. \<open>map.get(k)\<close> is \<^const>\<open>map_of\<close>,
  \<open>map.set(k, v)\<close> is \<^const>\<open>AList.update\<close> (a present key keeps its position and
  gets the new value, a new key goes to the end) and \<open>Array.from(map.values())\<close> is
  \<open>map snd\<close>. \<open>table_inv key ctr m\<close> is the invariant of a table whose ids come
  from the counter \<open>ctr\<close>: the keys are increasing, every row's id is its key, and
  every key is positive and below the counter. The lemmas show what \<open>set\<close> with a
  fresh id from the counter, and \<open>set\<close> on a present key, do to a table with the
  invariant.
\<close>

type_synonym 'v jsmap = "(int \<times> 'v) list"

text \<open>
  The key \<open>map.get(x)\<close> finds in a map whose keys are integers: keys are compared
  by SameValueZero, so only a finite integral \<open>x\<close> can find one; \<open>NaN\<close>, the
  infinities and fractions find none.
\<close>

definition js_map_key :: "jsnum \<Rightarrow> int option" where
  "js_map_key x = (case x of Fin q \<Rightarrow> if of_int \<lfloor>q\<rfloor> = q then Some \<lfloor>q\<rfloor> else None | _ \<Rightarrow> None)"

definition table_inv :: "('v \<Rightarrow> int) \<Rightarrow> int \<Rightarrow> 'v jsmap \<Rightarrow> bool" where
  "table_inv key ctr m \<longleftrightarrow>
     0 < ctr \<and> sorted_wrt (<) (map fst m) \<and> (\<forall>(k, v)\<in>set m. key v = k \<and> 0 < k \<and> k < ctr)"

lemma update_fresh_append:
  "k \<notin> fst ` set m \<Longrightarrow> AList.update k v m = m @ [(k, v)]"
  by (induction m) auto

lemma set_update_subset: "set (AList.update k v m) \<subseteq> insert (k, v) (set m)"
  by (induction m) auto

lemma table_inv_fresh: "table_inv key ctr m \<Longrightarrow> ctr \<notin> fst ` set m"
  by (auto simp: table_inv_def)

lemma table_inv_alloc:
  assumes "table_inv key ctr m" and "key v = ctr"
  shows "table_inv key (ctr + 1) (AList.update ctr v m)"
proof -
  have fresh: "AList.update ctr v m = m @ [(ctr, v)]"
    using assms(1) by (intro update_fresh_append table_inv_fresh)
  have "\<forall>x\<in>set (map fst m). x < ctr"
    using assms(1) by (auto simp: table_inv_def)
  with assms show ?thesis
    by (auto simp: table_inv_def fresh sorted_wrt_append)
qed

lemma table_inv_set_present:
  assumes "table_inv key ctr m" and "k \<in> fst ` set m" and "key v = k"
  shows "table_inv key ctr (AList.update k v m)"
proof -
  have keys: "map fst (AList.update k v m) = map fst m"
    using assms(2) by (simp add: update_keys)
  have "(k, v) \<in> set m \<Longrightarrow> 0 < k \<and> k < ctr" for v
    using assms(1) by (auto simp: table_inv_def)
  then have "0 < k \<and> k < ctr"
    using assms(2) by auto
  then show ?thesis
    using assms(1,3) set_update_subset [of k v m] keys
    by (auto simp: table_inv_def)
qed

lemma table_inv_map_of: "table_inv key ctr m \<Longrightarrow> map_of m k = Some v \<Longrightarrow> key v = k"
  by (auto simp: table_inv_def dest!: map_of_SomeD)

lemma table_inv_values_sorted:
  "table_inv key ctr m \<Longrightarrow> sorted_wrt (<) (map key (map snd m))"
proof -
  assume inv: "table_inv key ctr m"
  then have "\<forall>x\<in>set m. key (snd x) = fst x"
    by (auto simp: table_inv_def)
  then have eq: "map (key \<circ> snd) m = map fst m"
    by (simp add: map_eq_conv)
  have "sorted_wrt (<) (map fst m)"
    using inv by (simp add: table_inv_def)
  then show ?thesis by (simp only: map_map eq)
qed

lemma map_of_keys_values:
  "distinct (map fst m) \<Longrightarrow> map (\<lambda>k. the (map_of m k)) (map fst m) = map snd m"
  by (induction m) (force simp: map_eq_conv image_iff)+

text \<open>
  The values of a table with the invariant, in insertion order, are its values listed by
  increasing key: the order \<open>Array.from(map.values())\<close> returns is determined by the
  abstract map \<open>map_of m\<close> alone.
\<close>

lemma table_inv_values_by_key:
  assumes "table_inv key ctr m"
  shows "map snd m = map (\<lambda>k. the (map_of m k)) (sorted_list_of_set (dom (map_of m)))"
proof -
  have s: "sorted_wrt (<) (map fst m)" using assms by (simp add: table_inv_def)
  then have d: "distinct (map fst m)" by (simp add: strict_sorted_iff)
  have sl: "sorted_list_of_set (fst ` set m) = map fst m"
    using sorted_list_of_set.idem_if_sorted_distinct [of "map fst m"] s
    by (simp add: strict_sorted_iff)
  have dm: "dom (map_of m) = fst ` set m"
    by (simp add: dom_map_of_conv_image_fst)
  show ?thesis
    unfolding dm sl map_of_keys_values [OF d] by (rule refl)
qed

lemma js_map_key_of_int [simp]: "js_map_key (Fin (of_int k)) = Some k"
  by (simp add: js_map_key_def)

lemma js_map_key_NaN [simp]: "js_map_key NaN = None"
  by (simp add: js_map_key_def)

end
