(* ===== verification/StorageApi.thy ===== *)
theory StorageApi
  imports Tables JsMap
begin

text \<open>
  The storage interface \<open>IStorage\<close> (\<open>src/server/storage.ts\<close>, lines 7--32) as data:
  a request per method with its arguments, a response per result type, and the errors
  a backend may throw. A backend is a step function
  \<open>timestamp \<Rightarrow> storage_req \<Rightarrow> 's \<Rightarrow> (storage_error + storage_resp) \<times> 's\<close> over its own
  state \<open>'s\<close>; the timestamp is the clock \<open>new Date()\<close> reads during the call. The route
  handlers (theory Routes) are written against this type, the two backends
  (theories MemStorage and DbStorage) implement it.

  \<open>Partial<Project>\<close>, the argument of \<open>updateProject\<close>, is the record
  \<open>project_patch\<close>: each property is absent (\<open>None\<close>) or present with a value of the
  column's type; \<open>patch_project\<close> is the object spread \<open>{ ...project, ...updates }\<close>,
  in which a present property of \<open>updates\<close> wins. The argument of \<open>getProject\<close>
  is a JS number, since the route handler passes \<open>parseInt\<close> of the URL segment
  unchecked; the other ids are integers (no caller passes anything else). A property present with the value
  \<open>undefined\<close> is not modelled (JSON bodies cannot carry it).
\<close>

text \<open>
  The errors a backend call can throw: \<open>DbStorage\<close>'s own \<open>"Database not connected"\<close>,
  and the PostgreSQL constraint violations (unique, foreign key, not null) and the
  rejected empty \<open>UPDATE ... SET\<close> that the driver raises as exceptions, and the
  rejection of a query parameter that is not an integer literal (SQLSTATE 22P02) or
  lies outside the column's 32-bit range (22003).
\<close>

datatype storage_error = DatabaseNotConnected | UniqueViolation | ForeignKeyViolation
  | NotNullViolation | EmptyUpdate | InvalidTextRepresentation | NumericOutOfRange

record project_patch =
  pp_id :: "int option"
  pp_title :: "string option"
  pp_description :: "string option"
  pp_shortDescription :: "string option option"
  pp_location :: "string option"
  pp_category :: "string option"
  pp_propertyType :: "string option"
  pp_roi :: "string option"
  pp_minInvestment :: "int option"
  pp_targetAmount :: "int option"
  pp_currentAmount :: "int option option"
  pp_status :: "string option"
  pp_featured :: "bool option option"
  pp_priority :: "int option option"
  pp_propertySize :: "int option option"
  pp_bedrooms :: "int option option"
  pp_bathrooms :: "int option option"
  pp_floors :: "int option option"
  pp_parkingSpaces :: "int option option"
  pp_expectedCompletionDate :: "string option option"
  pp_monthlyRent :: "int option option"
  pp_annualAppreciation :: "string option option"
  pp_imageUrl :: "string option option"
  pp_gallery :: "string list option option"
  pp_videoUrl :: "string option option"
  pp_latitude :: "string option option"
  pp_longitude :: "string option option"
  pp_address :: "string option option"
  pp_city :: "string option option"
  pp_state :: "string option option"
  pp_country :: "string option option"
  pp_postalCode :: "string option option"
  pp_constructionStartDate :: "string option option"
  pp_constructionEndDate :: "string option option"
  pp_tags :: "string list option option"
  pp_amenities :: "string list option option"
  pp_documents :: "document list option option"
  pp_createdAt :: "timestamp option option"
  pp_updatedAt :: "timestamp option option"

text \<open>One property of a spread: the patch's value when present, the old one otherwise.\<close>

definition spread :: "'a option \<Rightarrow> 'a \<Rightarrow> 'a" where
  "spread u v = (case u of Some w \<Rightarrow> w | None \<Rightarrow> v)"

definition patch_project :: "project_patch \<Rightarrow> project \<Rightarrow> project" where
  "patch_project u p =
     \<lparr>pid = spread (pp_id u) (pid p), title = spread (pp_title u) (title p),
      description = spread (pp_description u) (description p),
      shortDescription = spread (pp_shortDescription u) (shortDescription p),
      location = spread (pp_location u) (location p),
      category = spread (pp_category u) (category p),
      propertyType = spread (pp_propertyType u) (propertyType p),
      roi = spread (pp_roi u) (roi p),
      minInvestment = spread (pp_minInvestment u) (minInvestment p),
      targetAmount = spread (pp_targetAmount u) (targetAmount p),
      currentAmount = spread (pp_currentAmount u) (currentAmount p),
      status = spread (pp_status u) (status p),
      featured = spread (pp_featured u) (featured p),
      priority = spread (pp_priority u) (priority p),
      propertySize = spread (pp_propertySize u) (propertySize p),
      bedrooms = spread (pp_bedrooms u) (bedrooms p),
      bathrooms = spread (pp_bathrooms u) (bathrooms p),
      floors = spread (pp_floors u) (floors p),
      parkingSpaces = spread (pp_parkingSpaces u) (parkingSpaces p),
      expectedCompletionDate = spread (pp_expectedCompletionDate u) (expectedCompletionDate p),
      monthlyRent = spread (pp_monthlyRent u) (monthlyRent p),
      annualAppreciation = spread (pp_annualAppreciation u) (annualAppreciation p),
      imageUrl = spread (pp_imageUrl u) (imageUrl p),
      gallery = spread (pp_gallery u) (gallery p),
      videoUrl = spread (pp_videoUrl u) (videoUrl p),
      latitude = spread (pp_latitude u) (latitude p),
      longitude = spread (pp_longitude u) (longitude p),
      address = spread (pp_address u) (address p),
      city = spread (pp_city u) (city p),
      state = spread (pp_state u) (state p),
      country = spread (pp_country u) (country p),
      postalCode = spread (pp_postalCode u) (postalCode p),
      constructionStartDate = spread (pp_constructionStartDate u) (constructionStartDate p),
      constructionEndDate = spread (pp_constructionEndDate u) (constructionEndDate p),
      tags = spread (pp_tags u) (tags p),
      amenities = spread (pp_amenities u) (amenities p),
      documents = spread (pp_documents u) (documents p),
      createdAt = spread (pp_createdAt u) (createdAt p),
      updatedAt = spread (pp_updatedAt u) (updatedAt p)\<rparr>"

text \<open>The empty patch \<open>{}\<close>.\<close>

definition empty_patch :: project_patch where
  "empty_patch =
     \<lparr>pp_id = None, pp_title = None, pp_description = None, pp_shortDescription = None,
      pp_location = None, pp_category = None, pp_propertyType = None, pp_roi = None,
      pp_minInvestment = None, pp_targetAmount = None, pp_currentAmount = None,
      pp_status = None, pp_featured = None, pp_priority = None, pp_propertySize = None,
      pp_bedrooms = None, pp_bathrooms = None, pp_floors = None, pp_parkingSpaces = None,
      pp_expectedCompletionDate = None, pp_monthlyRent = None, pp_annualAppreciation = None,
      pp_imageUrl = None, pp_gallery = None, pp_videoUrl = None, pp_latitude = None,
      pp_longitude = None, pp_address = None, pp_city = None, pp_state = None,
      pp_country = None, pp_postalCode = None, pp_constructionStartDate = None,
      pp_constructionEndDate = None, pp_tags = None, pp_amenities = None,
      pp_documents = None, pp_createdAt = None, pp_updatedAt = None\<rparr>"

text \<open>A minimal validated \<open>POST /api/projects\<close> body, used in examples.\<close>

definition sample_insert_project :: insert_project where
  "sample_insert_project =
     \<lparr>ip_title = ''Marina Heights'', ip_description = ''Residential tower'',
      ip_shortDescription = Undef, ip_location = ''Dubai'', ip_category = ''RESIDENTIAL'',
      ip_propertyType = ''APARTMENT'', ip_roi = ''11.00'', ip_minInvestment = 1000,
      ip_targetAmount = 100000, ip_currentAmount = Undef, ip_status = ''FUNDING'',
      ip_featured = Undef, ip_priority = Undef, ip_propertySize = Undef, ip_bedrooms = Undef,
      ip_bathrooms = Undef, ip_floors = Undef, ip_parkingSpaces = Undef,
      ip_expectedCompletionDate = Undef, ip_monthlyRent = Undef,
      ip_annualAppreciation = Undef, ip_imageUrl = Undef, ip_gallery = Undef,
      ip_videoUrl = Undef, ip_latitude = Undef, ip_longitude = Undef, ip_address = Undef,
      ip_city = Undef, ip_state = Undef, ip_country = Undef, ip_postalCode = Undef,
      ip_constructionStartDate = Undef, ip_constructionEndDate = Undef, ip_tags = Undef,
      ip_amenities = Undef, ip_documents = Undef\<rparr>"

datatype storage_req =
    GetUser int
  | GetUserByUsername string
  | GetUserByEmail string
  | CreateUser insert_user
  | GetAllProjects
  | GetProject jsnum
  | CreateProject insert_project
  | UpdateProject int project_patch
  | GetInvestmentsByUser int
  | GetInvestmentsByProject int
  | CreateInvestment insert_investment
  | GetTransactionsByUser int
  | CreateTransaction insert_transaction
  | GetAllTestimonials
  | CreateTestimonial insert_testimonial

datatype storage_resp =
    RUser "user option"
  | RNewUser user
  | RProjects "project list"
  | RProject "project option"
  | RNewProject project
  | RInvestments "investment list"
  | RNewInvestment investment
  | RTransactions "transaction list"
  | RNewTransaction transaction
  | RTestimonials "testimonial list"
  | RNewTestimonial testimonial

type_synonym 's storage =
  "timestamp \<Rightarrow> storage_req \<Rightarrow> 's \<Rightarrow> (storage_error + storage_resp) \<times> 's"

lemma spread_simps [simp]: "spread None v = v" "spread (Some w) v = w"
  by (simp_all add: spread_def)

lemma patch_project_empty [simp]: "patch_project empty_patch p = p"
  by (simp add: patch_project_def empty_patch_def)

lemma pid_patch_project [simp]: "pid (patch_project u p) = spread (pp_id u) (pid p)"
  by (simp add: patch_project_def)

end
