(* ===== verification/MemStorage.thy ===== *)
theory MemStorage
  imports StorageApi
begin

text \<open>
  \<open>MemStorage\<close> (\<open>src/server/storage.ts\<close>, lines 34--542), the in-memory backend
  used when \<open>DATABASE_URL\<close> is unset. Its state is the record \<open>mem_storage\<close>: one JS
  \<open>Map<number, Row>\<close> per table (a \<^typ>\<open>'v jsmap\<close> of theory JsMap) and one id
  counter per table. Each method is a function of the state returning its result and the
  new state; \<open>new Date()\<close> is the argument \<open>now\<close> (one clock reading per call).
  The constructor seeds six projects and three testimonials (\<open>seedData\<close>, lines
  61--361); the sample objects omit \<open>id\<close>, written here as \<open>0\<close> and overwritten by
  the seeding loop's \<open>{ ...project, id }\<close>.
\<close>

record mem_storage =
  users :: "user jsmap"
  projects :: "project jsmap"
  investments :: "investment jsmap"
  transactions :: "transaction jsmap"
  testimonials :: "testimonial jsmap"
  currentUserId :: int
  currentProjectId :: int
  currentInvestmentId :: int
  currentTransactionId :: int
  currentTestimonialId :: int

text \<open>The state after the constructor's assignments, before \<open>seedData()\<close> (lines 46--56).\<close>

definition mem_empty :: mem_storage where
  "mem_empty =
     \<lparr>users = [], projects = [], investments = [], transactions = [], testimonials = [],
      currentUserId = 1, currentProjectId = 1, currentInvestmentId = 1,
      currentTransactionId = 1, currentTestimonialId = 1\<rparr>"

subsection \<open>Seed data\<close>

definition sample_dubai_marina :: "timestamp \<Rightarrow> project" where
  "sample_dubai_marina now =
     \<lparr>pid = 0,
      title = ''Dubai Marina Tower'',
      description = ''Luxury residential tower in the heart of Dubai Marina with premium amenities and stunning views.'',
      shortDescription = Some ''Premium residential tower in Dubai Marina'',
      location = ''Dubai Marina, UAE'',
      category = ''RESIDENTIAL'',
      propertyType = ''APARTMENT'',
      roi = ''12.50'',
      minInvestment = 50000,
      targetAmount = 5000000,
      currentAmount = Some 3000000,
      status = ''FUNDING'',
      featured = Some False,
      priority = Some 0,
      propertySize = Some 1200,
      bedrooms = Some 2,
      bathrooms = Some 2,
      floors = Some 25,
      parkingSpaces = Some 1,
      expectedCompletionDate = Some ''2024-12-31'',
      monthlyRent = Some 8000,
      annualAppreciation = Some ''5.20'',
      imageUrl = Some ''https://images.unsplash.com/photo-1545324418-cc1a3fa10c00?ixlib=rb-4.0.3&auto=format&fit=crop&w=800&h=400'',
      gallery = Some [''https://images.unsplash.com/photo-1545324418-cc1a3fa10c00?ixlib=rb-4.0.3&auto=format&fit=crop&w=800&h=400''],
      videoUrl = None,
      latitude = Some ''25.0920'',
      longitude = Some ''55.1381'',
      address = Some ''Dubai Marina, Dubai, UAE'',
      city = Some ''Dubai'',
      state = Some ''Dubai'',
      country = Some ''UAE'',
      postalCode = Some ''00000'',
      constructionStartDate = Some ''2023-01-01'',
      constructionEndDate = Some ''2024-12-31'',
      tags = Some [''luxury'', ''residential'', ''marina''],
      amenities = Some [''gym'', ''pool'', ''parking'', ''security''],
      documents = Some [],
      createdAt = Some now,
      updatedAt = Some now\<rparr>"

definition sample_singapore_hub :: "timestamp \<Rightarrow> project" where
  "sample_singapore_hub now =
     \<lparr>pid = 0,
      title = ''Singapore Business Hub'',
      description = ''Modern office complex in Singapore's premier business district with high rental yields.'',
      shortDescription = Some ''Modern office complex in Singapore CBD'',
      location = ''Singapore CBD, Singapore'',
      category = ''COMMERCIAL'',
      propertyType = ''OFFICE'',
      roi = ''15.20'',
      minInvestment = 100000,
      targetAmount = 8000000,
      currentAmount = Some 8000000,
      status = ''COMPLETE'',
      featured = Some True,
      priority = Some 1,
      propertySize = Some 5000,
      bedrooms = None,
      bathrooms = Some 8,
      floors = Some 15,
      parkingSpaces = Some 20,
      expectedCompletionDate = Some ''2023-06-30'',
      monthlyRent = Some 50000,
      annualAppreciation = Some ''7.50'',
      imageUrl = Some ''https://images.unsplash.com/photo-1486406146926-c627a92ad1ab?ixlib=rb-4.0.3&auto=format&fit=crop&w=800&h=400'',
      gallery = Some [''https://images.unsplash.com/photo-1486406146926-c627a92ad1ab?ixlib=rb-4.0.3&auto=format&fit=crop&w=800&h=400''],
      videoUrl = None,
      latitude = Some ''1.3521'',
      longitude = Some ''103.8198'',
      address = Some ''Singapore CBD, Singapore'',
      city = Some ''Singapore'',
      state = None,
      country = Some ''Singapore'',
      postalCode = Some ''00000'',
      constructionStartDate = Some ''2022-01-01'',
      constructionEndDate = Some ''2023-06-30'',
      tags = Some [''commercial'', ''office'', ''cbd''],
      amenities = Some [''parking'', ''security'', ''conference rooms''],
      documents = Some [],
      createdAt = Some now,
      updatedAt = Some now\<rparr>"

definition sample_london_tech :: "timestamp \<Rightarrow> project" where
  "sample_london_tech now =
     \<lparr>pid = 0,
      title = ''London Tech District'',
      description = ''Industrial warehouse facility with long-term lease agreements and stable returns.'',
      shortDescription = Some ''Industrial warehouse in London'',
      location = ''London, UK'',
      category = ''INDUSTRIAL'',
      propertyType = ''WAREHOUSE'',
      roi = ''8.75'',
      minInvestment = 25000,
      targetAmount = 3000000,
      currentAmount = Some 1500000,
      status = ''FUNDING'',
      featured = Some False,
      priority = Some 0,
      propertySize = Some 10000,
      bedrooms = None,
      bathrooms = Some 2,
      floors = Some 1,
      parkingSpaces = Some 10,
      expectedCompletionDate = Some ''2024-03-31'',
      monthlyRent = Some 15000,
      annualAppreciation = Some ''3.20'',
      imageUrl = Some ''https://images.unsplash.com/photo-1465101046530-73398c7f28ca?ixlib=rb-4.0.3&auto=format&fit=crop&w=800&h=400'',
      gallery = Some [''https://images.unsplash.com/photo-1465101046530-73398c7f28ca?ixlib=rb-4.0.3&auto=format&fit=crop&w=800&h=400''],
      videoUrl = None,
      latitude = Some ''51.5074'',
      longitude = Some ''-0.1278'',
      address = Some ''London, UK'',
      city = Some ''London'',
      state = None,
      country = Some ''UK'',
      postalCode = Some ''00000'',
      constructionStartDate = Some ''2023-03-01'',
      constructionEndDate = Some ''2024-03-31'',
      tags = Some [''industrial'', ''warehouse'', ''logistics''],
      amenities = Some [''loading dock'', ''security'', ''parking''],
      documents = Some [],
      createdAt = Some now,
      updatedAt = Some now\<rparr>"

definition sample_petaro_pump :: "timestamp \<Rightarrow> project" where
  "sample_petaro_pump now =
     \<lparr>pid = 0,
      title = ''Petaro Pump'',
      description = ''A high-traffic petrol pump located on the main highway in Jamshoro, Pakistan. Fully operational and generating steady returns.'',
      shortDescription = Some ''High-traffic petrol pump in Jamshoro'',
      location = ''Jamshoro, Pakistan'',
      category = ''COMMERCIAL'',
      propertyType = ''RETAIL'',
      roi = ''28.76'',
      minInvestment = 100000,
      targetAmount = 20000000,
      currentAmount = Some 20000000,
      status = ''COMPLETE'',
      featured = Some True,
      priority = Some 2,
      propertySize = Some 2000,
      bedrooms = None,
      bathrooms = Some 2,
      floors = Some 1,
      parkingSpaces = Some 5,
      expectedCompletionDate = Some ''2022-12-31'',
      monthlyRent = Some 25000,
      annualAppreciation = Some ''12.50'',
      imageUrl = Some ''https://images.unsplash.com/photo-1506744038136-46273834b3fb?ixlib=rb-4.0.3&auto=format&fit=crop&w=800&h=400'',
      gallery = Some [''https://images.unsplash.com/photo-1506744038136-46273834b3fb?ixlib=rb-4.0.3&auto=format&fit=crop&w=800&h=400''],
      videoUrl = None,
      latitude = Some ''25.4280'',
      longitude = Some ''68.2800'',
      address = Some ''Jamshoro, Pakistan'',
      city = Some ''Jamshoro'',
      state = Some ''Sindh'',
      country = Some ''Pakistan'',
      postalCode = Some ''00000'',
      constructionStartDate = Some ''2022-01-01'',
      constructionEndDate = Some ''2022-12-31'',
      tags = Some [''petrol'', ''highway'', ''retail''],
      amenities = Some [''parking'', ''security'', ''convenience store''],
      documents = Some [],
      createdAt = Some now,
      updatedAt = Some now\<rparr>"

definition sample_banglow_120 :: "timestamp \<Rightarrow> project" where
  "sample_banglow_120 now =
     \<lparr>pid = 0,
      title = ''120 Sq. Yd. Banglow at Gulistan-e-Noor Mohammad'',
      description = ''A modern 120 square yard banglow in the heart of Hyderabad, currently under construction. 70% funded, estimated ROI up to 30% on completion.'',
      shortDescription = Some ''Modern banglow in Hyderabad'',
      location = ''Gulistan-e-Noor Mohammad, Hyderabad, Pakistan'',
      category = ''RESIDENTIAL'',
      propertyType = ''VILLA'',
      roi = ''30.00'',
      minInvestment = 100000,
      targetAmount = 15000000,
      currentAmount = Some 10500000,
      status = ''FUNDING'',
      featured = Some False,
      priority = Some 0,
      propertySize = Some 1080,
      bedrooms = Some 4,
      bathrooms = Some 3,
      floors = Some 2,
      parkingSpaces = Some 2,
      expectedCompletionDate = Some ''2024-06-30'',
      monthlyRent = Some 12000,
      annualAppreciation = Some ''15.00'',
      imageUrl = Some ''https://images.unsplash.com/photo-1464983953574-0892a716854b?ixlib=rb-4.0.3&auto=format&fit=crop&w=800&h=400'',
      gallery = Some [''https://images.unsplash.com/photo-1464983953574-0892a716854b?ixlib=rb-4.0.3&auto=format&fit=crop&w=800&h=400''],
      videoUrl = None,
      latitude = Some ''25.3960'',
      longitude = Some ''68.3578'',
      address = Some ''Gulistan-e-Noor Mohammad, Hyderabad, Pakistan'',
      city = Some ''Hyderabad'',
      state = Some ''Sindh'',
      country = Some ''Pakistan'',
      postalCode = Some ''00000'',
      constructionStartDate = Some ''2023-06-01'',
      constructionEndDate = Some ''2024-06-30'',
      tags = Some [''residential'', ''villa'', ''modern''],
      amenities = Some [''garden'', ''parking'', ''security''],
      documents = Some [],
      createdAt = Some now,
      updatedAt = Some now\<rparr>"

definition sample_banglow_150 :: "timestamp \<Rightarrow> project" where
  "sample_banglow_150 now =
     \<lparr>pid = 0,
      title = ''150 Sq. Yd. Banglow'',
      description = ''A completed 150 square yard banglow, waiting for sale. Excellent opportunity for capital appreciation.'',
      shortDescription = Some ''Completed banglow ready for sale'',
      location = ''Hyderabad, Pakistan'',
      category = ''RESIDENTIAL'',
      propertyType = ''VILLA'',
      roi = ''25.00'',
      minInvestment = 100000,
      targetAmount = 18000000,
      currentAmount = Some 18000000,
      status = ''WAITING_FOR_SALE'',
      featured = Some False,
      priority = Some 0,
      propertySize = Some 1350,
      bedrooms = Some 5,
      bathrooms = Some 4,
      floors = Some 2,
      parkingSpaces = Some 3,
      expectedCompletionDate = Some ''2023-12-31'',
      monthlyRent = Some 15000,
      annualAppreciation = Some ''18.00'',
      imageUrl = Some ''https://images.unsplash.com/photo-1507089947368-19c1da9775ae?ixlib=rb-4.0.3&auto=format&fit=crop&w=800&h=400'',
      gallery = Some [''https://images.unsplash.com/photo-1507089947368-19c1da9775ae?ixlib=rb-4.0.3&auto=format&fit=crop&w=800&h=400''],
      videoUrl = None,
      latitude = Some ''25.3960'',
      longitude = Some ''68.3578'',
      address = Some ''Hyderabad, Pakistan'',
      city = Some ''Hyderabad'',
      state = Some ''Sindh'',
      country = Some ''Pakistan'',
      postalCode = Some ''00000'',
      constructionStartDate = Some ''2023-01-01'',
      constructionEndDate = Some ''2023-12-31'',
      tags = Some [''residential'', ''villa'', ''completed''],
      amenities = Some [''garden'', ''parking'', ''security'', ''pool''],
      documents = Some [],
      createdAt = Some now,
      updatedAt = Some now\<rparr>"

definition sampleProjects :: "timestamp \<Rightarrow> project list" where
  "sampleProjects now =
     [sample_dubai_marina now, sample_singapore_hub now, sample_london_tech now,
      sample_petaro_pump now, sample_banglow_120 now, sample_banglow_150 now]"

text \<open>One iteration of \<open>sampleProjects.forEach\<close> (lines 306--309).\<close>

definition seed_project :: "mem_storage \<Rightarrow> project \<Rightarrow> mem_storage" where
  "seed_project s p =
     (let id = currentProjectId s
      in s\<lparr>projects := AList.update id (p\<lparr>pid := id\<rparr>) (projects s), currentProjectId := id + 1\<rparr>)"

definition sample_testimonial_pervaiz :: "timestamp \<Rightarrow> testimonial" where
  "sample_testimonial_pervaiz now =
     \<lparr>tm_id = 0,
      tm_name = ''PERVAIZ AHMMED'',
      tm_avatar = Some ''https://images.unsplash.com/photo-1507003211169-0a1dd7228f2d?ixlib=rb-4.0.3&auto=format&fit=crop&w=100&h=100'',
      tm_content = ''SAIR REIT has revolutionized my investment strategy. The halal approach combined with excellent returns is exactly what I was looking for.'',
      tm_rating = 5,
      tm_verified = Some True,
      tm_featured = Some False,
      tm_userId = None,
      tm_projectId = None,
      tm_investmentAmount = None,
      tm_investmentDuration = None,
      tm_location = Some ''Dubai, UAE'',
      tm_createdAt = Some now\<rparr>"

definition sample_testimonial_abdul :: "timestamp \<Rightarrow> testimonial" where
  "sample_testimonial_abdul now =
     \<lparr>tm_id = 0,
      tm_name = ''ABDUL AZIZ'',
      tm_avatar = Some ''https://images.unsplash.com/photo-1494790108755-2616b612b786?ixlib=rb-4.0.3&auto=format&fit=crop&w=100&h=100'',
      tm_content = ''The transparency and real-time tracking give me complete confidence in my investments. I've seen consistent 12%+ returns month after month.'',
      tm_rating = 5,
      tm_verified = Some True,
      tm_featured = Some True,
      tm_userId = None,
      tm_projectId = None,
      tm_investmentAmount = None,
      tm_investmentDuration = None,
      tm_location = Some ''Singapore'',
      tm_createdAt = Some now\<rparr>"

definition sample_testimonial_makhdoom :: "timestamp \<Rightarrow> testimonial" where
  "sample_testimonial_makhdoom now =
     \<lparr>tm_id = 0,
      tm_name = ''MAKHDOOM NAVEED'',
      tm_avatar = Some ''https://images.unsplash.com/photo-1472099645785-5658abf4ff4e?ixlib=rb-4.0.3&auto=format&fit=crop&w=100&h=100'',
      tm_content = ''Finally, a platform that combines cutting-edge technology with solid fundamentals. My portfolio has grown 35% since joining SAIR REIT.'',
      tm_rating = 5,
      tm_verified = Some True,
      tm_featured = Some False,
      tm_userId = None,
      tm_projectId = None,
      tm_investmentAmount = None,
      tm_investmentDuration = None,
      tm_location = Some ''London, UK'',
      tm_createdAt = Some now\<rparr>"

definition sampleTestimonials :: "timestamp \<Rightarrow> testimonial list" where
  "sampleTestimonials now =
     [sample_testimonial_pervaiz now, sample_testimonial_abdul now, sample_testimonial_makhdoom now]"

text \<open>One iteration of \<open>sampleTestimonials.forEach\<close> (lines 357--360).\<close>

definition seed_testimonial :: "mem_storage \<Rightarrow> testimonial \<Rightarrow> mem_storage" where
  "seed_testimonial s t =
     (let id = currentTestimonialId s
      in s\<lparr>testimonials := AList.update id (t\<lparr>tm_id := id\<rparr>) (testimonials s),
           currentTestimonialId := id + 1\<rparr>)"

definition seedData :: "timestamp \<Rightarrow> mem_storage \<Rightarrow> mem_storage" where
  "seedData now s = foldl seed_testimonial (foldl seed_project s (sampleProjects now)) (sampleTestimonials now)"

text \<open>\<open>new MemStorage()\<close>.\<close>

definition mem_new :: "timestamp \<Rightarrow> mem_storage" where
  "mem_new now = seedData now mem_empty"

subsection \<open>Methods\<close>

definition getUser :: "int \<Rightarrow> mem_storage \<Rightarrow> user option" where
  "getUser i s = map_of (users s) i"

definition getUserByUsername :: "string \<Rightarrow> mem_storage \<Rightarrow> user option" where
  "getUserByUsername n s = find (\<lambda>u. u_username u = n) (map snd (users s))"

definition getUserByEmail :: "string \<Rightarrow> mem_storage \<Rightarrow> user option" where
  "getUserByEmail e s = find (\<lambda>u. u_email u = e) (map snd (users s))"

definition createUser :: "timestamp \<Rightarrow> insert_user \<Rightarrow> mem_storage \<Rightarrow> user \<times> mem_storage" where
  "createUser now iu s =
     (let id = currentUserId s;
          u = \<lparr>u_id = id, u_username = iu_username iu, u_email = iu_email iu,
               u_password = iu_password iu, u_firstName = or_null (iu_firstName iu),
               u_lastName = or_null (iu_lastName iu), u_phone = or_null (iu_phone iu),
               u_avatar = None, u_dateOfBirth = None, u_nationality = or_null (iu_nationality iu),
               u_kycVerified = Some False, u_isActive = Some True, u_lastLoginAt = None,
               u_preferences = or_null (iu_preferences iu), u_createdAt = Some now,
               u_updatedAt = Some now\<rparr>
      in (u, s\<lparr>users := AList.update id u (users s), currentUserId := id + 1\<rparr>))"

definition getAllProjects :: "mem_storage \<Rightarrow> project list" where
  "getAllProjects s = map snd (projects s)"

definition getProject :: "int \<Rightarrow> mem_storage \<Rightarrow> project option" where
  "getProject i s = map_of (projects s) i"

text \<open>The row \<open>createProject\<close> builds from the validated insert data (lines 409--449).\<close>

definition new_project :: "timestamp \<Rightarrow> int \<Rightarrow> insert_project \<Rightarrow> project" where
  "new_project now i ip =
     \<lparr>pid = i, title = ip_title ip, description = ip_description ip,
      shortDescription = or_null (ip_shortDescription ip), location = ip_location ip,
      category = ip_category ip, propertyType = ip_propertyType ip, roi = ip_roi ip,
      minInvestment = ip_minInvestment ip, targetAmount = ip_targetAmount ip,
      currentAmount = or_null (ip_currentAmount ip), status = ip_status ip,
      featured = Some (or_default (ip_featured ip) False),
      priority = Some (or_default (ip_priority ip) 0),
      propertySize = or_null (ip_propertySize ip), bedrooms = or_null (ip_bedrooms ip),
      bathrooms = or_null (ip_bathrooms ip), floors = or_null (ip_floors ip),
      parkingSpaces = or_null (ip_parkingSpaces ip),
      expectedCompletionDate = or_null (ip_expectedCompletionDate ip),
      monthlyRent = or_null (ip_monthlyRent ip),
      annualAppreciation = or_null (ip_annualAppreciation ip),
      imageUrl = or_null (ip_imageUrl ip), gallery = or_null (ip_gallery ip),
      videoUrl = or_null (ip_videoUrl ip), latitude = or_null (ip_latitude ip),
      longitude = or_null (ip_longitude ip), address = or_null (ip_address ip),
      city = or_null (ip_city ip), state = or_null (ip_state ip),
      country = or_null (ip_country ip), postalCode = or_null (ip_postalCode ip),
      constructionStartDate = or_null (ip_constructionStartDate ip),
      constructionEndDate = or_null (ip_constructionEndDate ip),
      tags = or_null (ip_tags ip), amenities = or_null (ip_amenities ip),
      documents = or_null (ip_documents ip), createdAt = Some now, updatedAt = Some now\<rparr>"

definition createProject :: "timestamp \<Rightarrow> insert_project \<Rightarrow> mem_storage \<Rightarrow> project \<times> mem_storage" where
  "createProject now ip s =
     (let id = currentProjectId s;
          p = new_project now id ip
      in (p, s\<lparr>projects := AList.update id p (projects s), currentProjectId := id + 1\<rparr>))"

definition updateProject ::
  "int \<Rightarrow> project_patch \<Rightarrow> mem_storage \<Rightarrow> project option \<times> mem_storage" where
  "updateProject i u s =
     (case map_of (projects s) i of
        None \<Rightarrow> (None, s)
      | Some p \<Rightarrow>
          (let p' = patch_project u p
           in (Some p', s\<lparr>projects := AList.update i p' (projects s)\<rparr>)))"

definition getInvestmentsByUser :: "int \<Rightarrow> mem_storage \<Rightarrow> investment list" where
  "getInvestmentsByUser uid s = filter (\<lambda>i. inv_userId i = Some uid) (map snd (investments s))"

definition getInvestmentsByProject :: "int \<Rightarrow> mem_storage \<Rightarrow> investment list" where
  "getInvestmentsByProject prid s =
     filter (\<lambda>i. inv_projectId i = Some prid) (map snd (investments s))"

definition createInvestment ::
  "timestamp \<Rightarrow> insert_investment \<Rightarrow> mem_storage \<Rightarrow> investment \<times> mem_storage" where
  "createInvestment now ii s =
     (let id = currentInvestmentId s;
          i = \<lparr>inv_id = id, inv_userId = or_null (ii_userId ii),
               inv_projectId = or_null (ii_projectId ii), inv_amount = ii_amount ii,
               inv_units = or_null (ii_units ii), inv_returns = or_null (ii_returns ii),
               inv_status = ''ACTIVE'', inv_investmentDate = Some now,
               inv_expectedReturnDate = None, inv_actualReturnDate = None, inv_notes = None,
               inv_createdAt = Some now, inv_updatedAt = Some now\<rparr>
      in (i, s\<lparr>investments := AList.update id i (investments s), currentInvestmentId := id + 1\<rparr>))"

definition getTransactionsByUser :: "int \<Rightarrow> mem_storage \<Rightarrow> transaction list" where
  "getTransactionsByUser uid s = filter (\<lambda>t. tx_userId t = Some uid) (map snd (transactions s))"

definition createTransaction ::
  "timestamp \<Rightarrow> insert_transaction \<Rightarrow> mem_storage \<Rightarrow> transaction \<times> mem_storage" where
  "createTransaction now it s =
     (let id = currentTransactionId s;
          t = \<lparr>tx_id = id, tx_userId = or_null (it_userId it),
               tx_projectId = or_null (it_projectId it),
               tx_investmentId = or_null (it_investmentId it), tx_amount = it_amount it,
               tx_type = it_type it, tx_status = it_status it,
               tx_paymentMethod = or_null (it_paymentMethod it),
               tx_reference = or_null (it_reference it),
               tx_description = or_null (it_description it),
               tx_fees = Some (or_default (it_fees it) 0), tx_netAmount = or_null (it_netAmount it),
               tx_processedAt = or_null (it_processedAt it), tx_createdAt = Some now\<rparr>
      in (t, s\<lparr>transactions := AList.update id t (transactions s),
               currentTransactionId := id + 1\<rparr>))"

definition getAllTestimonials :: "mem_storage \<Rightarrow> testimonial list" where
  "getAllTestimonials s = map snd (testimonials s)"

definition createTestimonial ::
  "timestamp \<Rightarrow> insert_testimonial \<Rightarrow> mem_storage \<Rightarrow> testimonial \<times> mem_storage" where
  "createTestimonial now its s =
     (let id = currentTestimonialId s;
          t = \<lparr>tm_id = id, tm_name = its_name its, tm_avatar = or_null (its_avatar its),
               tm_content = its_content its, tm_rating = its_rating its,
               tm_verified = or_null (its_verified its), tm_featured = or_null (its_featured its),
               tm_userId = or_null (its_userId its), tm_projectId = or_null (its_projectId its),
               tm_investmentAmount = or_null (its_investmentAmount its),
               tm_investmentDuration = or_null (its_investmentDuration its),
               tm_location = or_null (its_location its), tm_createdAt = Some now\<rparr>
      in (t, s\<lparr>testimonials := AList.update id t (testimonials s),
               currentTestimonialId := id + 1\<rparr>))"

text \<open>
  The backend as a step function of the interface type \<^typ>\<open>mem_storage storage\<close>:
  no method of \<open>MemStorage\<close> throws, so every result is \<open>Inr\<close>.
\<close>

definition mem_exec :: "mem_storage storage" where
  "mem_exec now req s =
     (case req of
        GetUser k \<Rightarrow> (Inr (RUser (getUser k s)), s)
      | GetUserByUsername n \<Rightarrow> (Inr (RUser (getUserByUsername n s)), s)
      | GetUserByEmail e \<Rightarrow> (Inr (RUser (getUserByEmail e s)), s)
      | CreateUser iu \<Rightarrow> (let (u, s') = createUser now iu s in (Inr (RNewUser u), s'))
      | GetAllProjects \<Rightarrow> (Inr (RProjects (getAllProjects s)), s)
      | GetProject x \<Rightarrow>
          (Inr (RProject (case js_map_key x of Some k \<Rightarrow> getProject k s | None \<Rightarrow> None)), s)
      | CreateProject ip \<Rightarrow> (let (p, s') = createProject now ip s in (Inr (RNewProject p), s'))
      | UpdateProject k u \<Rightarrow> (let (r, s') = updateProject k u s in (Inr (RProject r), s'))
      | GetInvestmentsByUser uid \<Rightarrow> (Inr (RInvestments (getInvestmentsByUser uid s)), s)
      | GetInvestmentsByProject prid \<Rightarrow> (Inr (RInvestments (getInvestmentsByProject prid s)), s)
      | CreateInvestment ii \<Rightarrow>
          (let (i, s') = createInvestment now ii s in (Inr (RNewInvestment i), s'))
      | GetTransactionsByUser uid \<Rightarrow> (Inr (RTransactions (getTransactionsByUser uid s)), s)
      | CreateTransaction it \<Rightarrow>
          (let (t, s') = createTransaction now it s in (Inr (RNewTransaction t), s'))
      | GetAllTestimonials \<Rightarrow> (Inr (RTestimonials (getAllTestimonials s)), s)
      | CreateTestimonial its \<Rightarrow>
          (let (t, s') = createTestimonial now its s in (Inr (RNewTestimonial t), s')))"

subsection \<open>Invariant and reachable states\<close>

definition mem_inv :: "mem_storage \<Rightarrow> bool" where
  "mem_inv s \<longleftrightarrow>
     table_inv u_id (currentUserId s) (users s) \<and>
     table_inv pid (currentProjectId s) (projects s) \<and>
     table_inv inv_id (currentInvestmentId s) (investments s) \<and>
     table_inv tx_id (currentTransactionId s) (transactions s) \<and>
     table_inv tm_id (currentTestimonialId s) (testimonials s)"

fun req_keeps_ids :: "storage_req \<Rightarrow> bool" where
  "req_keeps_ids (UpdateProject i u) \<longleftrightarrow> pp_id u = None \<or> pp_id u = Some i"
| "req_keeps_ids r \<longleftrightarrow> True"

inductive mem_reach :: "mem_storage \<Rightarrow> bool" where
  init: "mem_reach (mem_new now)"
| step: "mem_reach s \<Longrightarrow> req_keeps_ids req \<Longrightarrow> mem_reach (snd (mem_exec now req s))"

definition sample_insert_user :: insert_user where
  "sample_insert_user = \<lparr>iu_username = ''amina'', iu_email = ''amina@example.com'', iu_password = ''x'',
     iu_firstName = Undef, iu_lastName = Undef, iu_phone = Undef, iu_nationality = Undef,
     iu_preferences = Undef\<rparr>"


lemma mem_new_fields [simp]:
  "users (mem_new now) = []"
  "investments (mem_new now) = []"
  "transactions (mem_new now) = []"
  "currentUserId (mem_new now) = 1"
  "currentProjectId (mem_new now) = 7"
  "currentInvestmentId (mem_new now) = 1"
  "currentTransactionId (mem_new now) = 1"
  "currentTestimonialId (mem_new now) = 4"
  "projects (mem_new now) =
     [(1, (sample_dubai_marina now)\<lparr>pid := 1\<rparr>), (2, (sample_singapore_hub now)\<lparr>pid := 2\<rparr>),
      (3, (sample_london_tech now)\<lparr>pid := 3\<rparr>), (4, (sample_petaro_pump now)\<lparr>pid := 4\<rparr>),
      (5, (sample_banglow_120 now)\<lparr>pid := 5\<rparr>), (6, (sample_banglow_150 now)\<lparr>pid := 6\<rparr>)]"
  "testimonials (mem_new now) =
     [(1, (sample_testimonial_pervaiz now)\<lparr>tm_id := 1\<rparr>),
      (2, (sample_testimonial_abdul now)\<lparr>tm_id := 2\<rparr>),
      (3, (sample_testimonial_makhdoom now)\<lparr>tm_id := 3\<rparr>)]"
  by (simp_all add: mem_new_def seedData_def sampleProjects_def sampleTestimonials_def
      seed_project_def seed_testimonial_def mem_empty_def)

lemma createUser_inv: "mem_inv s \<Longrightarrow> mem_inv (snd (createUser now iu s))"
  by (simp add: mem_inv_def createUser_def Let_def table_inv_alloc)

lemma createProject_inv: "mem_inv s \<Longrightarrow> mem_inv (snd (createProject now ip s))"
  by (simp add: mem_inv_def createProject_def Let_def table_inv_alloc new_project_def)

lemma createInvestment_inv: "mem_inv s \<Longrightarrow> mem_inv (snd (createInvestment now ii s))"
  by (simp add: mem_inv_def createInvestment_def Let_def table_inv_alloc)

lemma createTransaction_inv: "mem_inv s \<Longrightarrow> mem_inv (snd (createTransaction now it s))"
  by (simp add: mem_inv_def createTransaction_def Let_def table_inv_alloc)

lemma createTestimonial_inv: "mem_inv s \<Longrightarrow> mem_inv (snd (createTestimonial now its s))"
  by (simp add: mem_inv_def createTestimonial_def Let_def table_inv_alloc)

lemma updateProject_inv:
  assumes "mem_inv s" and "pp_id u = None \<or> pp_id u = Some i"
  shows "mem_inv (snd (updateProject i u s))"
proof (cases "map_of (projects s) i")
  case None
  then show ?thesis using assms(1) by (simp add: updateProject_def)
next
  case (Some p)
  then have "i \<in> fst ` set (projects s)" by (metis map_of_SomeD image_eqI fst_conv)
  moreover have "pid p = i"
    using Some assms(1) by (auto simp: mem_inv_def intro: table_inv_map_of)
  moreover have "pid (patch_project u p) = i"
    using assms(2) \<open>pid p = i\<close> by auto
  ultimately have "table_inv pid (currentProjectId s) (AList.update i (patch_project u p) (projects s))"
    using assms(1) by (intro table_inv_set_present) (simp_all add: mem_inv_def)
  moreover have "snd (updateProject i u s) =
      s\<lparr>projects := AList.update i (patch_project u p) (projects s)\<rparr>"
    using Some by (simp add: updateProject_def Let_def)
  ultimately show ?thesis
    using assms(1) by (simp add: mem_inv_def)
qed

lemma mem_exec_inv:
  "mem_inv s \<Longrightarrow> req_keeps_ids req \<Longrightarrow> mem_inv (snd (mem_exec now req s))"
  by (cases req)
    (auto simp: mem_exec_def split_beta createUser_inv createProject_inv createInvestment_inv
      createTransaction_inv createTestimonial_inv updateProject_inv)

lemma mem_new_inv: "mem_inv (mem_new now)"
  by (simp add: mem_inv_def table_inv_def)

lemma createUser_fresh:
  "mem_inv s \<Longrightarrow> createUser now iu s = (u, s') \<Longrightarrow> users s' = users s @ [(u_id u, u)]"
  by (auto simp: createUser_def Let_def mem_inv_def update_fresh_append table_inv_fresh)

lemma createProject_update:
  "createProject now ip s = (p, s') \<Longrightarrow> projects s' = AList.update (pid p) p (projects s)"
  by (auto simp: createProject_def Let_def new_project_def)

lemma createProject_fresh:
  "mem_inv s \<Longrightarrow> createProject now ip s = (p, s') \<Longrightarrow> projects s' = projects s @ [(pid p, p)]"
  by (auto simp: createProject_def Let_def mem_inv_def update_fresh_append table_inv_fresh
      new_project_def)

text \<open>
  C22. Every state the in-memory store reaches from \<open>new MemStorage()\<close> by any sequence
  of method calls (an \<open>updateProject\<close> call only with a patch that leaves \<open>id\<close>
  unset or equal to the key, as every route does since no route calls it) satisfies
  the invariant: in each table the keys increase in insertion order, each row's id is
  its key, and each key is positive and below the table's counter.
\<close>

theorem mem_reach_inv: "mem_reach s \<Longrightarrow> mem_inv s"
  by (induction rule: mem_reach.induct) (simp_all add: mem_new_inv mem_exec_inv)

theorem mem_reach_inv_witness: "mem_inv (snd (mem_exec 5 GetAllProjects (mem_new 0)))"
  by (rule mem_reach_inv) (auto intro: mem_reach.intros)

text \<open>
  C23. \<open>createProject\<close> refines insertion into the abstract map from ids to projects:
  the new id was not in use, the abstract map gains exactly the new project, the listing
  gains it at the end, and \<open>getProject\<close> of the new id returns it.
\<close>

theorem createProject_refines_map:
  assumes "mem_inv s" and "createProject now ip s = (p, s')"
  shows "pid p \<notin> dom (map_of (projects s)) \<and>
         map_of (projects s') = (map_of (projects s))(pid p \<mapsto> p) \<and>
         getAllProjects s' = getAllProjects s @ [p] \<and>
         getProject (pid p) s' = Some p"
proof -
  have "pid p = currentProjectId s"
    using assms(2) by (auto simp: createProject_def Let_def new_project_def)
  then have "pid p \<notin> fst ` set (projects s)"
    using assms(1) unfolding mem_inv_def by (metis table_inv_fresh)
  moreover have m: "map_of (projects s') = (map_of (projects s))(pid p \<mapsto> p)"
    using createProject_update [OF assms(2)] by (simp add: update_conv')
  moreover have "getAllProjects s' = getAllProjects s @ [p]"
    using createProject_fresh [OF assms] by (simp add: getAllProjects_def)
  moreover have "getProject (pid p) s' = Some p"
    using m by (simp add: getProject_def)
  ultimately show ?thesis by (simp add: dom_map_of_conv_image_fst)
qed

theorem createProject_refines_map_witness:
  "getProject 7 (snd (createProject 0 sample_insert_project (mem_new 0))) =
     Some (new_project 0 7 sample_insert_project)"
proof -
  have c: "createProject 0 sample_insert_project (mem_new 0) =
      (new_project 0 7 sample_insert_project, snd (createProject 0 sample_insert_project (mem_new 0)))"
    by (simp add: createProject_def Let_def sampleProjects_def sampleTestimonials_def)
  have "pid (new_project 0 7 sample_insert_project) = 7" by (simp add: new_project_def)
  with createProject_refines_map [OF mem_new_inv c] show ?thesis by simp
qed

text \<open>
  \<open>getAllProjects\<close> lists the projects of the abstract map by increasing id, so the
  order the API and the pages see is the order of creation.
\<close>

theorem getAllProjects_by_id:
  assumes "mem_inv s"
  shows "getAllProjects s =
           map (\<lambda>k. the (map_of (projects s) k)) (sorted_list_of_set (dom (map_of (projects s)))) \<and>
         sorted_wrt (<) (map pid (getAllProjects s))"
  using assms table_inv_values_by_key table_inv_values_sorted
  by (simp add: getAllProjects_def mem_inv_def) blast

theorem getAllProjects_by_id_witness:
  "map pid (getAllProjects (mem_new 0)) = [1, 2, 3, 4, 5, 6]"
proof -
  have "sorted_wrt (<) (map pid (getAllProjects (mem_new 0)))"
    using getAllProjects_by_id [OF mem_new_inv] by blast
  then show ?thesis
    by (simp add: getAllProjects_def sampleProjects_def sampleTestimonials_def)
qed

lemma find_append_single:
  "find P (xs @ [x]) = (case find P xs of None \<Rightarrow> (if P x then Some x else None) | Some y \<Rightarrow> Some y)"
  by (induction xs) auto

text \<open>
  C25. \<open>updateProject(id, updates)\<close> returns \<open>undefined\<close> and changes nothing when the id
  is absent; otherwise it returns the spread of the stored project with the patch,
  stores it under the same key, and keeps the keys and their order.
\<close>

theorem updateProject_refines_map:
  "fst (updateProject i u s) = map_option (patch_project u) (getProject i s) \<and>
   map_of (projects (snd (updateProject i u s))) =
     (case getProject i s of
        None \<Rightarrow> map_of (projects s)
      | Some p \<Rightarrow> (map_of (projects s))(i \<mapsto> patch_project u p)) \<and>
   map fst (projects (snd (updateProject i u s))) = map fst (projects s)"
proof (cases "map_of (projects s) i")
  case None
  then show ?thesis by (simp add: updateProject_def getProject_def)
next
  case (Some p)
  then have "i \<in> set (map fst (projects s))"
    by (metis map_of_SomeD image_eqI fst_conv set_map)
  with Some show ?thesis
    by (simp add: updateProject_def getProject_def Let_def update_conv' update_keys)
qed


text \<open>
  C27. The schema declares \<open>username\<close> and \<open>email\<close> unique, but
  \<open>MemStorage.createUser\<close> does not check: it always appends the new user, and when a
  user with the same username exists, \<open>getUserByUsername\<close> keeps returning the earlier
  one.
\<close>

theorem createUser_no_unique_check:
  assumes "mem_inv s" and "createUser now iu s = (u, s')"
  shows "users s' = users s @ [(u_id u, u)] \<and>
         getUserByUsername (iu_username iu) s' =
           (case getUserByUsername (iu_username iu) s of None \<Rightarrow> Some u | Some v \<Rightarrow> Some v)"
proof -
  have "u_username u = iu_username iu"
    using assms(2) by (auto simp: createUser_def Let_def)
  then show ?thesis
    using createUser_fresh [OF assms]
    by (simp add: getUserByUsername_def find_append_single split: option.split)
qed

theorem createUser_no_unique_check_witness:
  "map u_id (map snd (users (snd (createUser 1 (sample_insert_user\<lparr>iu_email := ''other@example.com''\<rparr>)
      (snd (createUser 0 sample_insert_user (mem_new 0))))))) = [1, 2] \<and>
   getUserByUsername ''amina'' (snd (createUser 1 (sample_insert_user\<lparr>iu_email := ''other@example.com''\<rparr>)
      (snd (createUser 0 sample_insert_user (mem_new 0))))) = Some (fst (createUser 0 sample_insert_user (mem_new 0)))"
proof -
  let ?s1 = "snd (createUser 0 sample_insert_user (mem_new 0))"
  let ?iu = "sample_insert_user\<lparr>iu_email := ''other@example.com''\<rparr>"
  have inv: "mem_inv ?s1" by (rule createUser_inv [OF mem_new_inv])
  have u1: "users ?s1 = [(1, fst (createUser 0 sample_insert_user (mem_new 0)))]"
    by (simp add: createUser_def Let_def sampleProjects_def sampleTestimonials_def)
  have n: "u_username (fst (createUser 0 sample_insert_user (mem_new 0))) = ''amina''"
    by (simp add: createUser_def Let_def sample_insert_user_def)
  have f: "getUserByUsername ''amina'' ?s1 = Some (fst (createUser 0 sample_insert_user (mem_new 0)))"
    by (simp add: getUserByUsername_def u1 n)
  have c: "createUser 1 ?iu ?s1 = (fst (createUser 1 ?iu ?s1), snd (createUser 1 ?iu ?s1))" by simp
  have "u_id (fst (createUser 1 ?iu ?s1)) = 2"
    using u1 by (simp add: createUser_def Let_def sampleProjects_def sampleTestimonials_def)
  moreover have un: "iu_username ?iu = ''amina''" by (simp add: sample_insert_user_def)
  moreover have "u_id (fst (createUser 0 sample_insert_user (mem_new 0))) = 1"
    by (simp add: createUser_def Let_def sampleProjects_def sampleTestimonials_def)
  ultimately show ?thesis
    using createUser_no_unique_check [OF inv c] f u1 by simp
qed

lemma mem_exec_GetProject:
  "mem_exec now (GetProject x) s =
     (Inr (RProject (case js_map_key x of Some k \<Rightarrow> getProject k s | None \<Rightarrow> None)), s)"
  by (simp add: mem_exec_def)

lemma createProject_pid: "createProject now ip s = (p, s') \<Longrightarrow> pid p = currentProjectId s"
  by (auto simp: createProject_def Let_def new_project_def)


end
