(* ===== verification/DbStorage.thy ===== *)
theory DbStorage
  imports StorageApi
begin

text \<open>
  \<open>DbStorage\<close> (\<open>src/server/db-storage.ts\<close>), the PostgreSQL backend, over the
  connection \<open>db\<close> of \<open>src/server/db.ts\<close>, which is \<open>null\<close> unless
  \<open>DATABASE_URL\<close> is set. The database is the record \<open>db_tables\<close>: the rows of each
  table and the value of its \<open>serial\<close> sequence; the connection is a
  \<open>db_tables option\<close>. Every method first throws \<open>"Database not connected"\<close>
  when \<open>db\<close> is null.

  A \<open>SELECT\<close> without \<open>ORDER BY\<close> returns the rows in an order SQL leaves
  unspecified, so the backend is a step relation \<open>db_step now req db result db'\<close>:
  a read may return any permutation of the table (the row order of the list carries no
  meaning). \<open>result[0]\<close> of a filtered select is the first matching row of that
  permutation (\<^const>\<open>find\<close>). An \<open>INSERT ... RETURNING\<close> stores the row the
  drizzle \<open>values(...)\<close> call describes: an absent property gets the column default,
  \<open>null\<close> gets \<open>NULL\<close> (\<^const>\<open>db_column\<close>), the id is the next sequence value.
  PostgreSQL checks \<open>NOT NULL\<close>, then unique indexes, then foreign keys, and throws on
  the first violation; the sequence value is consumed even then. An \<open>UPDATE\<close> with an
  empty \<open>SET\<close> is rejected (\<^const>\<open>EmptyUpdate\<close>). The foreign keys are those of
  \<open>src/shared/schema.ts\<close> (\<open>.references(...)\<close>), without \<open>ON UPDATE\<close> actions.
\<close>

record db_tables =
  db_users :: "user list"
  db_projects :: "project list"
  db_investments :: "investment list"
  db_transactions :: "transaction list"
  db_testimonials :: "testimonial list"
  users_seq :: int
  projects_seq :: int
  investments_seq :: int
  transactions_seq :: int
  testimonials_seq :: int

text \<open>A nullable foreign key is satisfied by an absent or null value, or an existing id.\<close>

fun fk_ok :: "int nullish \<Rightarrow> int set \<Rightarrow> bool" where
  "fk_ok (Val k) ids \<longleftrightarrow> k \<in> ids"
| "fk_ok _ ids \<longleftrightarrow> True"

subsection \<open>Rows built by the inserts\<close>

definition db_new_user :: "timestamp \<Rightarrow> int \<Rightarrow> insert_user \<Rightarrow> user" where
  "db_new_user now i iu =
     \<lparr>u_id = i, u_username = iu_username iu, u_email = iu_email iu,
      u_password = iu_password iu, u_firstName = db_column (iu_firstName iu) None,
      u_lastName = db_column (iu_lastName iu) None, u_phone = db_column (iu_phone iu) None,
      u_avatar = None, u_dateOfBirth = None,
      u_nationality = db_column (iu_nationality iu) None,
      u_kycVerified = Some False, u_isActive = Some True, u_lastLoginAt = None,
      u_preferences = db_column (iu_preferences iu) None, u_createdAt = Some now,
      u_updatedAt = Some now\<rparr>"

definition db_new_project :: "timestamp \<Rightarrow> int \<Rightarrow> insert_project \<Rightarrow> project" where
  "db_new_project now i ip =
     \<lparr>pid = i, title = ip_title ip, description = ip_description ip,
      shortDescription = db_column (ip_shortDescription ip) None, location = ip_location ip,
      category = ip_category ip, propertyType = ip_propertyType ip, roi = ip_roi ip,
      minInvestment = ip_minInvestment ip, targetAmount = ip_targetAmount ip,
      currentAmount = db_column (ip_currentAmount ip) (Some 0), status = ip_status ip,
      featured = db_column (ip_featured ip) (Some False),
      priority = db_column (ip_priority ip) (Some 0),
      propertySize = db_column (ip_propertySize ip) None,
      bedrooms = db_column (ip_bedrooms ip) None, bathrooms = db_column (ip_bathrooms ip) None,
      floors = db_column (ip_floors ip) None,
      parkingSpaces = db_column (ip_parkingSpaces ip) None,
      expectedCompletionDate = db_column (ip_expectedCompletionDate ip) None,
      monthlyRent = db_column (ip_monthlyRent ip) None,
      annualAppreciation = db_column (ip_annualAppreciation ip) None,
      imageUrl = db_column (ip_imageUrl ip) None, gallery = db_column (ip_gallery ip) None,
      videoUrl = db_column (ip_videoUrl ip) None, latitude = db_column (ip_latitude ip) None,
      longitude = db_column (ip_longitude ip) None, address = db_column (ip_address ip) None,
      city = db_column (ip_city ip) None, state = db_column (ip_state ip) None,
      country = db_column (ip_country ip) None,
      postalCode = db_column (ip_postalCode ip) None,
      constructionStartDate = db_column (ip_constructionStartDate ip) None,
      constructionEndDate = db_column (ip_constructionEndDate ip) None,
      tags = db_column (ip_tags ip) None, amenities = db_column (ip_amenities ip) None,
      documents = db_column (ip_documents ip) None, createdAt = Some now,
      updatedAt = Some now\<rparr>"

definition db_new_investment :: "timestamp \<Rightarrow> int \<Rightarrow> insert_investment \<Rightarrow> investment" where
  "db_new_investment now i ii =
     \<lparr>inv_id = i, inv_userId = db_column (ii_userId ii) None,
      inv_projectId = db_column (ii_projectId ii) None, inv_amount = ii_amount ii,
      inv_units = db_column (ii_units ii) (Some 1),
      inv_returns = db_column (ii_returns ii) (Some ''0''),
      inv_status = (case ii_status ii of Val v \<Rightarrow> v | _ \<Rightarrow> ''ACTIVE''),
      inv_investmentDate = db_column (ii_investmentDate ii) (Some now),
      inv_expectedReturnDate = db_column (ii_expectedReturnDate ii) None,
      inv_actualReturnDate = db_column (ii_actualReturnDate ii) None,
      inv_notes = db_column (ii_notes ii) None, inv_createdAt = Some now,
      inv_updatedAt = Some now\<rparr>"

definition db_new_transaction :: "timestamp \<Rightarrow> int \<Rightarrow> insert_transaction \<Rightarrow> transaction" where
  "db_new_transaction now i it =
     \<lparr>tx_id = i, tx_userId = db_column (it_userId it) None,
      tx_projectId = db_column (it_projectId it) None,
      tx_investmentId = db_column (it_investmentId it) None, tx_amount = it_amount it,
      tx_type = it_type it, tx_status = it_status it,
      tx_paymentMethod = db_column (it_paymentMethod it) None,
      tx_reference = db_column (it_reference it) None,
      tx_description = db_column (it_description it) None,
      tx_fees = db_column (it_fees it) (Some 0), tx_netAmount = db_column (it_netAmount it) None,
      tx_processedAt = db_column (it_processedAt it) None, tx_createdAt = Some now\<rparr>"

definition db_new_testimonial :: "timestamp \<Rightarrow> int \<Rightarrow> insert_testimonial \<Rightarrow> testimonial" where
  "db_new_testimonial now i its =
     \<lparr>tm_id = i, tm_name = its_name its, tm_avatar = db_column (its_avatar its) None,
      tm_content = its_content its, tm_rating = its_rating its,
      tm_verified = db_column (its_verified its) (Some False),
      tm_featured = db_column (its_featured its) (Some False),
      tm_userId = db_column (its_userId its) None,
      tm_projectId = db_column (its_projectId its) None,
      tm_investmentAmount = db_column (its_investmentAmount its) None,
      tm_investmentDuration = db_column (its_investmentDuration its) None,
      tm_location = db_column (its_location its) None, tm_createdAt = Some now\<rparr>"

subsection \<open>Constraint checks of the inserts\<close>

text \<open>The first constraint an insert violates, in PostgreSQL's order, if any.\<close>

definition user_insert_error :: "db_tables \<Rightarrow> insert_user \<Rightarrow> storage_error option" where
  "user_insert_error d iu =
     (if users_seq d \<in> u_id ` set (db_users d) \<or> iu_username iu \<in> u_username ` set (db_users d)
         \<or> iu_email iu \<in> u_email ` set (db_users d) then Some UniqueViolation else None)"

definition project_insert_error :: "db_tables \<Rightarrow> storage_error option" where
  "project_insert_error d =
     (if projects_seq d \<in> pid ` set (db_projects d) then Some UniqueViolation else None)"

definition investment_insert_error :: "db_tables \<Rightarrow> insert_investment \<Rightarrow> storage_error option" where
  "investment_insert_error d ii =
     (if ii_status ii = Null then Some NotNullViolation
      else if investments_seq d \<in> inv_id ` set (db_investments d) then Some UniqueViolation
      else if \<not> fk_ok (ii_userId ii) (u_id ` set (db_users d))
              \<or> \<not> fk_ok (ii_projectId ii) (pid ` set (db_projects d)) then Some ForeignKeyViolation
      else None)"

definition transaction_insert_error ::
  "db_tables \<Rightarrow> insert_transaction \<Rightarrow> storage_error option" where
  "transaction_insert_error d it =
     (if transactions_seq d \<in> tx_id ` set (db_transactions d) then Some UniqueViolation
      else if \<not> fk_ok (it_userId it) (u_id ` set (db_users d))
              \<or> \<not> fk_ok (it_projectId it) (pid ` set (db_projects d))
              \<or> \<not> fk_ok (it_investmentId it) (inv_id ` set (db_investments d))
        then Some ForeignKeyViolation
      else None)"

definition testimonial_insert_error ::
  "db_tables \<Rightarrow> insert_testimonial \<Rightarrow> storage_error option" where
  "testimonial_insert_error d its =
     (if testimonials_seq d \<in> tm_id ` set (db_testimonials d) then Some UniqueViolation
      else if \<not> fk_ok (its_userId its) (u_id ` set (db_users d))
              \<or> \<not> fk_ok (its_projectId its) (pid ` set (db_projects d))
        then Some ForeignKeyViolation
      else None)"

text \<open>
  \<open>UPDATE projects SET updates WHERE id = i\<close>: rejected when the patch is empty; when
  the patch moves the row to another id, that id must be free and no row of the
  referencing tables may point to the old one.
\<close>

definition project_referenced :: "db_tables \<Rightarrow> int \<Rightarrow> bool" where
  "project_referenced d i \<longleftrightarrow>
     Some i \<in> inv_projectId ` set (db_investments d) \<or>
     Some i \<in> tx_projectId ` set (db_transactions d) \<or>
     Some i \<in> tm_projectId ` set (db_testimonials d)"

definition project_update_error ::
  "db_tables \<Rightarrow> int \<Rightarrow> project_patch \<Rightarrow> storage_error option" where
  "project_update_error d i u =
     (if u = empty_patch then Some EmptyUpdate
      else if i \<notin> pid ` set (db_projects d) then None
      else case pp_id u of
             Some k \<Rightarrow>
               if k \<noteq> i \<and> k \<in> pid ` set (db_projects d) then Some UniqueViolation
               else if k \<noteq> i \<and> project_referenced d i then Some ForeignKeyViolation
               else None
           | None \<Rightarrow> None)"

text \<open>
  A JS number bound to a parameter compared with an \<open>integer\<close> column
  (\<open>eq(projects.id, id)\<close>): the driver sends its text \<open>String(x)\<close>, which PostgreSQL
  parses as \<open>int4\<close>. \<open>"NaN"\<close>, \<open>"Infinity"\<close>, a fraction and the exponent form of
  magnitudes \<open>\<ge> 10^21\<close> are not integer literals (SQLSTATE 22P02); an integer outside
  \<open>[-2^31, 2^31)\<close> is out of range (22003).
\<close>

definition pg_int4_param :: "jsnum \<Rightarrow> storage_error + int" where
  "pg_int4_param x =
     (case x of
        Fin q \<Rightarrow>
          if of_int \<lfloor>q\<rfloor> = q \<and> \<bar>q\<bar> < 10 ^ 21 then
            (if - (2 ^ 31) \<le> \<lfloor>q\<rfloor> \<and> \<lfloor>q\<rfloor> < 2 ^ 31 then Inr \<lfloor>q\<rfloor> else Inl NumericOutOfRange)
          else Inl InvalidTextRepresentation
      | _ \<Rightarrow> Inl InvalidTextRepresentation)"

definition db_update_rows :: "int \<Rightarrow> project_patch \<Rightarrow> project list \<Rightarrow> project list" where
  "db_update_rows i u ps = map (\<lambda>p. if pid p = i then patch_project u p else p) ps"

subsection \<open>The step relation\<close>

inductive db_step ::
  "timestamp \<Rightarrow> storage_req \<Rightarrow> db_tables option \<Rightarrow> storage_error + storage_resp \<Rightarrow>
   db_tables option \<Rightarrow> bool" where
  not_connected: "db_step now req None (Inl DatabaseNotConnected) None"
| get_user: "mset rows = mset (db_users d) \<Longrightarrow>
    db_step now (GetUser i) (Some d) (Inr (RUser (find (\<lambda>u. u_id u = i) rows))) (Some d)"
| get_user_by_username: "mset rows = mset (db_users d) \<Longrightarrow>
    db_step now (GetUserByUsername n) (Some d)
      (Inr (RUser (find (\<lambda>u. u_username u = n) rows))) (Some d)"
| get_user_by_email: "mset rows = mset (db_users d) \<Longrightarrow>
    db_step now (GetUserByEmail e) (Some d) (Inr (RUser (find (\<lambda>u. u_email u = e) rows))) (Some d)"
| create_user: "user_insert_error d iu = None \<Longrightarrow>
    db_step now (CreateUser iu) (Some d) (Inr (RNewUser (db_new_user now (users_seq d) iu)))
      (Some (d\<lparr>db_users := db_users d @ [db_new_user now (users_seq d) iu],
               users_seq := users_seq d + 1\<rparr>))"
| create_user_fail: "user_insert_error d iu = Some e \<Longrightarrow>
    db_step now (CreateUser iu) (Some d) (Inl e) (Some (d\<lparr>users_seq := users_seq d + 1\<rparr>))"
| get_all_projects: "mset rows = mset (db_projects d) \<Longrightarrow>
    db_step now GetAllProjects (Some d) (Inr (RProjects rows)) (Some d)"
| get_project: "pg_int4_param x = Inr i \<Longrightarrow> mset rows = mset (db_projects d) \<Longrightarrow>
    db_step now (GetProject x) (Some d) (Inr (RProject (find (\<lambda>p. pid p = i) rows))) (Some d)"
| get_project_invalid: "pg_int4_param x = Inl e \<Longrightarrow>
    db_step now (GetProject x) (Some d) (Inl e) (Some d)"
| create_project: "project_insert_error d = None \<Longrightarrow>
    db_step now (CreateProject ip) (Some d)
      (Inr (RNewProject (db_new_project now (projects_seq d) ip)))
      (Some (d\<lparr>db_projects := db_projects d @ [db_new_project now (projects_seq d) ip],
               projects_seq := projects_seq d + 1\<rparr>))"
| create_project_fail: "project_insert_error d = Some e \<Longrightarrow>
    db_step now (CreateProject ip) (Some d) (Inl e) (Some (d\<lparr>projects_seq := projects_seq d + 1\<rparr>))"
| update_project: "project_update_error d i u = None \<Longrightarrow> mset rows = mset (db_projects d) \<Longrightarrow>
    db_step now (UpdateProject i u) (Some d)
      (Inr (RProject (map_option (patch_project u) (find (\<lambda>p. pid p = i) rows))))
      (Some (d\<lparr>db_projects := db_update_rows i u (db_projects d)\<rparr>))"
| update_project_fail: "project_update_error d i u = Some e \<Longrightarrow>
    db_step now (UpdateProject i u) (Some d) (Inl e) (Some d)"
| get_investments_by_user: "mset rows = mset (db_investments d) \<Longrightarrow>
    db_step now (GetInvestmentsByUser k) (Some d)
      (Inr (RInvestments (filter (\<lambda>v. inv_userId v = Some k) rows))) (Some d)"
| get_investments_by_project: "mset rows = mset (db_investments d) \<Longrightarrow>
    db_step now (GetInvestmentsByProject k) (Some d)
      (Inr (RInvestments (filter (\<lambda>v. inv_projectId v = Some k) rows))) (Some d)"
| create_investment: "investment_insert_error d ii = None \<Longrightarrow>
    db_step now (CreateInvestment ii) (Some d)
      (Inr (RNewInvestment (db_new_investment now (investments_seq d) ii)))
      (Some (d\<lparr>db_investments := db_investments d @ [db_new_investment now (investments_seq d) ii],
               investments_seq := investments_seq d + 1\<rparr>))"
| create_investment_fail: "investment_insert_error d ii = Some e \<Longrightarrow>
    db_step now (CreateInvestment ii) (Some d) (Inl e)
      (Some (d\<lparr>investments_seq := investments_seq d + 1\<rparr>))"
| get_transactions_by_user: "mset rows = mset (db_transactions d) \<Longrightarrow>
    db_step now (GetTransactionsByUser k) (Some d)
      (Inr (RTransactions (filter (\<lambda>t. tx_userId t = Some k) rows))) (Some d)"
| create_transaction: "transaction_insert_error d it = None \<Longrightarrow>
    db_step now (CreateTransaction it) (Some d)
      (Inr (RNewTransaction (db_new_transaction now (transactions_seq d) it)))
      (Some (d\<lparr>db_transactions := db_transactions d @ [db_new_transaction now (transactions_seq d) it],
               transactions_seq := transactions_seq d + 1\<rparr>))"
| create_transaction_fail: "transaction_insert_error d it = Some e \<Longrightarrow>
    db_step now (CreateTransaction it) (Some d) (Inl e)
      (Some (d\<lparr>transactions_seq := transactions_seq d + 1\<rparr>))"
| get_all_testimonials: "mset rows = mset (db_testimonials d) \<Longrightarrow>
    db_step now GetAllTestimonials (Some d) (Inr (RTestimonials rows)) (Some d)"
| create_testimonial: "testimonial_insert_error d its = None \<Longrightarrow>
    db_step now (CreateTestimonial its) (Some d)
      (Inr (RNewTestimonial (db_new_testimonial now (testimonials_seq d) its)))
      (Some (d\<lparr>db_testimonials := db_testimonials d @ [db_new_testimonial now (testimonials_seq d) its],
               testimonials_seq := testimonials_seq d + 1\<rparr>))"
| create_testimonial_fail: "testimonial_insert_error d its = Some e \<Longrightarrow>
    db_step now (CreateTestimonial its) (Some d) (Inl e)
      (Some (d\<lparr>testimonials_seq := testimonials_seq d + 1\<rparr>))"

text \<open>
  The database invariant: the constraints of the schema. Primary keys and the unique
  columns \<open>users.username\<close>, \<open>users.email\<close> hold distinct values, and every foreign
  key that is not null points to an existing row (\<open>refs_ok\<close>, over the rows of the
  five tables).
\<close>

fun fk_in :: "int option \<Rightarrow> int set \<Rightarrow> bool" where
  "fk_in (Some k) ids \<longleftrightarrow> k \<in> ids"
| "fk_in None ids \<longleftrightarrow> True"

definition refs_ok ::
  "user list \<Rightarrow> project list \<Rightarrow> investment list \<Rightarrow> transaction list \<Rightarrow> testimonial list \<Rightarrow> bool" where
  "refs_ok us ps vs ts ms \<longleftrightarrow>
     (\<forall>v\<in>set vs. fk_in (inv_userId v) (u_id ` set us) \<and> fk_in (inv_projectId v) (pid ` set ps)) \<and>
     (\<forall>t\<in>set ts. fk_in (tx_userId t) (u_id ` set us) \<and> fk_in (tx_projectId t) (pid ` set ps) \<and>
        fk_in (tx_investmentId t) (inv_id ` set vs)) \<and>
     (\<forall>t\<in>set ms. fk_in (tm_userId t) (u_id ` set us) \<and> fk_in (tm_projectId t) (pid ` set ps))"

definition db_inv :: "db_tables \<Rightarrow> bool" where
  "db_inv d \<longleftrightarrow>
     distinct (map u_id (db_users d)) \<and> distinct (map u_username (db_users d)) \<and>
     distinct (map u_email (db_users d)) \<and> distinct (map pid (db_projects d)) \<and>
     distinct (map inv_id (db_investments d)) \<and> distinct (map tx_id (db_transactions d)) \<and>
     distinct (map tm_id (db_testimonials d)) \<and>
     refs_ok (db_users d) (db_projects d) (db_investments d) (db_transactions d) (db_testimonials d)"

text \<open>An empty database with fresh sequences.\<close>

definition db_empty :: db_tables where
  "db_empty =
     \<lparr>db_users = [], db_projects = [], db_investments = [], db_transactions = [],
      db_testimonials = [], users_seq = 1, projects_seq = 1, investments_seq = 1,
      transactions_seq = 1, testimonials_seq = 1\<rparr>"

subsection \<open>Invariant\<close>

inductive_cases db_step_SomeE: "db_step now req (Some d) r c'"

lemma pg_int4_param_error:
  "pg_int4_param x = Inl e \<Longrightarrow> e = InvalidTextRepresentation \<or> e = NumericOutOfRange"
  by (auto simp: pg_int4_param_def split: jsnum.splits if_splits)

lemma fk_in_mono: "fk_in x A \<Longrightarrow> A \<subseteq> B \<Longrightarrow> fk_in x B"
  by (cases x) auto

lemma fk_ok_db_column: "fk_ok x A \<Longrightarrow> fk_in (db_column x None) A"
  by (cases x) auto

lemma db_step_connected: "db_step now req (Some d) r c' \<Longrightarrow> \<exists>d'. c' = Some d'"
  by (erule db_step_SomeE) auto

lemma distinct_map_rename:
  "distinct (map f xs) \<Longrightarrow> k \<notin> f ` set xs \<Longrightarrow>
   distinct (map (\<lambda>x. if f x = i then k else f x) xs)"
  by (induction xs) (auto simp: image_iff)

lemma pid_db_update_rows:
  "map pid (db_update_rows i u ps) = map (\<lambda>p. if pid p = i then spread (pp_id u) (pid p) else pid p) ps"
  by (simp add: db_update_rows_def)

lemma db_update_rows_absent: "i \<notin> pid ` set ps \<Longrightarrow> db_update_rows i u ps = ps"
  by (induction ps) (auto simp: db_update_rows_def)

lemma pid_set_db_update_rows:
  "pid ` set ps - {i} \<subseteq> pid ` set (db_update_rows i u ps)"
proof
  fix k assume "k \<in> pid ` set ps - {i}"
  then obtain p where "p \<in> set ps" "pid p = k" "k \<noteq> i" by auto
  then have "p \<in> set (db_update_rows i u ps)" by (force simp: db_update_rows_def)
  with \<open>pid p = k\<close> show "k \<in> pid ` set (db_update_rows i u ps)" by blast
qed

lemma distinct_db_update_rows:
  assumes "distinct (map pid ps)" and "project_update_error d i u = None" and "ps = db_projects d"
  shows "distinct (map pid (db_update_rows i u ps))"
proof (cases "pp_id u")
  case None
  then have "map pid (db_update_rows i u ps) = map pid ps"
    by (simp add: pid_db_update_rows)
  then show ?thesis using assms(1) by simp
next
  case (Some k)
  show ?thesis
  proof (cases "k = i \<or> i \<notin> pid ` set ps")
    case True
    then have "map pid (db_update_rows i u ps) = map pid ps"
      using Some by (auto simp: pid_db_update_rows db_update_rows_absent)
    then show ?thesis using assms(1) by simp
  next
    case False
    then have "k \<notin> pid ` set ps"
      using assms(2,3) Some by (auto simp: project_update_error_def split: if_splits)
    moreover have "map pid (db_update_rows i u ps) = map (\<lambda>x. if pid x = i then k else pid x) ps"
      using Some by (simp add: pid_db_update_rows)
    ultimately show ?thesis
      using assms(1) distinct_map_rename [of pid ps k i] by simp
  qed
qed

lemma db_update_rows_keeps_referenced:
  assumes "project_update_error d i u = None" and "x \<in> pid ` set (db_projects d)"
    and "x = i \<longrightarrow> project_referenced d i"
  shows "x \<in> pid ` set (db_update_rows i u (db_projects d))"
proof (cases "x = i")
  case False
  then show ?thesis using assms(2) pid_set_db_update_rows by blast
next
  case True
  then have ref: "project_referenced d i" using assms(3) by simp
  have "map pid (db_update_rows i u (db_projects d)) = map pid (db_projects d)"
  proof (cases "pp_id u")
    case None
    then show ?thesis by (simp add: pid_db_update_rows)
  next
    case (Some k)
    with assms(1,2) ref True have "k = i"
      by (auto simp: project_update_error_def split: if_splits)
    with Some show ?thesis by (simp add: pid_db_update_rows)
  qed
  then have "pid ` set (db_update_rows i u (db_projects d)) = pid ` set (db_projects d)"
    by (metis set_map)
  with assms(2) show ?thesis by simp
qed

lemma fk_in_update:
  assumes "project_update_error d i u = None" and "fk_in x (pid ` set (db_projects d))"
    and "x = Some i \<longrightarrow> project_referenced d i"
  shows "fk_in x (pid ` set (db_update_rows i u (db_projects d)))"
  using assms by (cases x) (auto intro: db_update_rows_keeps_referenced)

lemma refs_ok_update:
  assumes r: "refs_ok (db_users d) (db_projects d) (db_investments d) (db_transactions d) (db_testimonials d)"
    and e: "project_update_error d i u = None"
  shows "refs_ok (db_users d) (db_update_rows i u (db_projects d)) (db_investments d)
           (db_transactions d) (db_testimonials d)"
proof -
  have k: "\<And>x. fk_in x (pid ` set (db_projects d)) \<Longrightarrow> (x = Some i \<longrightarrow> project_referenced d i) \<Longrightarrow>
             fk_in x (pid ` set (db_update_rows i u (db_projects d)))"
    using e by (rule fk_in_update)
  have "\<forall>v\<in>set (db_investments d). inv_projectId v = Some i \<longrightarrow> project_referenced d i"
    "\<forall>t\<in>set (db_transactions d). tx_projectId t = Some i \<longrightarrow> project_referenced d i"
    "\<forall>t\<in>set (db_testimonials d). tm_projectId t = Some i \<longrightarrow> project_referenced d i"
    by (auto simp: project_referenced_def intro: rev_image_eqI)
  with r k show ?thesis
    unfolding refs_ok_def by blast
qed

lemma db_inv_update:
  assumes "db_inv d" and "project_update_error d i u = None"
  shows "db_inv (d\<lparr>db_projects := db_update_rows i u (db_projects d)\<rparr>)"
  using assms distinct_db_update_rows [OF _ assms(2) refl] refs_ok_update
  by (simp add: db_inv_def)

lemma fk_in_image_mono: "fk_in x (f ` set a) \<Longrightarrow> set a \<subseteq> set b \<Longrightarrow> fk_in x (f ` set b)"
  by (cases x) auto

lemma refs_ok_add_user: "refs_ok us ps vs ts ms \<Longrightarrow> refs_ok (us @ [u]) ps vs ts ms"
proof -
  have "set us \<subseteq> set (us @ [u])" by auto
  then show "refs_ok us ps vs ts ms \<Longrightarrow> refs_ok (us @ [u]) ps vs ts ms"
    unfolding refs_ok_def by (blast intro: fk_in_image_mono)
qed

lemma refs_ok_add_project: "refs_ok us ps vs ts ms \<Longrightarrow> refs_ok us (ps @ [p]) vs ts ms"
proof -
  have "set ps \<subseteq> set (ps @ [p])" by auto
  then show "refs_ok us ps vs ts ms \<Longrightarrow> refs_ok us (ps @ [p]) vs ts ms"
    unfolding refs_ok_def by (blast intro: fk_in_image_mono)
qed

lemma refs_ok_add_investment:
  assumes "refs_ok us ps vs ts ms" and "fk_in (inv_userId v) (u_id ` set us)"
    and "fk_in (inv_projectId v) (pid ` set ps)"
  shows "refs_ok us ps (vs @ [v]) ts ms"
proof -
  have "\<And>x. fk_in x (inv_id ` set vs) \<Longrightarrow> fk_in x (insert (inv_id v) (inv_id ` set vs))"
    by (rule fk_in_mono) auto
  then show ?thesis
    using assms unfolding refs_ok_def by simp
qed

lemma refs_ok_add_transaction:
  "refs_ok us ps vs ts ms \<Longrightarrow> fk_in (tx_userId t) (u_id ` set us) \<Longrightarrow>
   fk_in (tx_projectId t) (pid ` set ps) \<Longrightarrow> fk_in (tx_investmentId t) (inv_id ` set vs) \<Longrightarrow>
   refs_ok us ps vs (ts @ [t]) ms"
  unfolding refs_ok_def by simp

lemma refs_ok_add_testimonial:
  "refs_ok us ps vs ts ms \<Longrightarrow> fk_in (tm_userId t) (u_id ` set us) \<Longrightarrow>
   fk_in (tm_projectId t) (pid ` set ps) \<Longrightarrow> refs_ok us ps vs ts (ms @ [t])"
  unfolding refs_ok_def by simp

lemma db_inv_add_user:
  assumes "db_inv d" and "user_insert_error d iu = None"
  shows "db_inv (d\<lparr>db_users := db_users d @ [db_new_user now (users_seq d) iu], users_seq := n\<rparr>)"
proof -
  have "users_seq d \<notin> u_id ` set (db_users d)" "iu_username iu \<notin> u_username ` set (db_users d)"
       "iu_email iu \<notin> u_email ` set (db_users d)"
    using assms(2) by (simp_all add: user_insert_error_def split: if_splits)
  then show ?thesis
    using assms(1) by (simp add: db_inv_def db_new_user_def refs_ok_add_user)
qed

lemma db_inv_add_project:
  assumes "db_inv d" and "project_insert_error d = None"
  shows "db_inv (d\<lparr>db_projects := db_projects d @ [db_new_project now (projects_seq d) ip],
                    projects_seq := n\<rparr>)"
proof -
  have "projects_seq d \<notin> pid ` set (db_projects d)"
    using assms(2) by (simp add: project_insert_error_def split: if_splits)
  then show ?thesis
    using assms(1) by (simp add: db_inv_def db_new_project_def refs_ok_add_project)
qed

lemma db_inv_add_investment:
  assumes "db_inv d" and "investment_insert_error d ii = None"
  shows "db_inv (d\<lparr>db_investments := db_investments d @ [db_new_investment now (investments_seq d) ii],
                    investments_seq := n\<rparr>)"
proof -
  have e: "investments_seq d \<notin> inv_id ` set (db_investments d)"
      "fk_ok (ii_userId ii) (u_id ` set (db_users d))"
      "fk_ok (ii_projectId ii) (pid ` set (db_projects d))"
    using assms(2) by (simp_all add: investment_insert_error_def split: if_splits)
  have "refs_ok (db_users d) (db_projects d)
          (db_investments d @ [db_new_investment now (investments_seq d) ii])
          (db_transactions d) (db_testimonials d)"
    using assms(1) e(2,3)
    by (intro refs_ok_add_investment) (simp_all add: db_inv_def db_new_investment_def fk_ok_db_column)
  with e(1) show ?thesis
    using assms(1) by (simp add: db_inv_def db_new_investment_def)
qed

lemma db_inv_add_transaction:
  assumes "db_inv d" and "transaction_insert_error d it = None"
  shows "db_inv (d\<lparr>db_transactions := db_transactions d @ [db_new_transaction now (transactions_seq d) it],
                    transactions_seq := n\<rparr>)"
proof -
  have e: "transactions_seq d \<notin> tx_id ` set (db_transactions d)"
      "fk_ok (it_userId it) (u_id ` set (db_users d))"
      "fk_ok (it_projectId it) (pid ` set (db_projects d))"
      "fk_ok (it_investmentId it) (inv_id ` set (db_investments d))"
    using assms(2) by (simp_all add: transaction_insert_error_def split: if_splits)
  have "refs_ok (db_users d) (db_projects d) (db_investments d)
          (db_transactions d @ [db_new_transaction now (transactions_seq d) it]) (db_testimonials d)"
    using assms(1) e(2-4)
    by (intro refs_ok_add_transaction) (simp_all add: db_inv_def db_new_transaction_def fk_ok_db_column)
  with e(1) show ?thesis
    using assms(1) by (simp add: db_inv_def db_new_transaction_def)
qed

lemma db_inv_add_testimonial:
  assumes "db_inv d" and "testimonial_insert_error d its = None"
  shows "db_inv (d\<lparr>db_testimonials := db_testimonials d @ [db_new_testimonial now (testimonials_seq d) its],
                    testimonials_seq := n\<rparr>)"
proof -
  have e: "testimonials_seq d \<notin> tm_id ` set (db_testimonials d)"
      "fk_ok (its_userId its) (u_id ` set (db_users d))"
      "fk_ok (its_projectId its) (pid ` set (db_projects d))"
    using assms(2) by (simp_all add: testimonial_insert_error_def split: if_splits)
  have "refs_ok (db_users d) (db_projects d) (db_investments d) (db_transactions d)
          (db_testimonials d @ [db_new_testimonial now (testimonials_seq d) its])"
    using assms(1) e(2,3)
    by (intro refs_ok_add_testimonial) (simp_all add: db_inv_def db_new_testimonial_def fk_ok_db_column)
  with e(1) show ?thesis
    using assms(1) by (simp add: db_inv_def db_new_testimonial_def)
qed



inductive_cases db_step_GetProjectE: "db_step now (GetProject x) c r c'"

lemma pg_int4_param_NaN [simp]: "pg_int4_param NaN = Inl InvalidTextRepresentation"
  by (simp add: pg_int4_param_def)

lemma db_step_GetProject_NaN:
  "db_step now (GetProject NaN) c r c' \<Longrightarrow> c' = c \<and> (\<exists>e. r = Inl e)"
  by (erule db_step_GetProjectE) auto


end
