(* ===== verification/StorageSelect.thy ===== *)
theory StorageSelect
  imports MemStorage DbStorage
begin

text \<open>
  How the server picks its backend: \<open>src/server/db.ts\<close> connects (\<open>db\<close> non-null) exactly
  when \<open>process.env.DATABASE_URL\<close> is truthy, and \<open>src/server/storage.ts\<close> (line 547)
  exports \<open>DATABASE_URL ? new DbStorage() : new MemStorage()\<close>. An environment
  variable is a \<^typ>\<open>string option\<close> (\<open>None\<close>: unset); it is truthy when set and
  non-empty. The database the URL points to is the parameter \<open>d0\<close>, assumed to satisfy
  the schema's constraints. \<open>backend_step\<close> runs a request on the chosen backend and
  \<open>backend_reach\<close> collects the backends reachable from start-up.
\<close>

definition env_truthy :: "string option \<Rightarrow> bool" where
  "env_truthy e = (case e of None \<Rightarrow> False | Some v \<Rightarrow> v \<noteq> [])"

definition db_connection :: "string option \<Rightarrow> db_tables \<Rightarrow> db_tables option" where
  "db_connection env d0 = (if env_truthy env then Some d0 else None)"

datatype server_backend = MemBackend mem_storage | DbBackend "db_tables option"

definition select_storage :: "string option \<Rightarrow> timestamp \<Rightarrow> db_tables \<Rightarrow> server_backend" where
  "select_storage env now d0 =
     (if env_truthy env then DbBackend (db_connection env d0) else MemBackend (mem_new now))"

inductive backend_step ::
  "timestamp \<Rightarrow> storage_req \<Rightarrow> server_backend \<Rightarrow> storage_error + storage_resp \<Rightarrow> server_backend \<Rightarrow> bool"
  where
  mem: "backend_step now req (MemBackend s) (fst (mem_exec now req s)) (MemBackend (snd (mem_exec now req s)))"
| db: "db_step now req c r c' \<Longrightarrow> backend_step now req (DbBackend c) r (DbBackend c')"

inductive backend_reach :: "server_backend \<Rightarrow> bool" where
  init: "db_inv d0 \<Longrightarrow> backend_reach (select_storage env now d0)"
| step: "backend_reach b \<Longrightarrow> backend_step now req b r b' \<Longrightarrow> backend_reach b'"

inductive_cases backend_step_memE: "backend_step now req (MemBackend s) r b'"
inductive_cases backend_step_dbE: "backend_step now req (DbBackend c) r b'"

lemma mem_exec_never_fails: "\<exists>x. fst (mem_exec now req s) = Inr x"
  by (cases req) (simp_all add: mem_exec_def split_beta)

lemma db_step_connected_never_disconnected:
  "db_step now req (Some d) r c' \<Longrightarrow> r \<noteq> Inl DatabaseNotConnected"
  by (erule db_step_SomeE)
    (auto simp: user_insert_error_def project_insert_error_def investment_insert_error_def
      transaction_insert_error_def testimonial_insert_error_def project_update_error_def
      dest: pg_int4_param_error split: if_splits option.splits)

lemma backend_reach_connected: "backend_reach b \<Longrightarrow> b \<noteq> DbBackend None"
proof (induction rule: backend_reach.induct)
  case (init d0 env now)
  then show ?case by (simp add: select_storage_def db_connection_def)
next
  case (step b now req r b')
  from step.hyps(2) show ?case
  proof cases
    case (mem s)
    then show ?thesis by simp
  next
    case (db c c')
    then obtain d where "c = Some d"
      using step.IH by (cases c) auto
    with db show ?thesis using db_step_connected by fastforce
  qed
qed

text \<open>
  C29. The \<open>"Database not connected"\<close> error of \<open>DbStorage\<close> is unreachable in the
  server: whichever backend start-up selects, no request on any reachable backend state
  returns it (the in-memory backend never fails, and the database backend is only
  built when \<open>db\<close> is connected).
\<close>

theorem backend_never_disconnected:
  assumes "backend_reach b" and "backend_step now req b r b'"
  shows "r \<noteq> Inl DatabaseNotConnected"
  using assms(2)
proof (cases rule: backend_step.cases)
  case (mem s)
  then show ?thesis using mem_exec_never_fails [of now req s] by auto
next
  case (db c c')
  then obtain d where "c = Some d"
    using backend_reach_connected [OF assms(1)] by (cases c) auto
  with db show ?thesis using db_step_connected_never_disconnected by blast
qed

theorem backend_never_disconnected_witness:
  "fst (mem_exec 0 GetAllProjects (mem_new 0)) \<noteq> Inl DatabaseNotConnected"
proof -
  have "backend_reach (select_storage None 0 db_empty)"
    by (rule backend_reach.init) (simp add: db_inv_def db_empty_def refs_ok_def)
  moreover have "select_storage None 0 db_empty = MemBackend (mem_new 0)"
    by (simp add: select_storage_def env_truthy_def)
  ultimately show ?thesis
    using backend_never_disconnected backend_step.mem by metis
qed

text \<open>
  C30. The two backends store different rows for the same validated body: when
  \<open>currentAmount\<close> is absent, \<open>MemStorage\<close> stores \<open>null\<close> and the database stores
  the column default 0 (they agree exactly when the property is given); both read as 0
  where the pages use the amount. For a testimonial without \<open>featured\<close>,
  \<open>MemStorage\<close> stores \<open>null\<close> where the database stores \<open>false\<close>.
\<close>

theorem backends_disagree_on_defaults:
  "(currentAmount (new_project now i ip) = currentAmount (db_new_project now i ip)
      \<longleftrightarrow> ip_currentAmount ip \<noteq> Undef) \<and>
   current_or_zero (new_project now i ip) = current_or_zero (db_new_project now i ip) \<and>
   tm_featured (fst (createTestimonial now its s)) =
     (if its_featured its = Undef then None else tm_featured (db_new_testimonial now k its))"
  by (cases "ip_currentAmount ip"; cases "its_featured its")
    (simp_all add: new_project_def db_new_project_def current_or_zero_def createTestimonial_def
      Let_def db_new_testimonial_def)

end
