(* ===== verification/Routes.thy ===== *)
theory Routes
  imports StorageSelect Dashboard
begin

text \<open>
  The HTTP handlers of \<open>src/server/routes.ts\<close> over the storage interface. A handler is
  the request it sends to \<open>storage\<close> (\<open>route_call\<close>; \<open>Inl\<close> when it answers without a
  storage call, as a \<open>POST\<close> whose body the validator rejects) and the reply it builds
  from the storage's result (\<open>route_reply\<close>), the \<open>catch\<close> branch answering an error.
  A reply is the status code and the JSON body. \<open>serve\<close> runs a handler against a
  backend given as a step function (the in-memory store), and \<open>app_serve\<close> against
  the backend the server selected (\<open>backend_step\<close>, a relation since the database's
  row order is unspecified).
  The validator \<open>insertProjectSchema.parse\<close> is not modelled: the route carries its
  outcome, \<open>None\<close> for a body it rejects.
\<close>

datatype body = BProjects "project list" | BProject project | BTestimonials "testimonial list"
  | BTestimonial testimonial | BStats dashboard_stats | BMessage string

type_synonym http_resp = "nat \<times> body"

datatype route =
    GetProjects
  | GetProjectById string
  | PostProject "insert_project option"
  | GetTestimonials
  | PostTestimonial "insert_testimonial option"
  | GetDashboardStats

fun route_call :: "route \<Rightarrow> http_resp + storage_req" where
  "route_call GetProjects = Inr GetAllProjects"
| "route_call (GetProjectById sid) = Inr (GetProject (js_parseInt sid))"
| "route_call (PostProject None) = Inl (400, BMessage ''Invalid project data'')"
| "route_call (PostProject (Some ip)) = Inr (CreateProject ip)"
| "route_call GetTestimonials = Inr GetAllTestimonials"
| "route_call (PostTestimonial None) = Inl (400, BMessage ''Invalid testimonial data'')"
| "route_call (PostTestimonial (Some its)) = Inr (CreateTestimonial its)"
| "route_call GetDashboardStats = Inr GetAllProjects"

fun route_reply :: "route \<Rightarrow> storage_error + storage_resp \<Rightarrow> http_resp" where
  "route_reply GetProjects (Inr (RProjects ps)) = (200, BProjects ps)"
| "route_reply GetProjects _ = (500, BMessage ''Failed to fetch projects'')"
| "route_reply (GetProjectById _) (Inr (RProject None)) = (404, BMessage ''Project not found'')"
| "route_reply (GetProjectById _) (Inr (RProject (Some p))) = (200, BProject p)"
| "route_reply (GetProjectById _) _ = (500, BMessage ''Failed to fetch project'')"
| "route_reply (PostProject _) (Inr (RNewProject p)) = (201, BProject p)"
| "route_reply (PostProject _) _ = (400, BMessage ''Invalid project data'')"
| "route_reply GetTestimonials (Inr (RTestimonials ts)) = (200, BTestimonials ts)"
| "route_reply GetTestimonials _ = (500, BMessage ''Failed to fetch testimonials'')"
| "route_reply (PostTestimonial _) (Inr (RNewTestimonial t)) = (201, BTestimonial t)"
| "route_reply (PostTestimonial _) _ = (400, BMessage ''Invalid testimonial data'')"
| "route_reply GetDashboardStats (Inr (RProjects ps)) = (200, BStats (compute_stats ps))"
| "route_reply GetDashboardStats _ = (500, BMessage ''Failed to fetch dashboard stats'')"

definition serve :: "'s storage \<Rightarrow> timestamp \<Rightarrow> route \<Rightarrow> 's \<Rightarrow> http_resp \<times> 's" where
  "serve exec now r s =
     (case route_call r of
        Inl resp \<Rightarrow> (resp, s)
      | Inr q \<Rightarrow> (case exec now q s of (res, s') \<Rightarrow> (route_reply r res, s')))"

inductive app_serve ::
  "timestamp \<Rightarrow> route \<Rightarrow> server_backend \<Rightarrow> http_resp \<Rightarrow> server_backend \<Rightarrow> bool" where
  rejected: "route_call r = Inl resp \<Longrightarrow> app_serve now r b resp b"
| called: "route_call r = Inr q \<Longrightarrow> backend_step now q b res b' \<Longrightarrow>
    app_serve now r b (route_reply r res) b'"

inductive_cases app_serve_GetProjectByIdE: "app_serve now (GetProjectById sid) b r b'"

lemma route_reply_RProject: "fst (route_reply (GetProjectById sid) (Inr (RProject po))) \<noteq> 500"
  by (cases po) simp_all

text \<open>
  C38. Over HTTP, on the in-memory backend: after \<open>POST /api/projects\<close> answers 201
  with a project, \<open>GET /api/projects/<id>\<close> with that project's id written in decimal
  answers 200 with the same project.
\<close>

theorem post_then_get_project:
  assumes "mem_inv s" and "serve mem_exec now (PostProject (Some ip)) s = ((201, BProject p), s')"
  shows "serve mem_exec now' (GetProjectById (nat_digits (nat (pid p)))) s' = ((200, BProject p), s')"
proof -
  obtain p0 where c: "createProject now ip s = (p0, s')" and p0: "p0 = p"
    using assms(2) by (auto simp: serve_def mem_exec_def split_beta)
  have pos: "0 < pid p"
    using assms(1) createProject_pid [OF c] p0 by (simp add: mem_inv_def table_inv_def)
  have g: "getProject (pid p) s' = Some p"
    using createProject_update [OF c] p0 by (simp add: getProject_def update_conv')
  have "js_parseInt (nat_digits (nat (pid p))) = Fin (of_int (pid p))"
    using pos by (simp add: js_parseInt_nat_digits)
  then show ?thesis
    by (simp add: serve_def mem_exec_GetProject g)
qed

theorem post_then_get_project_witness:
  "serve mem_exec 0 (GetProjectById ''7'') (snd (createProject 0 sample_insert_project (mem_new 0))) =
     ((200, BProject (fst (createProject 0 sample_insert_project (mem_new 0)))),
      snd (createProject 0 sample_insert_project (mem_new 0)))"
proof -
  have i: "mem_inv (mem_new 0)" by (rule mem_new_inv)
  have s: "serve mem_exec 0 (PostProject (Some sample_insert_project)) (mem_new 0) =
     ((201, BProject (fst (createProject 0 sample_insert_project (mem_new 0)))),
      snd (createProject 0 sample_insert_project (mem_new 0)))"
    by (simp add: serve_def mem_exec_def split_beta)
  have d: "nat_digits 7 = ''7''" by code_simp
  have p: "nat_digits (nat (pid (fst (createProject 0 sample_insert_project (mem_new 0))))) = ''7''"
    using d by (simp add: createProject_def Let_def new_project_def)
  show ?thesis using post_then_get_project [OF i s, of 0] p by simp
qed

text \<open>
  C39. \<open>GET /api/projects/<id>\<close> with an id \<open>parseInt\<close> cannot read (e.g. \<open>abc\<close>)
  passes \<open>NaN\<close> to the storage unchecked. The in-memory backend answers 404
  "Project not found"; the database backend answers 500 "Failed to fetch project"
  (PostgreSQL rejects \<open>'NaN'\<close> as an integer, and an unconnected database throws).
  Neither changes its state.
\<close>

theorem nan_id_backends_disagree:
  assumes "js_parseInt sid = NaN" and "app_serve now (GetProjectById sid) b r b'"
  shows "b' = b \<and>
    r = (case b of MemBackend _ \<Rightarrow> (404, BMessage ''Project not found'')
                 | DbBackend _ \<Rightarrow> (500, BMessage ''Failed to fetch project''))"
proof -
  obtain q res where c: "route_call (GetProjectById sid) = Inr q" and st: "backend_step now q b res b'"
    and r: "r = route_reply (GetProjectById sid) res"
    using assms(2) by (auto elim: app_serve_GetProjectByIdE)
  then have q: "q = GetProject NaN" using assms(1) by simp
  show ?thesis
  proof (cases b)
    case (MemBackend s)
    then show ?thesis using st q r
      by (auto elim: backend_step_memE simp: mem_exec_GetProject)
  next
    case (DbBackend c)
    then show ?thesis using st q r
      by (auto elim!: backend_step_dbE dest!: db_step_GetProject_NaN)
  qed
qed

theorem nan_id_backends_disagree_witness:
  "fst (fst (serve mem_exec 0 (GetProjectById ''abc'') (mem_new 0))) = 404"
proof -
  have n: "js_parseInt ''abc'' = NaN" by code_simp
  have "app_serve 0 (GetProjectById ''abc'') (MemBackend (mem_new 0))
     (route_reply (GetProjectById ''abc'') (fst (mem_exec 0 (GetProject (js_parseInt ''abc'')) (mem_new 0))))
     (MemBackend (snd (mem_exec 0 (GetProject (js_parseInt ''abc'')) (mem_new 0))))"
    by (rule app_serve.called) (auto intro: backend_step.mem)
  from nan_id_backends_disagree [OF n this] show ?thesis
    by (simp add: serve_def split_beta)
qed

text \<open>
  C40. On the in-memory backend no route answers 500: every storage call of a handler
  succeeds with the response its \<open>try\<close> branch expects, so the \<open>catch\<close> branches
  answering 500 are unreachable there.
\<close>

theorem mem_never_500: "fst (fst (serve mem_exec now r s)) \<noteq> 500"
  by (cases r rule: route_call.cases)
    (auto simp: serve_def mem_exec_def split_beta route_reply_RProject split: option.splits)


end
