(* ===== verification/InvestorAITools.thy ===== *)
theory InvestorAITools
  imports JsString
begin

text \<open>
  The "AI tools" page (\<open>src/client/src/pages/InvestorAITools.tsx\<close>). Its rule tables
  are definitions: \<open>getPropertySuggestion\<close> (budget tiers, lines 9--47), the market
  summary and the comparison options (lines 50--64), \<open>getRiskAssessment\<close> (lines
  115--121) and \<open>calculateProjectedReturns\<close> (lines 126--134). The component's
  \<open>useState\<close> hooks are the record \<open>ai_state\<close>, its event handlers and the
  \<open>useEffect\<close> on \<open>investment\<close> are \<open>ai_step\<close> on the datatype \<open>ai_event\<close>. The
  amounts are JS numbers read with \<open>Number(...)\<close>; the decimal constant \<open>0.18\<close> is the
  rational \<open>18/100\<close>. The analysis text interpolates \<open>formatPKR\<close>
  (\<open>toLocaleString\<close> with the \<open>en-PK\<close> locale) of four figures; the model keeps the
  four figures (\<open>analysis_figures\<close>) and not the locale formatting.
\<close>

record listing =
  l_name :: string
  l_price :: string
  l_location :: string
  l_type :: string
  l_roi :: string

record suggestion =
  sg_suggestion :: string
  sg_properties :: "listing list"

definition mk_listing :: "string \<Rightarrow> string \<Rightarrow> string \<Rightarrow> string \<Rightarrow> string \<Rightarrow> listing" where
  "mk_listing n p loc t r = \<lparr>l_name = n, l_price = p, l_location = loc, l_type = t, l_roi = r\<rparr>"

definition getPropertySuggestion :: "jsnum \<Rightarrow> suggestion" where
  "getPropertySuggestion budget =
     (if js_lt budget (Fin 2000000) then
        \<lparr>sg_suggestion = ''Consider 1-bed apartments or small commercial shops in emerging areas.'',
         sg_properties =
           [mk_listing ''Emerald Heights 1BR'' ''1.8M PKR'' ''Bahria Town Phase 8'' ''Apartment'' ''12-15%'',
            mk_listing ''City Center Shop'' ''1.5M PKR'' ''Gulberg III'' ''Commercial'' ''18-22%'',
            mk_listing ''Green Valley Plot'' ''1.2M PKR'' ''DHA Phase 6'' ''Plot'' ''25-30%'']\<rparr>
      else if js_lt budget (Fin 10000000) then
        \<lparr>sg_suggestion = ''Look for 2-3 bed apartments, small houses, or plots in developing societies.'',
         sg_properties =
           [mk_listing ''Luxury 2BR Apartment'' ''8.5M PKR'' ''DHA Phase 5'' ''Apartment'' ''15-18%'',
            mk_listing ''Modern Townhouse'' ''7.2M PKR'' ''Bahria Town Phase 7'' ''House'' ''20-25%'',
            mk_listing ''Commercial Office'' ''9.8M PKR'' ''Gulberg II'' ''Commercial'' ''22-28%'']\<rparr>
      else if js_lt budget (Fin 50000000) then
        \<lparr>sg_suggestion = ''Explore luxury apartments, 1-kanal houses, or commercial properties in prime locations.'',
         sg_properties =
           [mk_listing ''Premium 3BR Villa'' ''35M PKR'' ''DHA Phase 8'' ''Villa'' ''18-22%'',
            mk_listing ''Luxury Penthouse'' ''42M PKR'' ''Gulberg I'' ''Penthouse'' ''25-30%'',
            mk_listing ''Commercial Plaza'' ''28M PKR'' ''Bahria Town Phase 6'' ''Commercial'' ''30-35%'']\<rparr>
      else
        \<lparr>sg_suggestion = ''You can invest in high-end villas, multi-kanal plots, or premium commercial plazas.'',
         sg_properties =
           [mk_listing ''Executive Villa'' ''85M PKR'' ''DHA Phase 9'' ''Villa'' ''20-25%'',
            mk_listing ''Luxury Farmhouse'' ''120M PKR'' ''Bahria Orchard'' ''Farmhouse'' ''30-40%'',
            mk_listing ''Premium Mall Space'' ''95M PKR'' ''Gulberg I'' ''Commercial'' ''35-45%'']\<rparr>)"

record market_overview =
  mo_currentTrend :: string
  mo_avgROI :: rat
  mo_marketGrowth :: rat
  mo_hotAreas :: "string list"
  mo_riskFactors :: "string list"

definition marketData :: market_overview where
  "marketData =
     \<lparr>mo_currentTrend = ''Bullish'', mo_avgROI = 185 / 10, mo_marketGrowth = 123 / 10,
      mo_hotAreas = [''DHA Phase 8'', ''Bahria Town Phase 7'', ''Gulberg III''],
      mo_riskFactors = [''Interest Rate Changes'', ''Economic Policy'', ''Market Volatility'']\<rparr>"

record investment_option =
  io_name :: string
  io_roi :: rat
  io_risk :: string
  io_liquidity :: string
  io_minInvestment :: int

definition investmentOptions :: "investment_option list" where
  "investmentOptions =
     [\<lparr>io_name = ''Real Estate'', io_roi = 18, io_risk = ''Medium'', io_liquidity = ''Low'',
       io_minInvestment = 2000000\<rparr>,
      \<lparr>io_name = ''Stock Market'', io_roi = 12, io_risk = ''High'', io_liquidity = ''High'',
       io_minInvestment = 50000\<rparr>,
      \<lparr>io_name = ''Gold'', io_roi = 8, io_risk = ''Low'', io_liquidity = ''Medium'',
       io_minInvestment = 100000\<rparr>,
      \<lparr>io_name = ''Savings Account'', io_roi = 3, io_risk = ''Very Low'', io_liquidity = ''Very High'',
       io_minInvestment = 1000\<rparr>]"

record risk =
  rk_level :: string
  rk_color :: string
  rk_description :: string

definition getRiskAssessment :: "jsnum \<Rightarrow> risk" where
  "getRiskAssessment amount =
     (if js_lt (Fin 50000000) amount then
        \<lparr>rk_level = ''Very High'', rk_color = ''text-red-600 bg-red-100/80 border-red-400'',
         rk_description = ''High-value investments require careful planning''\<rparr>
      else if js_lt (Fin 20000000) amount then
        \<lparr>rk_level = ''High'', rk_color = ''text-orange-600 bg-orange-100/80 border-orange-400'',
         rk_description = ''Consider diversification strategies''\<rparr>
      else if js_lt (Fin 5000000) amount then
        \<lparr>rk_level = ''Medium'', rk_color = ''text-yellow-600 bg-yellow-100/80 border-yellow-400'',
         rk_description = ''Moderate risk with good potential returns''\<rparr>
      else if js_lt (Fin 1000000) amount then
        \<lparr>rk_level = ''Low'', rk_color = ''text-green-600 bg-green-100/80 border-green-400'',
         rk_description = ''Conservative investment with steady returns''\<rparr>
      else
        \<lparr>rk_level = ''Very Low'', rk_color = ''text-blue-600 bg-blue-100/80 border-blue-400'',
         rk_description = ''Safe investment for beginners''\<rparr>)"

record projection =
  pr_year :: nat
  pr_investment :: jsnum
  pr_return :: jsnum
  pr_total :: jsnum

definition calculateProjectedReturns :: "jsnum \<Rightarrow> nat \<Rightarrow> projection list" where
  "calculateProjectedReturns amount years =
     (let annualReturn = js_mul amount (Fin (18 / 100))
      in map (\<lambda>i. \<lparr>pr_year = i + 1, pr_investment = amount,
                    pr_return = js_mul annualReturn (Fin (of_nat (i + 1))),
                    pr_total = js_add amount (js_mul annualReturn (Fin (of_nat (i + 1))))\<rparr>)
           [0..<years])"

record analysis_figures =
  af_annual :: jsnum
  af_monthly :: jsnum
  af_fiveYear :: jsnum
  af_total :: jsnum

definition investment_analysis :: "jsnum \<Rightarrow> analysis_figures" where
  "investment_analysis amount =
     (let annualROI = js_mul amount (Fin (18 / 100));
          monthlyROI = js_div annualROI (Fin 12);
          fiveYearROI = js_mul annualROI (Fin 5)
      in \<lparr>af_annual = annualROI, af_monthly = monthlyROI, af_fiveYear = fiveYearROI,
          af_total = js_add amount fiveYearROI\<rparr>)"

text \<open>The comparison tab (lines 520--538): the total after \<open>years\<close> for each option.\<close>

definition comparison_total :: "jsnum \<Rightarrow> jsnum \<Rightarrow> investment_option \<Rightarrow> jsnum" where
  "comparison_total amount years opt =
     js_add amount (js_mul (js_mul amount (js_div (Fin (io_roi opt)) (Fin 100))) years)"

definition comparison_values :: "string \<Rightarrow> string \<Rightarrow> jsnum list option" where
  "comparison_values a tf =
     (if a \<noteq> [] \<and> js_lt (Fin 0) (js_Number a)
      then Some (map (comparison_total (js_Number a) (js_Number tf)) investmentOptions)
      else None)"

record ai_state =
  investment :: string
  propertyBudget :: string
  analysis :: "analysis_figures option"
  propertySuggestion :: string
  propertyRecommendations :: "listing list"
  selectedTab :: string
  timeframe :: string
  showComparison :: bool
  notification :: "(string \<times> string) option"

definition ai_initial :: ai_state where
  "ai_initial =
     \<lparr>investment = [], propertyBudget = [], analysis = None, propertySuggestion = [],
      propertyRecommendations = [], selectedTab = ''analyzer'', timeframe = ''1'',
      showComparison = False, notification = None\<rparr>"

datatype ai_event =
    SetInvestment string
  | Analyze
  | SetPropertyBudget string
  | PropertySearch
  | SelectTab string
  | SetTimeframe string

text \<open>The effect on \<open>investment\<close> (lines 79--92): it sets the analysis for a valid amount and leaves it alone otherwise.\<close>

definition analysis_effect :: "ai_state \<Rightarrow> ai_state" where
  "analysis_effect st =
     (if investment st \<noteq> [] \<and> \<not> js_isNaN (js_Number (investment st)) \<and> js_lt (Fin 0) (js_Number (investment st))
      then st\<lparr>analysis := Some (investment_analysis (js_Number (investment st)))\<rparr>
      else st)"

definition handleAnalyze :: "ai_state \<Rightarrow> ai_state" where
  "handleAnalyze st =
     (if investment st = [] \<or> js_isNaN (js_Number (investment st)) \<or> js_le (js_Number (investment st)) (Fin 0)
      then st\<lparr>notification := Some (''error'', ''Please enter a valid investment amount.'')\<rparr>
      else st\<lparr>notification := Some (''success'', ''Analysis completed successfully!'')\<rparr>)"

definition handlePropertySearch :: "ai_state \<Rightarrow> ai_state" where
  "handlePropertySearch st =
     (if propertyBudget st = [] \<or> js_le (js_Number (propertyBudget st)) (Fin 0)
      then st\<lparr>notification := Some (''error'', ''Please enter a valid budget.'')\<rparr>
      else
        (let r = getPropertySuggestion (js_Number (propertyBudget st))
         in st\<lparr>propertySuggestion := sg_suggestion r, propertyRecommendations := sg_properties r,
               notification := Some (''success'', ''Property recommendations generated!'')\<rparr>))"

fun ai_step :: "ai_event \<Rightarrow> ai_state \<Rightarrow> ai_state" where
  "ai_step (SetInvestment v) st = analysis_effect (st\<lparr>investment := v\<rparr>)"
| "ai_step Analyze st = handleAnalyze st"
| "ai_step (SetPropertyBudget v) st = st\<lparr>propertyBudget := v\<rparr>"
| "ai_step PropertySearch st = handlePropertySearch st"
| "ai_step (SelectTab t) st = st\<lparr>selectedTab := t\<rparr>"
| "ai_step (SetTimeframe t) st = st\<lparr>timeframe := t\<rparr>"

text \<open>What the page renders from the state (lines 123 and 136).\<close>

definition riskAssessment :: "ai_state \<Rightarrow> risk" where
  "riskAssessment st = getRiskAssessment (js_or_zero (js_Number (investment st)))"

definition projectedReturns :: "ai_state \<Rightarrow> projection list" where
  "projectedReturns st = calculateProjectedReturns (js_or_zero (js_Number (investment st))) 5"

text \<open>
  The price a listing shows, in rupees (\<open>"8.5M PKR"\<close> is 8,500,000), and the order of
  the risk levels, for stating properties.
\<close>

definition price_pkr :: "string \<Rightarrow> rat" where
  "price_pkr s = fin_val (js_parseFloat s) * 1000000"

fun risk_rank :: "string \<Rightarrow> nat" where
  "risk_rank l = (if l = ''Very Low'' then 0 else if l = ''Low'' then 1 else if l = ''Medium'' then 2
                  else if l = ''High'' then 3 else 4)"

text \<open>
  C32. The property finder recommends properties the investor cannot afford: for every
  budget from 2,000,000 up to 7,200,000 PKR, all three recommended properties cost more
  than the budget (the second tier lists 7.2M, 8.5M and 9.8M).
\<close>

theorem suggestions_exceed_budget:
  assumes "2000000 \<le> b" and "b < 7200000"
  shows "list_all (\<lambda>l. b < price_pkr (l_price l)) (sg_properties (getPropertySuggestion (Fin b)))"
  using assms by (simp add: getPropertySuggestion_def mk_listing_def price_pkr_def js_eval)

theorem suggestions_exceed_budget_witness:
  "list_all (\<lambda>l. 2000000 < price_pkr (l_price l)) (sg_properties (getPropertySuggestion (Fin 2000000)))"
  using suggestions_exceed_budget [of 2000000] by simp

lemma risk_rank_levels:
  "risk_rank (rk_level (getRiskAssessment (Fin a))) =
     (if 50000000 < a then 4 else if 20000000 < a then 3 else if 5000000 < a then 2
      else if 1000000 < a then 1 else 0)"
  by (simp add: getRiskAssessment_def)

text \<open>
  The risk level shown for an investment amount never decreases when the amount
  grows.
\<close>

theorem risk_level_monotone:
  assumes "a \<le> b"
  shows "risk_rank (rk_level (getRiskAssessment (Fin a))) \<le> risk_rank (rk_level (getRiskAssessment (Fin b)))"
  using assms unfolding risk_rank_levels by auto

theorem risk_level_monotone_witness:
  "risk_rank (rk_level (getRiskAssessment (Fin 1000000))) \<le> risk_rank (rk_level (getRiskAssessment (Fin 50000001)))"
  by (rule risk_level_monotone) simp

text \<open>
  The projection table has one row per year, and row \<open>i\<close> (year \<open>i + 1\<close>) shows
  a return of 18 percent of the amount per year so far and the amount plus that return.
\<close>

theorem projected_returns_linear:
  assumes "i < n"
  shows "length (calculateProjectedReturns (Fin a) n) = n \<and>
         calculateProjectedReturns (Fin a) n ! i =
           \<lparr>pr_year = i + 1, pr_investment = Fin a, pr_return = Fin (a * 18 / 100 * of_nat (i + 1)),
            pr_total = Fin (a + a * 18 / 100 * of_nat (i + 1))\<rparr>"
  using assms by (simp add: calculateProjectedReturns_def Let_def js_add_plus)

theorem projected_returns_linear_witness:
  "calculateProjectedReturns (Fin 1000) 5 ! 4 =
     \<lparr>pr_year = 5, pr_investment = Fin 1000, pr_return = Fin 900, pr_total = Fin 1900\<rparr>"
  using projected_returns_linear [of 4 5 1000] by simp


lemma notification_step: "notification st \<noteq> None \<Longrightarrow> notification (ai_step e st) \<noteq> None"
  by (cases e) (simp_all add: analysis_effect_def handleAnalyze_def handlePropertySearch_def Let_def)

text \<open>
  Once a notification is shown, no event of the page removes it: the component
  never sets it back to \<open>null\<close>.
\<close>

theorem notification_never_cleared:
  "notification st \<noteq> None \<Longrightarrow> notification (foldl (\<lambda>s e. ai_step e s) st es) \<noteq> None"
  by (induction es arbitrary: st) (simp, metis foldl_Cons notification_step)

theorem notification_never_cleared_witness:
  "notification (foldl (\<lambda>s e. ai_step e s) (ai_step Analyze ai_initial)
     [SetInvestment ''5000'', SelectTab ''property'', SetPropertyBudget ''3000000'']) \<noteq> None"
  by (rule notification_never_cleared) (simp add: ai_initial_def handleAnalyze_def)


end
