(* ===== verification/TestimonialSlider.thy ===== *)
theory TestimonialSlider
  imports MemStorage
begin

text \<open>
  The testimonial carousel \<open>src/client/src/components/common/testimonial-slider.tsx\<close>:
  three cards per page, a page counter advanced every five seconds by an interval timer
  (installed only when there are testimonials), navigation dots when there is more than
  one page. The cards of a page are the page's slice of the list, topped up from the
  start of the list by a \<open>while\<close> loop until there are three; that loop is
  \<open>fill_visible\<close>, a \<open>partial_function\<close> in the option monad whose \<open>None\<close> is
  non-termination: on an empty list it never ends, which the component's early return
  for no testimonials prevents.
\<close>

text \<open>\<open>Math.ceil(testimonials.length / 3)\<close>, both \<open>maxPages\<close> and \<open>totalPages\<close>.\<close>

definition totalPages :: "'a list \<Rightarrow> nat" where
  "totalPages ts = nat \<lceil>of_nat (length ts) / (3::rat)\<rceil>"

text \<open>\<open>xs.slice(s, e)\<close> for \<open>0 \<le> s\<close>, \<open>0 \<le> e\<close>.\<close>

definition js_slice :: "'a list \<Rightarrow> nat \<Rightarrow> nat \<Rightarrow> 'a list" where
  "js_slice xs s e = take (e - s) (drop s xs)"

partial_function (option) fill_visible :: "'a list \<Rightarrow> 'a list \<Rightarrow> 'a list option" where
  "fill_visible ts vis =
     (if length vis < 3 then fill_visible ts (vis @ js_slice ts 0 (3 - length vis)) else Some vis)"

declare fill_visible.simps [code]

definition visibleTestimonials :: "nat \<Rightarrow> 'a list \<Rightarrow> 'a list option" where
  "visibleTestimonials currentPage ts =
     (let startIndex = currentPage * 3;
          endIndex = min (startIndex + 3) (length ts)
      in fill_visible ts (js_slice ts startIndex endIndex))"

text \<open>
  One card: avatar (the default photo when absent or empty), name, the verified label,
  the content, and \<open>renderStars\<close>, five stars lit below the rating.
\<close>

definition default_avatar :: string where
  "default_avatar = ''https://images.unsplash.com/photo-1507003211169-0a1dd7228f2d?ixlib=rb-4.0.3&auto=format&fit=crop&w=100&h=100''"

definition renderStars :: "int \<Rightarrow> bool list" where
  "renderStars rating = map (\<lambda>i. int i < rating) [0..<5]"

record card =
  card_avatar :: string
  card_name :: string
  card_label :: string
  card_content :: string
  card_stars :: "bool list"

definition testimonial_card :: "testimonial \<Rightarrow> card" where
  "testimonial_card t =
     \<lparr>card_avatar = (case tm_avatar t of Some a \<Rightarrow> if a = [] then default_avatar else a
                                      | None \<Rightarrow> default_avatar),
      card_name = tm_name t,
      card_label = (if tm_verified t = Some True then ''Verified Investor'' else ''Investor''),
      card_content = tm_content t,
      card_stars = renderStars (tm_rating t)\<rparr>"

datatype slider_view = NoTestimonials | Cards "card list" "nat option"

definition slider_view :: "nat \<Rightarrow> testimonial list \<Rightarrow> slider_view option" where
  "slider_view currentPage ts =
     (if length ts = 0 then Some NoTestimonials
      else map_option
        (\<lambda>v. Cards (map testimonial_card (take 3 v))
               (if 1 < totalPages ts then Some (totalPages ts) else None))
        (visibleTestimonials currentPage ts))"

record slider_state =
  sl_testimonials :: "testimonial list"
  currentPage :: nat

datatype slider_event = Tick | ClickDot nat | NewProps "testimonial list"

fun slider_enabled :: "slider_state \<Rightarrow> slider_event \<Rightarrow> bool" where
  "slider_enabled s Tick = (length (sl_testimonials s) \<noteq> 0)"
| "slider_enabled s (ClickDot i) =
     (length (sl_testimonials s) \<noteq> 0 \<and> 1 < totalPages (sl_testimonials s) \<and> i < totalPages (sl_testimonials s))"
| "slider_enabled s (NewProps ts) = True"

fun slider_step :: "slider_event \<Rightarrow> slider_state \<Rightarrow> slider_state" where
  "slider_step Tick s = s\<lparr>currentPage := (currentPage s + 1) mod totalPages (sl_testimonials s)\<rparr>"
| "slider_step (ClickDot i) s = s\<lparr>currentPage := i\<rparr>"
| "slider_step (NewProps ts) s = s\<lparr>sl_testimonials := ts\<rparr>"

definition slider_initial :: "testimonial list \<Rightarrow> slider_state" where
  "slider_initial ts = \<lparr>sl_testimonials = ts, currentPage = 0\<rparr>"

lemma totalPages_div: "totalPages ts = (length ts + 2) div 3"
proof -
  have "\<lceil>of_int (int (length ts)) / (of_int 3::rat)\<rceil> = - (- int (length ts) div 3)"
    by (rule ceiling_divide_eq_div)
  moreover have "- (- int (length ts) div 3) = (int (length ts) + 2) div 3" by presburger
  ultimately have "\<lceil>of_nat (length ts) / (3::rat)\<rceil> = (int (length ts) + 2) div 3" by simp
  then show ?thesis by (simp add: totalPages_def)
qed

lemma fill_visible_Some:
  assumes "ts \<noteq> []"
  shows "\<exists>v. fill_visible ts vis = Some v \<and> prefix vis v \<and> 3 \<le> length v"
proof (induction "3 - length vis" arbitrary: vis rule: less_induct)
  case less
  show ?case
  proof (cases "length vis < 3")
    case True
    let ?w = "vis @ js_slice ts 0 (3 - length vis)"
    have "length vis < length ?w" using True assms by (cases ts) (simp_all add: js_slice_def)
    then have "3 - length ?w < 3 - length vis" using True diff_less_mono2 by blast
    from less [OF this] obtain v where "fill_visible ts ?w = Some v" "prefix ?w v" "3 \<le> length v"
      by blast
    then show ?thesis using True by (subst fill_visible.simps) (auto simp: prefix_def)
  next
    case False
    then show ?thesis by (subst fill_visible.simps) simp
  qed
qed

lemma fill_visible_Some_empty:
  assumes "fill_visible ts vis = Some v"
  shows "ts \<noteq> [] \<or> 3 \<le> length vis"
  by (rule fill_visible.raw_induct [where P = "\<lambda>ts vis v. ts \<noteq> [] \<or> 3 \<le> length vis", OF _ assms])
    (fastforce simp: js_slice_def split: if_splits)

lemma fill_visible_empty: "length vis < 3 \<Longrightarrow> fill_visible [] vis = None"
  by (cases "fill_visible [] vis") (auto dest: fill_visible_Some_empty)

lemma ticks_page:
  "(slider_step Tick ^^ Suc k) s =
     s\<lparr>currentPage := (currentPage s + Suc k) mod totalPages (sl_testimonials s)\<rparr>"
  by (induction k) (simp_all add: mod_Suc_eq)

lemma prefix_take_set:
  assumes "prefix xs v" "length xs \<le> n"
  shows "set xs \<subseteq> set (take n v)"
proof -
  obtain zs where "v = xs @ zs" using assms(1) by (auto simp: prefix_def)
  then show ?thesis using assms(2) by auto
qed

lemma page_shows:
  assumes "j < length ts" "visibleTestimonials (j div 3) ts = Some v"
  shows "ts ! j \<in> set (take 3 v)"
proof -
  let ?s = "j div 3 * 3" let ?e = "min (?s + 3) (length ts)"
  have f: "fill_visible ts (js_slice ts ?s ?e) = Some v"
    using assms(2) by (simp add: visibleTestimonials_def Let_def)
  have ne: "ts \<noteq> []" using assms(1) by auto
  obtain v' where "fill_visible ts (js_slice ts ?s ?e) = Some v'" "prefix (js_slice ts ?s ?e) v'"
    using fill_visible_Some [OF ne] by blast
  with f have p: "prefix (js_slice ts ?s ?e) v" by simp
  have l: "length (js_slice ts ?s ?e) \<le> 3" by (simp add: js_slice_def)
  have "?s \<le> j" "j < ?e" using assms(1) by auto
  then have "ts ! j \<in> set (js_slice ts ?s ?e)"
    by (auto simp: js_slice_def in_set_conv_nth intro!: exI [of _ "j - ?s"])
  then show ?thesis using prefix_take_set [OF p l] by blast
qed

lemma mod_reach:
  assumes "q < m"
  shows "(p + Suc ((q + m - Suc p mod m) mod m)) mod m = q"
proof -
  have m: "0 < m" using assms by simp
  let ?r = "Suc p mod m"
  have r: "?r < m" using m by simp
  have "(p + Suc ((q + m - ?r) mod m)) mod m = (Suc p + (q + m - ?r) mod m) mod m"
    by simp
  also have "\<dots> = (Suc p + (q + m - ?r)) mod m"
    by (rule mod_add_right_eq)
  also have "\<dots> = (?r + (q + m - ?r)) mod m"
    by (rule mod_add_left_eq [symmetric])
  also have "\<dots> = (q + m) mod m" using r by simp
  finally show ?thesis using assms by simp
qed

text \<open>
  C8. Rendering the carousel terminates for every list of testimonials. The \<open>while\<close>
  loop that tops a page up to three cards ends whenever the list is non-empty
  (\<open>fill_visible_Some\<close>: each round adds at least one card). On the empty list the loop
  alone never ends (\<open>fill_visible_empty\<close>); the early return for no testimonials is
  what keeps the component from hanging there.
\<close>

theorem slider_render_terminates: "\<exists>v. slider_view p ts = Some v"
proof (cases "ts = []")
  case False
  then obtain v where "visibleTestimonials p ts = Some v"
    using fill_visible_Some [OF False] by (auto simp: visibleTestimonials_def Let_def)
  then show ?thesis by (simp add: slider_view_def)
qed (simp add: slider_view_def)

text \<open>
  C14. Every testimonial is eventually shown: whatever the current page (even one left
  out of range when the list shrank), within \<open>totalPages\<close> ticks of the five-second
  timer the carousel shows a page whose three cards include it.
\<close>

theorem every_testimonial_shown:
  assumes "sl_testimonials s \<noteq> []" and "j < length (sl_testimonials s)"
  shows "\<exists>k. 0 < k \<and> k \<le> totalPages (sl_testimonials s) \<and>
    (\<exists>v. visibleTestimonials (currentPage ((slider_step Tick ^^ k) s)) (sl_testimonials s) = Some v \<and>
         sl_testimonials s ! j \<in> set (take 3 v))"
proof -
  let ?ts = "sl_testimonials s" let ?m = "totalPages ?ts" let ?q = "j div 3"
  have q: "?q < ?m" using assms(2) by (simp add: totalPages_div)
  let ?k = "(?q + ?m - Suc (currentPage s) mod ?m) mod ?m"
  have k: "?k < ?m" using q by simp
  have pg: "currentPage ((slider_step Tick ^^ Suc ?k) s) = ?q"
    using mod_reach [OF q, of "currentPage s"] by (simp only: ticks_page) simp
  obtain v where v: "visibleTestimonials ?q ?ts = Some v"
    using fill_visible_Some [OF assms(1)] by (auto simp: visibleTestimonials_def Let_def)
  show ?thesis
    using k pg v page_shows [OF assms(2) v] by (intro exI [of _ "Suc ?k"]) auto
qed

theorem every_testimonial_shown_witness:
  "\<exists>k. 0 < k \<and> k \<le> totalPages (sl_testimonials (slider_initial (getAllTestimonials (mem_new 0)))) \<and>
    (\<exists>v. visibleTestimonials (currentPage ((slider_step Tick ^^ k) (slider_initial (getAllTestimonials (mem_new 0)))))
           (sl_testimonials (slider_initial (getAllTestimonials (mem_new 0)))) = Some v \<and>
         sl_testimonials (slider_initial (getAllTestimonials (mem_new 0))) ! 2 \<in> set (take 3 v))"
proof -
  have l: "length (getAllTestimonials (mem_new 0)) = 3"
    by (simp add: getAllTestimonials_def)
  then have "sl_testimonials (slider_initial (getAllTestimonials (mem_new 0))) \<noteq> []"
    and "2 < length (sl_testimonials (slider_initial (getAllTestimonials (mem_new 0))))"
    by (auto simp: slider_initial_def)
  then show ?thesis by (rule every_testimonial_shown)
qed

end
