(* ===== verification/FaqPage.thy ===== *)
theory FaqPage
  imports JsString
begin

text \<open>
  The Education Center page \<open>src/client/src/pages/faq.tsx\<close> with the FAQ entries of
  \<open>src/client/src/lib/mock-data.ts\<close>. The page keeps four pieces of state (the open
  questions, the search term, the selected category, the active tab); \<open>faq_step\<close>
  is its event handlers, \<open>faq_enabled\<close> the events the rendered page offers (a
  button exists only where the markup renders it), \<open>faq_view\<close> what the page shows
  (for each question its text, its category badge and, when open, its answer) and
  \<open>faq_reach\<close> the states a visitor can reach. Icons, colours and animation are
  not modelled.
\<close>

record faq_entry =
  fe_id :: int
  fe_question :: string
  fe_answer :: string

record faq_item = faq_entry +
  fi_category :: "string option"

record guide =
  g_id :: int
  g_title :: string
  g_description :: string
  g_duration :: string
  g_level :: string

record video =
  v_id :: int
  v_title :: string
  v_duration :: string
  v_thumbnail :: string
  v_views :: string

definition faqData :: "faq_entry list" where
  "faqData =
   [\<lparr>fe_id = 1, fe_question = ''Is SAIR REIT truly Sharia-compliant?'',
      fe_answer =
        ''Yes, SAIR REIT is certified by leading Islamic finance scholars and operates under strict Sharia principles. We ensure all investments are asset-backed, interest-free, and transparent in profit-sharing.''\<rparr>,
    \<lparr>fe_id = 2, fe_question = ''What is the minimum investment amount?'',
      fe_answer =
        ''The minimum investment varies by project, starting from $1,000 for most opportunities. This low barrier makes premium real estate investment accessible to a broader range of investors.''\<rparr>,
    \<lparr>fe_id = 3, fe_question = ''How often are returns distributed?'',
      fe_answer =
        ''Returns are distributed monthly through automated smart contracts. You'll receive your share of rental income and any appreciation gains directly to your wallet or bank account.''\<rparr>,
    \<lparr>fe_id = 4, fe_question = ''Can I withdraw my investment early?'',
      fe_answer =
        ''While real estate investments are typically long-term, we offer a secondary market where you can sell your shares to other investors. Liquidity options vary by project term and market conditions.''\<rparr>]"

definition enhancedFaqData :: "faq_item list" where
  "enhancedFaqData =
   map (\<lambda>item. \<lparr>fe_id = fe_id item, fe_question = fe_question item,
                     fe_answer = fe_answer item, fi_category = None\<rparr>) faqData @
   [\<lparr>fe_id = 5, fe_question = ''How do I start investing with SAIR REIT?'',
      fe_answer =
        ''Getting started is simple! Create an account, complete KYC verification, browse available projects, and invest with as little as $1,000. Our platform guides you through every step with educational resources and expert support.'',
      fi_category = Some ''investment''\<rparr>,
    \<lparr>fe_id = 6, fe_question = ''What types of properties does SAIR REIT invest in?'',
      fe_answer =
        ''We invest in premium real estate including residential apartments, commercial properties, retail spaces, and mixed-use developments across Dubai, Singapore, London, and other global markets.'',
      fi_category = Some ''investment''\<rparr>,
    \<lparr>fe_id = 7, fe_question = ''How secure is my investment?'',
      fe_answer =
        ''Your investments are protected by blockchain technology, smart contracts, and comprehensive insurance. We maintain strict security protocols and regular audits to ensure the safety of your funds.'',
      fi_category = Some ''security''\<rparr>,
    \<lparr>fe_id = 8, fe_question = ''What returns can I expect?'',
      fe_answer =
        ''Historical returns average 18.5% annually, combining rental income and property appreciation. Returns vary by project and market conditions, with detailed projections provided for each investment opportunity.'',
      fi_category = Some ''returns''\<rparr>,
    \<lparr>fe_id = 9, fe_question = ''How does the AI technology work?'',
      fe_answer =
        ''Our AI platform analyzes market trends, property performance, and economic indicators to identify the best investment opportunities. It also provides real-time portfolio insights and automated risk management.'',
      fi_category = Some ''technology''\<rparr>,
    \<lparr>fe_id = 10, fe_question = ''What regulatory compliance do you maintain?'',
      fe_answer =
        ''SAIR REIT operates under strict regulatory oversight, maintaining compliance with international financial regulations, Sharia law requirements, and local real estate laws in all markets we operate.'',
      fi_category = Some ''compliance''\<rparr>]"

definition guides :: "guide list" where
  "guides =
   [\<lparr>g_id = 1, g_title = ''Getting Started with REIT Investing'',
      g_description = ''Learn the basics of real estate investment trusts and how to build your first portfolio.'',
      g_duration = ''15 min read'', g_level = ''Beginner''\<rparr>,
    \<lparr>g_id = 2, g_title = ''Understanding Sharia-Compliant Finance'',
      g_description = ''Deep dive into Islamic finance principles and how they apply to real estate investment.'',
      g_duration = ''20 min read'', g_level = ''Intermediate''\<rparr>,
    \<lparr>g_id = 3, g_title = ''Risk Management Strategies'',
      g_description = ''Master the art of managing investment risks in real estate markets.'',
      g_duration = ''25 min read'', g_level = ''Advanced''\<rparr>,
    \<lparr>g_id = 4, g_title = ''AI in Real Estate Investment'',
      g_description = ''Discover how artificial intelligence is revolutionizing property investment decisions.'',
      g_duration = ''18 min read'', g_level = ''Intermediate''\<rparr>]"

definition videos :: "video list" where
  "videos =
   [\<lparr>v_id = 1, v_title = ''Platform Walkthrough'', v_duration = ''8:32'',
      v_thumbnail = ''https://images.unsplash.com/photo-1551288049-bebda4e38f71?ixlib=rb-4.0.3&auto=format&fit=crop&w=400&h=225'',
      v_views = ''2.4K''\<rparr>,
    \<lparr>v_id = 2, v_title = ''Investment Analysis Tools'', v_duration = ''12:15'',
      v_thumbnail = ''https://images.unsplash.com/photo-1560472354-b33ff0c44a43?ixlib=rb-4.0.3&auto=format&fit=crop&w=400&h=225'',
      v_views = ''1.8K''\<rparr>,
    \<lparr>v_id = 3, v_title = ''Portfolio Management'', v_duration = ''10:45'',
      v_thumbnail = ''https://images.unsplash.com/photo-1578662996442-48f60103fc96?ixlib=rb-4.0.3&auto=format&fit=crop&w=400&h=225'',
      v_views = ''3.1K''\<rparr>]"

definition tools :: "(string \<times> string) list" where
  "tools =
   [(''ROI Calculator'', ''Calculate potential returns on your investments''),
    (''Portfolio Analyzer'', ''Analyze your investment portfolio performance''),
    (''Risk Assessment'', ''Evaluate investment risks and opportunities''),
    (''Market Insights'', ''Get real-time market data and trends''),
    (''Investment Planner'', ''Plan your investment strategy''),
    (''Tax Calculator'', ''Calculate tax implications of your investments'')]"

definition categories :: "(string \<times> string) list" where
  "categories =
     [(''all'', ''All Questions''), (''investment'', ''Investment''), (''security'', ''Security''),
      (''returns'', ''Returns''), (''technology'', ''Technology''), (''compliance'', ''Compliance'')]"

definition faq_tabs :: "(string \<times> string) list" where
  "faq_tabs = [(''faq'', ''FAQ''), (''guides'', ''Guides''), (''videos'', ''Videos''), (''tools'', ''Tools'')]"

record faq_state =
  openItems :: "int list"
  searchTerm :: string
  selectedCategory :: string
  activeTab :: string

definition faq_initial :: faq_state where
  "faq_initial = \<lparr>openItems = [], searchTerm = [], selectedCategory = ''all'', activeTab = ''faq''\<rparr>"

definition toggleItem :: "int \<Rightarrow> int list \<Rightarrow> int list" where
  "toggleItem i prev = (if i \<in> set prev then filter (\<lambda>item. item \<noteq> i) prev else prev @ [i])"

definition faq_matches :: "string \<Rightarrow> string \<Rightarrow> faq_item \<Rightarrow> bool" where
  "faq_matches term sel item \<longleftrightarrow>
     (js_includes (js_toLowerCase (fe_question item)) (js_toLowerCase term) \<or>
      js_includes (js_toLowerCase (fe_answer item)) (js_toLowerCase term)) \<and>
     (sel = ''all'' \<or> fi_category item = Some sel)"

definition filteredFaqData :: "faq_state \<Rightarrow> faq_item list" where
  "filteredFaqData s = filter (faq_matches (searchTerm s) (selectedCategory s)) enhancedFaqData"

datatype faq_event = SelectTab string | SetSearchTerm string | SelectCategory string
  | ClearFilters | ToggleItem int

fun faq_step :: "faq_event \<Rightarrow> faq_state \<Rightarrow> faq_state" where
  "faq_step (SelectTab t) s = s\<lparr>activeTab := t\<rparr>"
| "faq_step (SetSearchTerm v) s = s\<lparr>searchTerm := v\<rparr>"
| "faq_step (SelectCategory c) s = s\<lparr>selectedCategory := c\<rparr>"
| "faq_step ClearFilters s = s\<lparr>searchTerm := [], selectedCategory := ''all''\<rparr>"
| "faq_step (ToggleItem i) s = s\<lparr>openItems := toggleItem i (openItems s)\<rparr>"

text \<open>
  The tab buttons are always rendered; the search box and the category buttons on the
  FAQ tab; Clear Filters only in the no-results panel; a question's toggle only for a
  question in the filtered list.
\<close>

fun faq_enabled :: "faq_state \<Rightarrow> faq_event \<Rightarrow> bool" where
  "faq_enabled s (SelectTab t) = (t \<in> set (map fst faq_tabs))"
| "faq_enabled s (SetSearchTerm v) = (activeTab s = ''faq'')"
| "faq_enabled s (SelectCategory c) = (activeTab s = ''faq'' \<and> c \<in> set (map fst categories))"
| "faq_enabled s ClearFilters = (activeTab s = ''faq'' \<and> filteredFaqData s = [])"
| "faq_enabled s (ToggleItem i) = (activeTab s = ''faq'' \<and> i \<in> set (map fe_id (filteredFaqData s)))"

fun faq_run :: "faq_state \<Rightarrow> faq_event list \<Rightarrow> faq_state option" where
  "faq_run s [] = Some s"
| "faq_run s (e # es) = (if faq_enabled s e then faq_run (faq_step e s) es else None)"

inductive faq_reach :: "faq_state \<Rightarrow> bool" where
  init: "faq_reach faq_initial"
| step: "faq_reach s \<Longrightarrow> faq_enabled s e \<Longrightarrow> faq_reach (faq_step e s)"

datatype faq_panel = NoQuestions | QuestionList "(string \<times> string option \<times> string option) list"
  | GuidesPanel "guide list" | VideosPanel "video list" | ToolsPanel "(string \<times> string) list"

text \<open>\<open>{item.category && <Badge/>}\<close>: no badge for an absent or empty category.\<close>

definition question_view :: "int list \<Rightarrow> faq_item \<Rightarrow> string \<times> string option \<times> string option" where
  "question_view opened item =
     (fe_question item,
      (case fi_category item of Some c \<Rightarrow> if c = [] then None else Some c | None \<Rightarrow> None),
      (if fe_id item \<in> set opened then Some (fe_answer item) else None))"

definition faq_view :: "faq_state \<Rightarrow> faq_panel list" where
  "faq_view s =
     (if activeTab s = ''faq'' then
        [if filteredFaqData s = [] then NoQuestions
         else QuestionList (map (question_view (openItems s)) (filteredFaqData s))] else []) @
     (if activeTab s = ''guides'' then [GuidesPanel guides] else []) @
     (if activeTab s = ''videos'' then [VideosPanel videos] else []) @
     (if activeTab s = ''tools'' then [ToolsPanel tools] else [])"

text \<open>
  The page's state stays within the values its code gives it: the active tab is one of
  the four tab ids, the category one of the six category ids, and the open questions are
  distinct ids of existing questions.
\<close>

definition faq_wf :: "faq_state \<Rightarrow> bool" where
  "faq_wf s \<longleftrightarrow>
     activeTab s \<in> set (map fst faq_tabs) \<and> selectedCategory s \<in> set (map fst categories) \<and>
     distinct (openItems s) \<and> set (openItems s) \<subseteq> set (map fe_id enhancedFaqData)"

lemma distinct_toggleItem: "distinct xs \<Longrightarrow> distinct (toggleItem i xs)"
  by (simp add: toggleItem_def)

lemma set_toggleItem: "set (toggleItem i xs) \<subseteq> insert i (set xs)"
  by (auto simp: toggleItem_def filter_id_conv)

lemma toggleItem_twice:
  "distinct xs \<Longrightarrow> set (toggleItem i (toggleItem i xs)) = set xs"
  "i \<notin> set xs \<Longrightarrow> toggleItem i (toggleItem i xs) = xs"
  by (auto simp: toggleItem_def filter_id_conv)

lemma set_filteredFaqData: "set (filteredFaqData s) \<subseteq> set enhancedFaqData"
  by (auto simp: filteredFaqData_def)

lemma faq_wf_initial: "faq_wf faq_initial"
  by (simp add: faq_wf_def faq_initial_def faq_tabs_def categories_def)

lemma faq_wf_step: "faq_wf s \<Longrightarrow> faq_enabled s e \<Longrightarrow> faq_wf (faq_step e s)"
proof (cases e)
  case (ToggleItem i)
  assume w: "faq_wf s" and en: "faq_enabled s e"
  then have "i \<in> set (map fe_id enhancedFaqData)"
    using ToggleItem set_filteredFaqData by auto
  then show ?thesis
    using w ToggleItem set_toggleItem [of i "openItems s"]
    by (auto simp: faq_wf_def distinct_toggleItem)
qed (auto simp: faq_wf_def categories_def)

lemma faq_matches_all: "faq_matches [] ''all'' item"
  by (simp add: faq_matches_def)

text \<open>
  C17. Every state a visitor can reach satisfies the state's type: \<open>activeTab\<close> is a
  tab id, \<open>selectedCategory\<close> a category id, and \<open>openItems\<close> lists distinct ids of
  questions of the page (a question is toggled only from its own button, and
  \<open>toggleItem\<close> removes an id before it could be added twice).
\<close>

theorem faq_reach_wf:
  "faq_reach s \<Longrightarrow>
     activeTab s \<in> set (map fst faq_tabs) \<and> selectedCategory s \<in> set (map fst categories) \<and>
     distinct (openItems s) \<and> set (openItems s) \<subseteq> set (map fe_id enhancedFaqData)"
  by (induction rule: faq_reach.induct) (use faq_wf_initial faq_wf_step in \<open>simp_all add: faq_wf_def\<close>)

theorem faq_reach_wf_witness:
  "distinct (openItems (faq_step (ToggleItem 7) (faq_step (SelectCategory ''security'') faq_initial)))"
proof -
  have e1: "faq_enabled faq_initial (SelectCategory ''security'')"
    by (simp add: faq_initial_def categories_def)
  have e2: "faq_enabled (faq_step (SelectCategory ''security'') faq_initial) (ToggleItem 7)"
    by (simp add: faq_initial_def filteredFaqData_def enhancedFaqData_def faqData_def faq_matches_def)
  have "faq_reach (faq_step (ToggleItem 7) (faq_step (SelectCategory ''security'') faq_initial))"
    by (rule faq_reach.step [OF faq_reach.step [OF faq_reach.init e1] e2])
  from faq_reach_wf [OF this] show ?thesis by simp
qed

text \<open>
  C21. From every state of the page the full list of questions is reachable: the FAQ tab
  button, clearing the search box and the "All Questions" button are always offered in
  that order, and afterwards all ten questions are listed.
\<close>

theorem faq_all_questions_reachable:
  "\<exists>s'. faq_run s [SelectTab ''faq'', SetSearchTerm [], SelectCategory ''all''] = Some s' \<and>
     activeTab s' = ''faq'' \<and> filteredFaqData s' = enhancedFaqData"
  by (simp add: faq_tabs_def categories_def filteredFaqData_def faq_matches_all)

text \<open>
  The four questions of \<open>mock-data.ts\<close> have no category (the spread sets it to
  \<open>undefined\<close>), so they are listed only under "All Questions".
\<close>

lemma untagged_hidden_in_categories:
  "selectedCategory s \<noteq> ''all'' \<Longrightarrow> item \<in> set (filteredFaqData s) \<Longrightarrow> fi_category item \<noteq> None"
  by (auto simp: filteredFaqData_def faq_matches_def)

end
