(* ===== verification/DashboardPage.thy ===== *)
theory DashboardPage
  imports Routes
begin

text \<open>
  The investor dashboard page \<open>src/client/src/pages/dashboard.tsx\<close> and its statistics
  cards \<open>src/client/src/components/common/stats-grid.tsx\<close>, fed by
  \<open>GET /api/dashboard/stats\<close> and \<open>GET /api/projects\<close>. The response travels as
  JSON: \<open>JSON.stringify\<close> writes \<open>NaN\<close> and the infinities as \<open>null\<close>, so the client
  receives \<open>client_stats\<close> with nullable numbers (\<open>json_number\<close>). A query's outcome is
  \<open>'a query\<close>: still loading, failed (react-query leaves \<open>data\<close> undefined), or its
  data. Numbers are shown with \<open>toLocaleString()\<close> in the en-US format (digit groups
  of three separated by commas); only integral values reach it here.
\<close>

definition json_number :: "jsnum \<Rightarrow> jsnum option" where
  "json_number x = (case x of Fin q \<Rightarrow> Some (Fin q) | _ \<Rightarrow> None)"

record client_stats =
  cs_totalInvested :: "jsnum option"
  cs_monthlyReturns :: "jsnum option"
  cs_activeProjects :: "jsnum option"
  cs_totalProjects :: "jsnum option"
  cs_avgROI :: "string option"

definition stats_json :: "dashboard_stats \<Rightarrow> client_stats" where
  "stats_json st =
     \<lparr>cs_totalInvested = json_number (Fin (of_int (totalInvested st))),
      cs_monthlyReturns = json_number (monthlyReturns st),
      cs_activeProjects = json_number (Fin (of_nat (activeProjects st))),
      cs_totalProjects = json_number (Fin (of_nat (totalProjects st))),
      cs_avgROI = avgROI st\<rparr>"

datatype 'a query = QLoading | QError | QSuccess 'a

text \<open>The client's query result for a response: the parsed body of a success.\<close>

definition stats_query :: "http_resp \<Rightarrow> client_stats query" where
  "stats_query r =
     (case r of (c, BStats st) \<Rightarrow> if c = 200 then QSuccess (stats_json st) else QError | _ \<Rightarrow> QError)"

text \<open>\<open>x || 0\<close> on a nullable number.\<close>

definition or_zero_nullable :: "jsnum option \<Rightarrow> jsnum" where
  "or_zero_nullable v = (case v of None \<Rightarrow> Fin 0 | Some x \<Rightarrow> js_or_zero x)"

fun locale_nat :: "nat \<Rightarrow> string" where
  "locale_nat n =
     (if n < 1000 then nat_digits n
      else locale_nat (n div 1000) @ '','' @
           (let d = nat_digits (n mod 1000) in replicate (3 - length d) CHR ''0'' @ d))"

declare locale_nat.simps [simp del]

definition js_toLocaleString :: "jsnum \<Rightarrow> string option" where
  "js_toLocaleString x =
     (case x of
        Fin q \<Rightarrow> if of_int \<lfloor>q\<rfloor> = q then
                   Some ((if q < 0 then ''-'' else []) @ locale_nat (nat \<bar>\<lfloor>q\<rfloor>\<bar>)) else None
      | _ \<Rightarrow> None)"

definition js_int_toString :: "jsnum \<Rightarrow> string option" where
  "js_int_toString x =
     (case x of
        Fin q \<Rightarrow> if of_int \<lfloor>q\<rfloor> = q then
                   Some ((if q < 0 then ''-'' else []) @ nat_digits (nat \<bar>\<lfloor>q\<rfloor>\<bar>)) else None
      | _ \<Rightarrow> None)"

record stat_item =
  si_title :: string
  si_value :: "string option"
  si_change :: string

definition statItems :: "client_stats \<Rightarrow> stat_item list" where
  "statItems st =
     [\<lparr>si_title = ''Total Invested'',
       si_value = map_option (\<lambda>s. ''$'' @ s) (js_toLocaleString (or_zero_nullable (cs_totalInvested st))),
       si_change = ''+12.5% this month''\<rparr>,
      \<lparr>si_title = ''Monthly Returns'',
       si_value = map_option (\<lambda>s. ''$'' @ s) (js_toLocaleString (or_zero_nullable (cs_monthlyReturns st))),
       si_change = ''+8.2% from last month''\<rparr>,
      \<lparr>si_title = ''Active Projects'',
       si_value = js_int_toString (or_zero_nullable (cs_activeProjects st)),
       si_change = ''2 new this week''\<rparr>]"

text \<open>\<open>s.split(c)\<close> on a one-character separator: empty pieces are kept.\<close>

fun split_acc :: "char \<Rightarrow> string \<Rightarrow> string \<Rightarrow> string list" where
  "split_acc c acc [] = [acc]"
| "split_acc c acc (x # xs) = (if x = c then acc # split_acc c [] xs else split_acc c (acc @ [x]) xs)"

definition js_split :: "char \<Rightarrow> string \<Rightarrow> string list" where
  "js_split c s = split_acc c [] s"

fun js_join :: "string \<Rightarrow> string list \<Rightarrow> string" where
  "js_join sep [] = []"
| "js_join sep [w] = w"
| "js_join sep (w # ws) = w @ sep @ js_join sep ws"

record chart_slice =
  ch_name :: string
  ch_value :: nat
  ch_color :: string

record perf_point =
  pf_month :: string
  pf_returns :: rat
  pf_investment :: int

record project_chart =
  pc_name :: string
  pc_funded :: int
  pc_target :: int
  pc_roi :: jsnum

definition portfolioData :: "chart_slice list" where
  "portfolioData =
     [\<lparr>ch_name = ''Dubai Marina'', ch_value = 35, ch_color = ''#22d3ee''\<rparr>,
      \<lparr>ch_name = ''Singapore Hub'', ch_value = 25, ch_color = ''#9333ea''\<rparr>,
      \<lparr>ch_name = ''London Tech'', ch_value = 20, ch_color = ''#10b981''\<rparr>,
      \<lparr>ch_name = ''Other Projects'', ch_value = 20, ch_color = ''#64748b''\<rparr>]"

definition performanceData :: "perf_point list" where
  "performanceData =
     [\<lparr>pf_month = ''Jan'', pf_returns = 82 / 10, pf_investment = 45000\<rparr>,
      \<lparr>pf_month = ''Feb'', pf_returns = 91 / 10, pf_investment = 52000\<rparr>,
      \<lparr>pf_month = ''Mar'', pf_returns = 105 / 10, pf_investment = 58000\<rparr>,
      \<lparr>pf_month = ''Apr'', pf_returns = 118 / 10, pf_investment = 64000\<rparr>,
      \<lparr>pf_month = ''May'', pf_returns = 123 / 10, pf_investment = 71000\<rparr>,
      \<lparr>pf_month = ''Jun'', pf_returns = 131 / 10, pf_investment = 78000\<rparr>]"

definition projectData :: "project list \<Rightarrow> project_chart list" where
  "projectData ps =
     map (\<lambda>p. \<lparr>pc_name = (if title p \<noteq> [] then js_join '' '' (take 2 (js_split CHR '' '' (title p)))
                         else ''Project''),
               pc_funded = (case currentAmount p of Some a \<Rightarrow> a | None \<Rightarrow> 0),
               pc_target = targetAmount p,
               pc_roi = (if roi p \<noteq> [] then js_parseFloat (roi p) else Fin 0)\<rparr>) ps"

datatype quick_action = NavigateTo string | OpenWindow string

definition quickActions :: "(string \<times> quick_action) list" where
  "quickActions =
     [(''View Portfolio'', NavigateTo ''/projects''), (''Invest Now'', NavigateTo ''/projects''),
      (''Schedule Call'', OpenWindow ''mailto:contact@sairreit.com''),
      (''Set Goals'', NavigateTo ''/investor-ai-tools'')]"

definition achievements :: "(string \<times> string) list" where
  "achievements =
     [(''Top Performer'', ''Consistent returns above market average''),
      (''Growth Champion'', ''Portfolio growth of 35% this year''),
      (''Goal Achiever'', ''Reached 3 out of 5 investment goals'')]"

record recent_tx =
  rt_id :: int
  rt_project :: string
  rt_date :: string
  rt_amount :: int
  rt_return :: string
  rt_status :: string

definition mockRecentTransactions :: "recent_tx list" where
  "mockRecentTransactions =
     [\<lparr>rt_id = 1, rt_project = ''Dubai Marina Tower'', rt_date = ''2024-01-15'', rt_amount = 5000,
       rt_return = ''+12.5%'', rt_status = ''ACTIVE''\<rparr>,
      \<lparr>rt_id = 2, rt_project = ''Singapore Business Hub'', rt_date = ''2024-01-10'', rt_amount = 7500,
       rt_return = ''+14.2%'', rt_status = ''FUNDING''\<rparr>,
      \<lparr>rt_id = 3, rt_project = ''London Tech District'', rt_date = ''2024-01-05'', rt_amount = 12000,
       rt_return = ''+11.8%'', rt_status = ''COMPLETE''\<rparr>]"

record dash_state =
  dash_activeTab :: string
  notificationCount :: int
  isNotificationsOpen :: bool

definition dash_initial :: dash_state where
  "dash_initial = \<lparr>dash_activeTab = ''overview'', notificationCount = 3, isNotificationsOpen = False\<rparr>"

datatype dash_event = ToggleNotifications | SelectDashTab string

fun dash_step :: "dash_event \<Rightarrow> dash_state \<Rightarrow> dash_state" where
  "dash_step ToggleNotifications s = s\<lparr>isNotificationsOpen := \<not> isNotificationsOpen s\<rparr>"
| "dash_step (SelectDashTab t) s = s\<lparr>dash_activeTab := t\<rparr>"

text \<open>The bell and the tab buttons exist only once the statistics have loaded.\<close>

fun dash_enabled :: "client_stats query \<Rightarrow> dash_event \<Rightarrow> bool" where
  "dash_enabled q ToggleNotifications = (\<exists>st. q = QSuccess st)"
| "dash_enabled q (SelectDashTab t) =
     ((\<exists>st. q = QSuccess st) \<and> t \<in> set [''overview'', ''analytics'', ''performance''])"

inductive dash_reach :: "client_stats query \<Rightarrow> dash_state \<Rightarrow> bool" where
  init: "dash_reach q dash_initial"
| step: "dash_reach q s \<Longrightarrow> dash_enabled q e \<Longrightarrow> dash_reach q (dash_step e s)"

datatype dash_panel = Charts "chart_slice list" "perf_point list" "project_chart list"
  | Metrics "string option" | AchievementsPanel "(string \<times> string) list" | RecentTransactions "recent_tx list"

datatype dash_screen = DashLoading
  | DashPage "int option" bool "stat_item list" "dash_panel list"

definition avg_roi_display :: "client_stats \<Rightarrow> string option" where
  "avg_roi_display st = map_option (\<lambda>a. (if a = [] then ''0.0'' else a) @ ''%'') (cs_avgROI st)"

definition dash_view :: "dash_state \<Rightarrow> client_stats query \<Rightarrow> project list query \<Rightarrow> dash_screen" where
  "dash_view s sq pq =
     (case sq of
        QSuccess st \<Rightarrow>
          (let ps = (case pq of QSuccess ps \<Rightarrow> ps | _ \<Rightarrow> []);
               charts = Charts portfolioData performanceData (projectData ps);
               t = dash_activeTab s
           in DashPage (if 0 < notificationCount s then Some (notificationCount s) else None)
                (isNotificationsOpen s) (statItems st)
                ((if t = ''overview'' then [charts, Metrics (avg_roi_display st), AchievementsPanel achievements] else []) @
                 (if t = ''analytics'' then [charts] else []) @
                 (if t = ''performance'' then [RecentTransactions mockRecentTransactions] else []) @
                 (if t = ''overview'' then [RecentTransactions mockRecentTransactions] else [])))
      | _ \<Rightarrow> DashLoading)"

lemma notificationCount_step [simp]: "notificationCount (dash_step e s) = notificationCount s"
  by (cases e) simp_all

lemma notification_count_constant: "dash_reach q s \<Longrightarrow> notificationCount s = 3"
  by (induction rule: dash_reach.induct) (simp_all add: dash_initial_def)

lemma dash_view_not_loaded: "(\<forall>st. sq \<noteq> QSuccess st) \<Longrightarrow> dash_view s sq pq = DashLoading"
  by (cases sq) (auto simp: dash_view_def)

lemma statItems_values:
  "map si_value (statItems cs) =
     [map_option (\<lambda>s. ''$'' @ s) (js_toLocaleString (or_zero_nullable (cs_totalInvested cs))),
      map_option (\<lambda>s. ''$'' @ s) (js_toLocaleString (or_zero_nullable (cs_monthlyReturns cs))),
      js_int_toString (or_zero_nullable (cs_activeProjects cs))]"
  by (simp add: statItems_def)

lemma cs_monthlyReturns_json: "cs_monthlyReturns (stats_json st) = json_number (monthlyReturns st)"
  unfolding stats_json_def by (rule client_stats.select_convs)

lemma json_number_nonfinite [simp]:
  "json_number PosInf = None" "json_number NegInf = None" "json_number NaN = None"
  by (simp_all add: json_number_def)

lemma or_zero_nullable_None [simp]: "or_zero_nullable None = Fin 0"
  by (simp add: or_zero_nullable_def)

lemma char_of_digits:
  "char_of (48::nat) = CHR ''0''" "char_of (49::nat) = CHR ''1''" "char_of (50::nat) = CHR ''2''"
  "char_of (51::nat) = CHR ''3''" "char_of (52::nat) = CHR ''4''" "char_of (53::nat) = CHR ''5''"
  "char_of (54::nat) = CHR ''6''" "char_of (55::nat) = CHR ''7''" "char_of (56::nat) = CHR ''8''"
  "char_of (57::nat) = CHR ''9''"
  by code_simp+
lemma replicate_small: "replicate 2 x = [x, x]" "replicate 1 x = [x]"
  by (simp_all add: numeral_2_eq_2)
lemma js_toLocaleString_zero: "js_toLocaleString (Fin 0) = Some ''0''"
  by (simp add: js_toLocaleString_def locale_nat.simps nat_digits.simps char_of_digits)

lemma monthly_card_zero:
  "or_zero_nullable (cs_monthlyReturns cs) = Fin 0 \<Longrightarrow> map si_value (statItems cs) ! 1 = Some ''$0''"
  apply (subst statItems_values)
  apply simp
  apply (simp only: js_toLocaleString_zero)
  done

text \<open>
  A non-finite monthly estimate (an \<open>"Infinity"\<close> ROI on the server) travels as
  \<open>null\<close> and is shown as \<open>$0\<close>.
\<close>

lemma infinite_monthly_returns_shown_as_zero:
  assumes "monthlyReturns st = PosInf"
  shows "map si_value (statItems (stats_json st)) ! 1 = Some ''$0''"
proof -
  have o: "or_zero_nullable (cs_monthlyReturns (stats_json st)) = Fin 0"
    by (simp only: cs_monthlyReturns_json assms json_number_nonfinite or_zero_nullable_None)
  show ?thesis by (rule monthly_card_zero [OF o])
qed

lemma serve_dashboard_stats:
  "fst (serve exec now GetDashboardStats s) =
     (case fst (exec now GetAllProjects s) of
        Inr (RProjects ps) \<Rightarrow> (200, BStats (compute_stats ps))
      | _ \<Rightarrow> (500, BMessage ''Failed to fetch dashboard stats''))"
  by (simp add: serve_def split_beta split: sum.split storage_resp.split)

end
