(* ===== verification/ProjectCard.thy ===== *)
theory ProjectCard
  imports DashboardPage
begin

text \<open>
  The project card \<open>src/client/src/components/common/project-card.tsx\<close>, shown for each
  project on the projects page: the funding percentage and its progress bar, the status
  badge's colours, the ROI colour band, the amounts in US dollars, four figures drawn
  from \<open>Math.random()\<close> on every render (the draws are the argument \<open>card_random\<close>,
  each in \<open>[0, 1)\<close>), and the like and details toggles. Classes are looked up in an
  object literal, so a status naming a property every object inherits (such as
  \<open>"constructor"\<close>) finds that property instead of the fallback.
\<close>

text \<open>\<open>Math.round\<close>: the nearest integer, halves rounded up.\<close>

fun js_round :: "jsnum \<Rightarrow> jsnum" where
  "js_round (Fin x) = Fin (of_int \<lfloor>x + 1 / 2\<rfloor>)"
| "js_round x = x"

text \<open>\<open>String(x)\<close> for an integral or non-finite number.\<close>

fun js_num_toString :: "jsnum \<Rightarrow> string option" where
  "js_num_toString NaN = Some ''NaN''"
| "js_num_toString PosInf = Some ''Infinity''"
| "js_num_toString NegInf = Some ''-Infinity''"
| "js_num_toString (Fin q) = js_int_toString (Fin q)"

definition progressPercentage :: "project \<Rightarrow> jsnum" where
  "progressPercentage p =
     js_mul (js_div (js_or_zero (Fin (of_int (case currentAmount p of Some a \<Rightarrow> a | None \<Rightarrow> 0))))
                    (Fin (of_int (targetAmount p))))
            (Fin 100)"

definition funded_label :: "project \<Rightarrow> string option" where
  "funded_label p = map_option (\<lambda>s. s @ ''% Funded'') (js_num_toString (js_round (progressPercentage p)))"

record status_style =
  st_bg :: string
  st_text :: string
  st_border :: string

definition statusColors :: "(string \<times> status_style) list" where
  "statusColors =
     [(''ACTIVE'', \<lparr>st_bg = ''bg-light-mint'', st_text = ''text-navy'', st_border = ''border-light-mint''\<rparr>),
      (''FUNDING'', \<lparr>st_bg = ''bg-electric-violet'', st_text = ''text-white'', st_border = ''border-electric-violet''\<rparr>),
      (''COMPLETE'', \<lparr>st_bg = ''bg-neon-cyan'', st_text = ''text-navy'', st_border = ''border-neon-cyan''\<rparr>),
      (''DEFAULT'', \<lparr>st_bg = ''bg-gray-500'', st_text = ''text-white'', st_border = ''border-gray-500''\<rparr>)]"

text \<open>The properties every object literal inherits from \<open>Object.prototype\<close>.\<close>

definition object_prototype_keys :: "string list" where
  "object_prototype_keys =
     [''constructor'', ''__proto__'', ''hasOwnProperty'', ''isPrototypeOf'', ''propertyIsEnumerable'',
      ''toLocaleString'', ''toString'', ''valueOf'', ''__defineGetter__'', ''__defineSetter__'',
      ''__lookupGetter__'', ''__lookupSetter__'']"

text \<open>
  \<open>statusColors[status] || statusColors.DEFAULT\<close>: an own key gives its style, an
  inherited key gives a function or object whose \<open>bg\<close>, \<open>text\<close> and \<open>border\<close> are
  \<open>undefined\<close> (\<open>None\<close>), any other key the fallback.
\<close>

definition statusConfig :: "string \<Rightarrow> status_style option" where
  "statusConfig st =
     (case map_of statusColors st of
        Some c \<Rightarrow> Some c
      | None \<Rightarrow> if st \<in> set object_prototype_keys then None else map_of statusColors ''DEFAULT'')"

definition badge_classes :: "string \<Rightarrow> string" where
  "badge_classes st =
     (case statusConfig st of
        Some c \<Rightarrow> st_bg c @ '' '' @ st_text c @ '' '' @ st_border c
      | None \<Rightarrow> ''undefined undefined undefined'')"

definition getROIColor :: "jsnum \<Rightarrow> string" where
  "getROIColor r =
     (if js_ge r (Fin 20) then ''text-green-400''
      else if js_ge r (Fin 15) then ''text-yellow-400'' else ''text-blue-400'')"

text \<open>\<open>Intl.NumberFormat('en-US', {style: 'currency', currency: 'USD', maximumFractionDigits: 0})\<close> of an integer.\<close>

definition formatCurrency :: "int \<Rightarrow> string" where
  "formatCurrency a = (if a < 0 then ''-$'' else ''$'') @ locale_nat (nat \<bar>a\<bar>)"

record card_random =
  rnd_investors :: rat
  rnd_days :: rat
  rnd_rating :: rat
  rnd_views :: rat

record project_stats =
  ps_investors :: int
  ps_daysLeft :: int
  ps_rating :: "string option"
  ps_views :: int

definition projectStats :: "card_random \<Rightarrow> project_stats" where
  "projectStats r =
     \<lparr>ps_investors = \<lfloor>rnd_investors r * 150\<rfloor> + 50,
      ps_daysLeft = \<lfloor>rnd_days r * 30\<rfloor> + 5,
      ps_rating = js_toFixed1 (Fin (rnd_rating r * 2 + 3)),
      ps_views = \<lfloor>rnd_views r * 5000\<rfloor> + 1000\<rparr>"

definition random_ok :: "card_random \<Rightarrow> bool" where
  "random_ok r \<longleftrightarrow>
     0 \<le> rnd_investors r \<and> rnd_investors r < 1 \<and> 0 \<le> rnd_days r \<and> rnd_days r < 1 \<and>
     0 \<le> rnd_rating r \<and> rnd_rating r < 1 \<and> 0 \<le> rnd_views r \<and> rnd_views r < 1"

record card_state =
  isLiked :: bool
  showDetails :: bool

definition card_initial :: card_state where
  "card_initial = \<lparr>isLiked = False, showDetails = False\<rparr>"

datatype card_event = ToggleLike | ToggleDetails | CloseDetails

fun card_step :: "card_event \<Rightarrow> card_state \<Rightarrow> card_state" where
  "card_step ToggleLike s = s\<lparr>isLiked := \<not> isLiked s\<rparr>"
| "card_step ToggleDetails s = s\<lparr>showDetails := \<not> showDetails s\<rparr>"
| "card_step CloseDetails s = s\<lparr>showDetails := False\<rparr>"

text \<open>The backdrop of the details view exists only while it is shown.\<close>

fun card_enabled :: "card_state \<Rightarrow> card_event \<Rightarrow> bool" where
  "card_enabled s CloseDetails = showDetails s"
| "card_enabled s _ = True"

record card_view =
  cv_badge :: string
  cv_badgeClasses :: string
  cv_heart :: string
  cv_investors :: string
  cv_daysLeft :: string
  cv_rating :: "string option"
  cv_title :: string
  cv_location :: string
  cv_description :: string
  cv_roi :: string
  cv_roiColor :: string
  cv_funded :: "string option"
  cv_progress :: jsnum
  cv_minInvestment :: string
  cv_target :: string
  cv_views :: string
  cv_details :: "(string \<times> string \<times> string \<times> string) option"

definition project_card :: "project \<Rightarrow> card_random \<Rightarrow> card_state \<Rightarrow> card_view" where
  "project_card p r s =
     (let stats = projectStats r in
      \<lparr>cv_badge = status p, cv_badgeClasses = badge_classes (status p),
       cv_heart = (if isLiked s then ''text-red-400 fill-red-400'' else ''text-white''),
       cv_investors = locale_nat (nat (ps_investors stats)),
       cv_daysLeft = nat_digits (nat (ps_daysLeft stats)) @ ''d left'',
       cv_rating = ps_rating stats,
       cv_title = title p, cv_location = ''Dubai, UAE'', cv_description = description p,
       cv_roi = roi p @ ''% ROI'', cv_roiColor = getROIColor (js_Number (roi p)),
       cv_funded = funded_label p, cv_progress = progressPercentage p,
       cv_minInvestment = formatCurrency (minInvestment p),
       cv_target = formatCurrency (targetAmount p),
       cv_views = locale_nat (nat (ps_views stats)),
       cv_details = (if showDetails s then Some (title p, description p, roi p @ ''%'',
                                                  formatCurrency (minInvestment p)) else None)\<rparr>)"

lemma floor_scaled_bounds:
  assumes "0 \<le> x" "x < 1" "0 < (n::int)"
  shows "0 \<le> \<lfloor>x * of_int n\<rfloor> \<and> \<lfloor>x * of_int n\<rfloor> \<le> n - 1"
proof -
  have "0 \<le> x * of_int n" using assms by simp
  moreover have "x * of_int n < of_int n" using assms by simp
  ultimately show ?thesis by (simp add: floor_less_iff)
qed

text \<open>
  C9. The figures a project card draws from \<open>Math.random()\<close> stay in their ranges:
  50--199 investors, 5--34 days left, 1000--5999 views.
\<close>

theorem project_stats_bounds:
  assumes "random_ok r"
  shows "50 \<le> ps_investors (projectStats r) \<and> ps_investors (projectStats r) \<le> 199 \<and>
    5 \<le> ps_daysLeft (projectStats r) \<and> ps_daysLeft (projectStats r) \<le> 34 \<and>
    1000 \<le> ps_views (projectStats r) \<and> ps_views (projectStats r) \<le> 5999"
  using floor_scaled_bounds [of "rnd_investors r" 150] floor_scaled_bounds [of "rnd_days r" 30]
    floor_scaled_bounds [of "rnd_views r" 5000] assms
  by (simp add: projectStats_def random_ok_def)

theorem project_stats_bounds_witness:
  "50 \<le> ps_investors (projectStats \<lparr>rnd_investors = 1/2, rnd_days = 1/2, rnd_rating = 1/2, rnd_views = 1/2\<rparr>)"
proof -
  have "random_ok \<lparr>rnd_investors = 1/2, rnd_days = 1/2, rnd_rating = 1/2, rnd_views = 1/2\<rparr>"
    by (simp add: random_ok_def)
  from project_stats_bounds [OF this] show ?thesis by simp
qed

text \<open>
  A project with target 0 (nothing in the schema forbids it) shows \<open>"NaN% Funded"\<close> or
  \<open>"Infinity% Funded"\<close>.
\<close>

lemma zero_target_funded:
  assumes "targetAmount p = 0"
  shows "funded_label p =
    Some (case currentAmount p of
            Some a \<Rightarrow> if a = 0 then ''NaN% Funded'' else if 0 < a then ''Infinity% Funded''
                      else ''-Infinity% Funded''
          | None \<Rightarrow> ''NaN% Funded'')"
  using assms
  by (cases "currentAmount p")
    (auto simp: funded_label_def progressPercentage_def js_or_zero_def js_div_zero_zero
      js_div_pos_zero inf_of_sign_def split: if_splits)

text \<open>Otherwise the percentage shown is a whole number from 0 to 100 while the target is not exceeded.\<close>

lemma funded_percent_in_range:
  assumes "0 < targetAmount p" and "currentAmount p = Some a" and "0 \<le> a" "a \<le> targetAmount p"
  shows "\<exists>k. js_round (progressPercentage p) = Fin (of_int k) \<and> 0 \<le> k \<and> k \<le> 100"
proof -
  let ?x = "of_int a / of_int (targetAmount p) * (100::rat)"
  have "js_or_zero (Fin (of_int a)) = Fin (of_int a)" by (simp add: js_or_zero_def)
  then have pp: "progressPercentage p = Fin ?x"
    using assms(1,2) by (simp add: progressPercentage_def)
  have "0 \<le> ?x" using assms by simp
  moreover have "?x \<le> 100" using assms by (simp add: divide_le_eq)
  ultimately have "0 \<le> \<lfloor>?x + 1 / 2\<rfloor> \<and> \<lfloor>?x + 1 / 2\<rfloor> \<le> 100"
    by (simp add: floor_le_iff)
  then show ?thesis using pp by auto
qed

end
