(* ===== verification/Navigation.thy ===== *)
theory Navigation
  imports DashboardPage
begin

text \<open>
  Client-side navigation: the router of \<open>src/client/src/App.tsx\<close> (a wouter \<open>Switch\<close>
  whose first route matching the location is rendered, the last one catching every
  location), the navigation bar \<open>components/layout/navbar.tsx\<close> (six links, the one
  for the current location highlighted, a mobile menu) and the error boundary
  \<open>components/common/error-boundary.tsx\<close> wrapping the whole app. A route's path is
  compared with the location as a string; wouter's own pattern syntax is not needed
  for these literal paths.
\<close>

datatype page = HomePage | ProjectsPage | DashboardView | EducationPage | FaqView | AIToolsPage
  | NotFoundPage

definition app_routes :: "(string \<times> page) list" where
  "app_routes =
     [(''/'', HomePage), (''/projects'', ProjectsPage), (''/dashboard'', DashboardView),
      (''/education'', EducationPage), (''/faq'', FaqView), (''/investor-ai-tools'', AIToolsPage)]"

definition route_page :: "string \<Rightarrow> page" where
  "route_page loc = (case map_of app_routes loc of Some pg \<Rightarrow> pg | None \<Rightarrow> NotFoundPage)"

definition navItems :: "(string \<times> string) list" where
  "navItems =
     [(''/'', ''Home''), (''/projects'', ''Projects''), (''/dashboard'', ''Dashboard''),
      (''/education'', ''Education''), (''/faq'', ''FAQs''), (''/investor-ai-tools'', ''AI Tools'')]"

definition isActive :: "string \<Rightarrow> string \<Rightarrow> bool" where
  "isActive loc href \<longleftrightarrow>
     (href = ''/'' \<and> loc = ''/'') \<or> (href \<noteq> ''/'' \<and> js_startsWith loc href)"

record nav_state =
  nav_location :: string
  isMobileMenuOpen :: bool

datatype nav_event = ClickLink string | ClickMobileLink string | ToggleMobileMenu

fun nav_step :: "nav_event \<Rightarrow> nav_state \<Rightarrow> nav_state" where
  "nav_step (ClickLink h) s = s\<lparr>nav_location := h\<rparr>"
| "nav_step (ClickMobileLink h) s = s\<lparr>nav_location := h, isMobileMenuOpen := False\<rparr>"
| "nav_step ToggleMobileMenu s = s\<lparr>isMobileMenuOpen := \<not> isMobileMenuOpen s\<rparr>"

text \<open>The logo and the desktop links are always there; the mobile links only in the open menu.\<close>

fun nav_enabled :: "nav_state \<Rightarrow> nav_event \<Rightarrow> bool" where
  "nav_enabled s (ClickLink h) = (h \<in> set (''/'' # map fst navItems))"
| "nav_enabled s (ClickMobileLink h) = (isMobileMenuOpen s \<and> h \<in> set (map fst navItems))"
| "nav_enabled s ToggleMobileMenu = True"

definition nav_view :: "nav_state \<Rightarrow> (string \<times> bool) list \<times> (string \<times> bool) list option" where
  "nav_view s =
     (map (\<lambda>(h, l). (l, isActive (nav_location s) h)) navItems,
      if isMobileMenuOpen s then Some (map (\<lambda>(h, l). (l, isActive (nav_location s) h)) navItems) else None)"

record boundary_state =
  hasError :: bool
  eb_error :: "string option"
  eb_errorInfo :: "string option"

definition boundary_initial :: boundary_state where
  "boundary_initial = \<lparr>hasError = False, eb_error = None, eb_errorInfo = None\<rparr>"

text \<open>
  A render error of a child: \<open>getDerivedStateFromError\<close> sets \<open>hasError\<close> and the error,
  \<open>componentDidCatch\<close> records the component stack. \<open>resetError\<close> is the Try Again button.
\<close>

datatype boundary_event = ChildThrows string string | ResetError

fun boundary_step :: "boundary_event \<Rightarrow> boundary_state \<Rightarrow> boundary_state" where
  "boundary_step (ChildThrows e info) s = s\<lparr>hasError := True, eb_error := Some e, eb_errorInfo := Some info\<rparr>"
| "boundary_step ResetError s = s\<lparr>hasError := False, eb_error := None, eb_errorInfo := None\<rparr>"

datatype fallback_action = TryAgain | GoHome string | GoBack

datatype boundary_view = Children | ErrorFallback "string option" "fallback_action list"

definition boundary_view :: "bool \<Rightarrow> boundary_state \<Rightarrow> boundary_view" where
  "boundary_view development s =
     (if hasError s
      then ErrorFallback (if development then eb_error s else None) [TryAgain, GoBack, GoHome ''/'']
      else Children)"

text \<open>Every location the application itself links to.\<close>

definition app_links :: "string list" where
  "app_links =
     ''/'' # map fst navItems @
     [h. (_, NavigateTo h) \<leftarrow> quickActions] @ [''/'']"

inductive boundary_reach :: "boundary_state \<Rightarrow> bool" where
  init: "boundary_reach boundary_initial"
| step: "boundary_reach s \<Longrightarrow> boundary_reach (boundary_step e s)"

lemma boundary_step_error:
  "(hasError s \<longleftrightarrow> eb_error s \<noteq> None) \<Longrightarrow>
     hasError (boundary_step e s) \<longleftrightarrow> eb_error (boundary_step e s) \<noteq> None"
  by (cases e) simp_all

lemma boundary_error_iff:
  "boundary_reach s \<Longrightarrow> hasError s \<longleftrightarrow> eb_error s \<noteq> None"
  by (induction rule: boundary_reach.induct) (simp_all add: boundary_initial_def boundary_step_error)


text \<open>The navigation bar highlights at most one link, whatever the location.\<close>

lemma filter_le_one:
  "distinct xs \<Longrightarrow> (\<And>x y. x \<in> set xs \<Longrightarrow> y \<in> set xs \<Longrightarrow> P x \<Longrightarrow> P y \<Longrightarrow> x = y) \<Longrightarrow>
     length (filter P xs) \<le> 1"
proof (induction xs)
  case (Cons a xs)
  show ?case
  proof (cases "P a")
    case True
    then have "filter P xs = []" using Cons.prems by (auto simp: filter_empty_conv)
    then show ?thesis by simp
  next
    case False
    then show ?thesis using Cons by simp
  qed
qed simp

lemma nav_hrefs_unprefixed:
  "h1 \<in> set (map fst navItems) \<Longrightarrow> h2 \<in> set (map fst navItems) \<Longrightarrow>
     h1 \<noteq> ''/'' \<Longrightarrow> prefix h1 h2 \<Longrightarrow> h1 = h2"
  by (auto simp: navItems_def)

lemma isActive_unique:
  assumes "h1 \<in> set (map fst navItems)" "h2 \<in> set (map fst navItems)"
    and "isActive loc h1" "isActive loc h2"
  shows "h1 = h2"
proof -
  have root: "h = ''/''" if "h \<in> set (map fst navItems)" "prefix h ''/''" for h
    using that by (auto simp: navItems_def)
  show ?thesis
  proof (cases "h1 = ''/'' \<or> h2 = ''/''")
    case True
    then show ?thesis using assms root by (auto simp: isActive_def js_startsWith_prefix)
  next
    case False
    then have "prefix h1 loc" "prefix h2 loc" using assms by (auto simp: isActive_def js_startsWith_prefix)
    then have "prefix h1 h2 \<or> prefix h2 h1" by (rule prefix_same_cases)
    then show ?thesis using assms(1,2) False nav_hrefs_unprefixed by blast
  qed
qed

lemma nav_at_most_one_active:
  "length (filter (isActive loc) (map fst navItems)) \<le> 1"
proof (rule filter_le_one)
  show "distinct (map fst navItems)" by (simp add: navItems_def)
next
  fix x y assume "x \<in> set (map fst navItems)" "y \<in> set (map fst navItems)"
    "isActive loc x" "isActive loc y"
  then show "x = y" by (rule isActive_unique)
qed

text \<open>
  The highlight tests a prefix, so a location that only starts with a link's path
  highlights that link while the router shows the not-found page.
\<close>

lemma prefix_location_highlights:
  "isActive ''/faqx'' ''/faq'' \<and> route_page ''/faqx'' = NotFoundPage"
  by (simp add: isActive_def route_page_def app_routes_def)

end
