(* ===== verification/ProjectsPage.thy ===== *)
theory ProjectsPage
  imports ProjectFilter ProjectCard
begin

text \<open>
  The projects page around its filter engine (\<open>src/client/src/pages/projects.tsx\<close>):
  the six \<open>useState\<close> hooks (lines 48--53) are the record \<open>projects_state\<close>, the
  filter state \<open>criteria\<close> of theory ProjectFilter extended with the view mode; the
  drop-downs' options are \<open>statusOptions\<close>, \<open>locationOptions\<close>, \<open>roiOptions\<close>,
  \<open>sortOptions\<close>; every setter the markup calls is an event of \<open>projects_step\<close>, offered
  as \<open>projects_enabled\<close> says; \<open>projects_view\<close> is the screen: the loading gate
  (lines 95--104), the mock statistics, the count line, the active-filter summary with
  its "Clear All" button, the cards or the "No projects found" panel with its "Clear
  Filters" button, and "Load More". The fetched list is \<open>data: projects = []\<close>: a
  failed fetch leaves it empty.
\<close>

datatype view_mode = Grid | List_view

record projects_state = criteria +
  viewMode :: view_mode

definition projects_initial :: projects_state where
  "projects_initial =
     \<lparr>searchTerm = [], statusFilter = ''all'', locationFilter = ''all'', roiFilter = ''all'',
      sortBy = ''newest'', viewMode = Grid\<rparr>"

definition page_stats :: "(string \<times> string) list" where
  "page_stats =
     [(''Total Projects'', ''24''), (''Active Investments'', ''18''),
      (''Total Investors'', ''2,847''), (''Avg ROI'', ''18.5%'')]"

definition statusOptions :: "(string \<times> string) list" where
  "statusOptions =
     [(''all'', ''All Projects''), (''active'', ''Active''), (''funding'', ''Funding''),
      (''complete'', ''Complete'')]"

definition locationOptions :: "(string \<times> string) list" where
  "locationOptions =
     [(''all'', ''All Locations''), (''dubai'', ''Dubai''), (''singapore'', ''Singapore''),
      (''london'', ''London'')]"

definition roiOptions :: "(string \<times> string) list" where
  "roiOptions = [(''all'', ''All ROI''), (''10-12'', ''10-12%''), (''12-15'', ''12-15%''), (''15+'', ''15%+'')]"

definition sortOptions :: "(string \<times> string) list" where
  "sortOptions =
     [(''newest'', ''Newest First''), (''roi-high'', ''Highest ROI''), (''roi-low'', ''Lowest ROI''),
      (''funding-high'', ''Most Funded''), (''funding-low'', ''Least Funded'')]"

text \<open>
  The two clear buttons (lines 296--301 and 327--332) call the same four setters; the
  sort order and the view mode are kept.
\<close>

datatype projects_event = SetSearchTerm string | SetStatusFilter string | SetLocationFilter string
  | SetRoiFilter string | SetSortBy string | SetViewMode view_mode | ClearAll | ClearFiltersButton

fun projects_step :: "projects_event \<Rightarrow> projects_state \<Rightarrow> projects_state" where
  "projects_step (SetSearchTerm t) s = s\<lparr>searchTerm := t\<rparr>"
| "projects_step (SetStatusFilter v) s = s\<lparr>statusFilter := v\<rparr>"
| "projects_step (SetLocationFilter v) s = s\<lparr>locationFilter := v\<rparr>"
| "projects_step (SetRoiFilter v) s = s\<lparr>roiFilter := v\<rparr>"
| "projects_step (SetSortBy v) s = s\<lparr>sortBy := v\<rparr>"
| "projects_step (SetViewMode m) s = s\<lparr>viewMode := m\<rparr>"
| "projects_step ClearAll s =
     s\<lparr>searchTerm := [], statusFilter := ''all'', locationFilter := ''all'', roiFilter := ''all''\<rparr>"
| "projects_step ClearFiltersButton s =
     s\<lparr>searchTerm := [], statusFilter := ''all'', locationFilter := ''all'', roiFilter := ''all''\<rparr>"

text \<open>\<open>const { data: projects = [], isLoading } = useQuery(...)\<close>.\<close>

definition projects_data :: "project list query \<Rightarrow> project list" where
  "projects_data q = (case q of QSuccess ps \<Rightarrow> ps | _ \<Rightarrow> [])"

definition filters_active :: "projects_state \<Rightarrow> bool" where
  "filters_active s \<longleftrightarrow>
     searchTerm s \<noteq> [] \<or> statusFilter s \<noteq> ''all'' \<or> locationFilter s \<noteq> ''all'' \<or> roiFilter s \<noteq> ''all''"

definition shown_projects :: "projects_state \<Rightarrow> project list query \<Rightarrow> project list" where
  "shown_projects s q = filteredProjects (criteria.truncate s) (projects_data q)"

text \<open>
  The controls exist once the page is past its loading gate; a drop-down offers its
  options only, "Clear All" is inside the summary shown while a filter is active, and
  "Clear Filters" inside the panel shown when no project is left.
\<close>

fun projects_enabled :: "project list query \<Rightarrow> projects_state \<Rightarrow> projects_event \<Rightarrow> bool" where
  "projects_enabled q s (SetSearchTerm t) = (q \<noteq> QLoading)"
| "projects_enabled q s (SetStatusFilter v) = (q \<noteq> QLoading \<and> v \<in> set (map fst statusOptions))"
| "projects_enabled q s (SetLocationFilter v) = (q \<noteq> QLoading \<and> v \<in> set (map fst locationOptions))"
| "projects_enabled q s (SetRoiFilter v) = (q \<noteq> QLoading \<and> v \<in> set (map fst roiOptions))"
| "projects_enabled q s (SetSortBy v) = (q \<noteq> QLoading \<and> v \<in> set (map fst sortOptions))"
| "projects_enabled q s (SetViewMode m) = (q \<noteq> QLoading)"
| "projects_enabled q s ClearAll = (q \<noteq> QLoading \<and> filters_active s)"
| "projects_enabled q s ClearFiltersButton = (q \<noteq> QLoading \<and> shown_projects s q = [])"

inductive projects_reach :: "project list query \<Rightarrow> projects_state \<Rightarrow> bool" for q where
  init: "projects_reach q projects_initial"
| step: "projects_reach q s \<Longrightarrow> projects_enabled q s e \<Longrightarrow> projects_reach q (projects_step e s)"

definition filter_badges :: "projects_state \<Rightarrow> string list" where
  \<open>filter_badges s =
     (if searchTerm s \<noteq> [] then [''Search: "'' @ searchTerm s @ ''"''] else []) @
     (if statusFilter s \<noteq> ''all'' then [''Status: '' @ statusFilter s] else []) @
     (if locationFilter s \<noteq> ''all'' then [''Location: '' @ locationFilter s] else []) @
     (if roiFilter s \<noteq> ''all'' then [''ROI: '' @ roiFilter s] else [])\<close>

datatype projects_results = NoProjectsFound | ProjectGrid view_mode "project list"

record projects_display =
  pd_stats :: "(string \<times> string) list"
  pd_viewButtons :: "(view_mode \<times> bool) list"
  pd_count :: string
  pd_summary :: "string list option"
  pd_results :: projects_results
  pd_loadMore :: bool

datatype projects_screen = ProjectsLoading | ProjectsShown projects_display

definition projects_view :: "projects_state \<Rightarrow> project list query \<Rightarrow> projects_screen" where
  "projects_view s q =
     (if q = QLoading then ProjectsLoading
      else let ps = projects_data q; fp = shown_projects s q in
        ProjectsShown
          \<lparr>pd_stats = page_stats,
           pd_viewButtons = [(Grid, viewMode s = Grid), (List_view, viewMode s = List_view)],
           pd_count = nat_digits (length fp) @ '' of '' @ nat_digits (length ps) @ '' projects'',
           pd_summary = (if filters_active s then Some (filter_badges s) else None),
           pd_results = (if length fp = 0 then NoProjectsFound else ProjectGrid (viewMode s) fp),
           pd_loadMore = (length fp > 0)\<rparr>)"

definition projects_wf :: "projects_state \<Rightarrow> bool" where
  "projects_wf s \<longleftrightarrow>
     statusFilter s \<in> set (map fst statusOptions) \<and> locationFilter s \<in> set (map fst locationOptions) \<and>
     roiFilter s \<in> set (map fst roiOptions) \<and> sortBy s \<in> set (map fst sortOptions)"

text \<open>
  Both clear buttons restore the filter part of the state to \<open>clear_filters\<close> of
  theory ProjectFilter; a state with no active filter already is that.
\<close>

lemma clear_truncate:
  "e = ClearAll \<or> e = ClearFiltersButton \<Longrightarrow>
     criteria.truncate (projects_step e s) = clear_filters (criteria.truncate s)"
  by (auto simp: clear_filters_def criteria.defs)

lemma inactive_truncate:
  "\<not> filters_active s \<Longrightarrow> clear_filters (criteria.truncate s) = criteria.truncate s"
  by (simp add: filters_active_def clear_filters_def criteria.defs)

lemma shown_projects_cleared:
  "e = ClearAll \<or> e = ClearFiltersButton \<Longrightarrow> mset (shown_projects (projects_step e s) q) = mset (projects_data q)"
  by (simp add: shown_projects_def clear_truncate filteredProjects_def clear_filters_matches)

lemma shown_projects_inactive:
  "\<not> filters_active s \<Longrightarrow> mset (shown_projects s q) = mset (projects_data q)"
  by (metis inactive_truncate shown_projects_def mset_js_sort filteredProjects_def clear_filters_matches filter_True)

lemma projects_data_loading [simp]: "projects_data QLoading = []"
  by (simp add: projects_data_def)

lemma shown_projects_no_data:
  "projects_data q = [] \<Longrightarrow> shown_projects s q = []"
  by (simp add: shown_projects_def filteredProjects_def)

lemma projects_wf_initial: "projects_wf projects_initial"
  by (simp add: projects_wf_def projects_initial_def statusOptions_def locationOptions_def roiOptions_def sortOptions_def)

lemma projects_wf_step: "projects_wf s \<Longrightarrow> projects_enabled q s e \<Longrightarrow> projects_wf (projects_step e s)"
  by (cases e) (auto simp: projects_wf_def statusOptions_def locationOptions_def roiOptions_def)

lemma projects_reach_wf: "projects_reach q s \<Longrightarrow> projects_wf s"
  by (induction rule: projects_reach.induct) (simp_all add: projects_wf_initial projects_wf_step)

text \<open>
  A failed fetch is shown as an empty catalogue: the same screen as a successful fetch
  of no project, "0 of 0 projects" and "No projects found", whose "Clear Filters"
  button is offered and changes nothing on screen.
\<close>

lemma fetch_error_looks_empty:
  "projects_view s QError = projects_view s (QSuccess []) \<and>
   (\<exists>d. projects_view s QError = ProjectsShown d \<and> pd_results d = NoProjectsFound \<and>
      pd_count d = ''0 of 0 projects'' \<and> projects_enabled QError s ClearFiltersButton)"
proof -
  have z: "nat_digits 0 = ''0''" by code_simp
  have "shown_projects s QError = []" "shown_projects s (QSuccess []) = []"
    by (simp_all add: shown_projects_no_data projects_data_def)
  then show ?thesis by (simp add: projects_view_def projects_data_def Let_def z)
qed

text \<open>
  C13. Choosing a city in the Location drop-down (Dubai, Singapore or London) empties
  the page: the location test accepts "all" only, so whatever was fetched, the page
  shows "No projects found" and no "Load More".
\<close>

theorem location_filter_empties_page:
  assumes "projects_enabled q s (SetLocationFilter v)" and "v \<noteq> ''all''"
  shows "\<exists>d. projects_view (projects_step (SetLocationFilter v) s) q = ProjectsShown d \<and>
    pd_results d = NoProjectsFound \<and> \<not> pd_loadMore d \<and>
    pd_summary d = Some (filter_badges (projects_step (SetLocationFilter v) s))"
proof -
  have "shown_projects (projects_step (SetLocationFilter v) s) q = []"
    using assms(2)
    by (simp add: shown_projects_def filteredProjects_def filter_empty_conv project_matches_def
        matchesLocation_def criteria.defs)
  moreover have "filters_active (projects_step (SetLocationFilter v) s)"
    using assms(2) by (simp add: filters_active_def)
  ultimately show ?thesis using assms(1) by (simp add: projects_view_def Let_def)
qed

theorem location_filter_empties_page_witness:
  "projects_data (QSuccess scenario_projects) \<noteq> [] \<and>
   (\<exists>d. projects_view (projects_step (SetLocationFilter ''dubai'') projects_initial) (QSuccess scenario_projects) =
      ProjectsShown d \<and> pd_results d = NoProjectsFound \<and> \<not> pd_loadMore d \<and>
      pd_summary d = Some [''Location: dubai''])"
proof -
  have e: "projects_enabled (QSuccess scenario_projects) projects_initial (SetLocationFilter ''dubai'')"
    by (simp add: locationOptions_def)
  have b: "filter_badges (projects_step (SetLocationFilter ''dubai'') projects_initial) = [''Location: dubai'']"
    by (simp add: filter_badges_def projects_initial_def)
  show ?thesis using location_filter_empties_page [OF e] b
    by (simp add: projects_data_def scenario_projects_def)
qed

text \<open>
  C7. From any state of the page, the whole fetched catalogue is on screen again
  after at most one click the page offers ("Clear All" while a filter is active),
  with the sort order and the view mode kept.
\<close>

theorem catalogue_recoverable:
  "\<exists>s'. (s' = s \<or> (\<exists>e. projects_enabled q s e \<and> s' = projects_step e s)) \<and>
     mset (shown_projects s' q) = mset (projects_data q) \<and>
     sortBy s' = sortBy s \<and> viewMode s' = viewMode s"
proof (cases "filters_active s \<and> q \<noteq> QLoading")
  case True
  then have e: "projects_enabled q s ClearAll" by simp
  have m: "mset (shown_projects (projects_step ClearAll s) q) = mset (projects_data q)"
    by (rule shown_projects_cleared) simp
  have "sortBy (projects_step ClearAll s) = sortBy s \<and> viewMode (projects_step ClearAll s) = viewMode s"
    by simp
  with e m show ?thesis by blast
next
  case False
  then have "mset (shown_projects s q) = mset (projects_data q)"
    by (auto simp: shown_projects_inactive shown_projects_no_data)
  then show ?thesis by blast
qed

end
