(* ===== verification/SeoMeta.thy ===== *)
theory SeoMeta
  imports Navigation
begin

text \<open>
  The document-head effect of \<open>src/client/src/components/common/seo-meta.tsx\<close>. The
  document is its title and the list of the head's elements in document order: a
  \<open>document.querySelector\<close> is the first element matching the selector, \<open>appendChild\<close>
  adds at the end, \<open>remove\<close> takes the element out. \<open>updateMetaTag\<close> and
  \<open>updatePropertyTag\<close> update the first match or append a new element (\<open>upsert\<close>), the
  canonical link likewise, the organisation's JSON-LD script replaces the first existing
  one; the article tags are appended on every run. The effect runs after every render
  whose dependencies changed; the default \<open>tags = []\<close> is a new array on each render,
  so for the pages that use the component it runs after every render. Which page
  mounts the component with which props is \<open>page_seo\<close> (\<open>pages/home.tsx\<close>,
  \<open>pages/not-found.tsx\<close>).
\<close>

datatype head_elem = MetaName string string | MetaProperty string string | LinkRel string string
  | ScriptElem string string

record document =
  doc_title :: string
  doc_head :: "head_elem list"

datatype og_type = Website | Article | Profile

fun og_type_str :: "og_type \<Rightarrow> string" where
  "og_type_str Website = ''website''"
| "og_type_str Article = ''article''"
| "og_type_str Profile = ''profile''"

record seo_props =
  seo_title :: string
  seo_description :: string
  seo_keywords :: string
  seo_image :: string
  seo_url :: string
  seo_type :: og_type
  seo_author :: string
  seo_publishedTime :: "string option"
  seo_modifiedTime :: "string option"
  seo_section :: "string option"
  seo_tags :: "string list"

text \<open>The defaults of the destructured props; \<open>href\<close> is \<open>window.location.href\<close>.\<close>

definition seo_defaults :: "string \<Rightarrow> seo_props" where
  "seo_defaults href =
     \<lparr>seo_title = ''SAIR REIT - Halal Real Estate Investment Trust'',
      seo_description = ''Invest in Sharia-compliant real estate with SAIR REIT. Get transparent, asset-backed returns with complete profit sharing. Join thousands of satisfied investors.'',
      seo_keywords = ''REIT, real estate investment, halal investment, sharia compliant, property investment, Pakistan real estate, Dubai real estate, Singapore real estate'',
      seo_image = ''/og-image.jpg'', seo_url = href, seo_type = Website, seo_author = ''SAIR REIT'',
      seo_publishedTime = None, seo_modifiedTime = None, seo_section = None, seo_tags = []\<rparr>"

text \<open>\<open>if (x)\<close> on an optional string: defined and not empty.\<close>

definition truthy_str :: "string option \<Rightarrow> bool" where
  "truthy_str x \<longleftrightarrow> (case x of Some s \<Rightarrow> s \<noteq> [] | None \<Rightarrow> False)"

fun is_meta_name :: "string \<Rightarrow> head_elem \<Rightarrow> bool" where
  "is_meta_name n (MetaName n' _) = (n' = n)"
| "is_meta_name n _ = False"

fun is_meta_property :: "string \<Rightarrow> head_elem \<Rightarrow> bool" where
  "is_meta_property p (MetaProperty p' _) = (p' = p)"
| "is_meta_property p _ = False"

fun is_link_rel :: "string \<Rightarrow> head_elem \<Rightarrow> bool" where
  "is_link_rel r (LinkRel r' _) = (r' = r)"
| "is_link_rel r _ = False"

fun is_script_type :: "string \<Rightarrow> head_elem \<Rightarrow> bool" where
  "is_script_type t (ScriptElem t' _) = (t' = t)"
| "is_script_type t _ = False"

text \<open>Set the first element satisfying \<open>P\<close> to \<open>new\<close>, or append \<open>new\<close> when there is none.\<close>

fun upsert :: "('a \<Rightarrow> bool) \<Rightarrow> 'a \<Rightarrow> 'a list \<Rightarrow> 'a list" where
  "upsert P new [] = [new]"
| "upsert P new (x # xs) = (if P x then new # xs else x # upsert P new xs)"

fun remove_first :: "('a \<Rightarrow> bool) \<Rightarrow> 'a list \<Rightarrow> 'a list" where
  "remove_first P [] = []"
| "remove_first P (x # xs) = (if P x then xs else x # remove_first P xs)"

definition updateMetaTag :: "string \<Rightarrow> string \<Rightarrow> head_elem list \<Rightarrow> head_elem list" where
  "updateMetaTag n c = upsert (is_meta_name n) (MetaName n c)"

definition updatePropertyTag :: "string \<Rightarrow> string \<Rightarrow> head_elem list \<Rightarrow> head_elem list" where
  "updatePropertyTag p c = upsert (is_meta_property p) (MetaProperty p c)"

definition basic_tags :: "seo_props \<Rightarrow> (string \<times> string) list" where
  "basic_tags p = [(''description'', seo_description p), (''keywords'', seo_keywords p),
     (''author'', seo_author p)]"

definition og_tags :: "seo_props \<Rightarrow> (string \<times> string) list" where
  "og_tags p =
     [(''og:title'', seo_title p), (''og:description'', seo_description p), (''og:image'', seo_image p),
      (''og:url'', seo_url p), (''og:type'', og_type_str (seo_type p)), (''og:site_name'', ''SAIR REIT''),
      (''twitter:card'', ''summary_large_image''), (''twitter:title'', seo_title p),
      (''twitter:description'', seo_description p), (''twitter:image'', seo_image p)]"

definition article_tags :: "seo_props \<Rightarrow> (string \<times> string) list" where
  "article_tags p =
     (if truthy_str (seo_publishedTime p) then [(''article:published_time'', the (seo_publishedTime p))] else []) @
     (if truthy_str (seo_modifiedTime p) then [(''article:modified_time'', the (seo_modifiedTime p))] else []) @
     (if truthy_str (seo_section p) then [(''article:section'', the (seo_section p))] else []) @
     (if seo_author p \<noteq> [] then [(''article:author'', seo_author p)] else [])"

datatype json = JStr string | JArr "json list" | JObj "(string \<times> json) list"

definition hex_digit :: "nat \<Rightarrow> char" where
  "hex_digit d = (if d < 10 then char_of (48 + d) else char_of (87 + d))"

text \<open>The escapes of \<open>JSON.stringify\<close> (QuoteJSONString) for the characters of a string.\<close>

fun json_escape :: "char \<Rightarrow> string" where
  "json_escape c =
     (let n = of_char c :: nat in
      if n = 34 then [CHR 0x5C, CHR 0x22]
      else if n = 92 then [CHR 0x5C, CHR 0x5C]
      else if n = 8 then [CHR 0x5C, CHR ''b'']
      else if n = 9 then [CHR 0x5C, CHR ''t'']
      else if n = 10 then [CHR 0x5C, CHR ''n'']
      else if n = 12 then [CHR 0x5C, CHR ''f'']
      else if n = 13 then [CHR 0x5C, CHR ''r'']
      else if n < 32 then [CHR 0x5C, CHR ''u'', CHR ''0'', CHR ''0'', hex_digit (n div 16), hex_digit (n mod 16)]
      else [c])"

definition json_quote :: "string \<Rightarrow> string" where
  "json_quote s = CHR 0x22 # concat (map json_escape s) @ [CHR 0x22]"

fun json_stringify :: "json \<Rightarrow> string" where
  "json_stringify (JStr s) = json_quote s"
| "json_stringify (JArr vs) = ''['' @ js_join '','' (map json_stringify vs) @ '']''"
| "json_stringify (JObj kvs) =
     ''{'' @ js_join '','' (map (\<lambda>(k, v). json_quote k @ '':'' @ json_stringify v) kvs) @ ''}''"

definition structuredData :: json where
  "structuredData = JObj
     [(''@context'', JStr ''https://schema.org''), (''@type'', JStr ''Organization''),
      (''name'', JStr ''SAIR REIT''), (''url'', JStr ''https://sairreit.com''),
      (''logo'', JStr ''https://sairreit.com/logo.png''),
      (''description'', JStr ''Sharia-compliant Real Estate Investment Trust''),
      (''address'', JObj [(''@type'', JStr ''PostalAddress''), (''addressCountry'', JStr ''PK''),
         (''addressLocality'', JStr ''Lahore''), (''addressRegion'', JStr ''Punjab'')]),
      (''contactPoint'', JObj [(''@type'', JStr ''ContactPoint''), (''telephone'', JStr ''+92-300-1234567''),
         (''contactType'', JStr ''customer service''),
         (''availableLanguage'', JArr [JStr ''English'', JStr ''Urdu''])]),
      (''sameAs'', JArr [JStr ''https://facebook.com/sairreit'', JStr ''https://twitter.com/sairreit'',
         JStr ''https://linkedin.com/company/sairreit''])]"

text \<open>The effect's sections, in the order the code runs them.\<close>

definition meta_head :: "seo_props \<Rightarrow> head_elem list \<Rightarrow> head_elem list" where
  "meta_head p h =
     fold (\<lambda>(n, c). updatePropertyTag n c) (og_tags p) (fold (\<lambda>(n, c). updateMetaTag n c) (basic_tags p) h)"

definition article_head :: "seo_props \<Rightarrow> head_elem list \<Rightarrow> head_elem list" where
  "article_head p h =
     (if seo_type p = Article
      then fold (\<lambda>(n, c). updatePropertyTag n c) (article_tags p) h @
           map (MetaProperty ''article:tag'') (seo_tags p)
      else h)"

definition canonical_head :: "seo_props \<Rightarrow> head_elem list \<Rightarrow> head_elem list" where
  "canonical_head p h = upsert (is_link_rel ''canonical'') (LinkRel ''canonical'' (seo_url p)) h"

definition ld_head :: "head_elem list \<Rightarrow> head_elem list" where
  "ld_head h =
     remove_first (is_script_type ''application/ld+json'') h @
     [ScriptElem ''application/ld+json'' (json_stringify structuredData)]"

definition seo_effect :: "seo_props \<Rightarrow> document \<Rightarrow> document" where
  "seo_effect p d =
     \<lparr>doc_title = seo_title p,
      doc_head = ld_head (canonical_head p (article_head p (meta_head p (doc_head d))))\<rparr>"

text \<open>What \<open>document.querySelector(sel)\<close> reads back: the first match's content.\<close>

definition query_meta_name :: "head_elem list \<Rightarrow> string \<Rightarrow> string option" where
  "query_meta_name h n = (case find (is_meta_name n) h of Some (MetaName _ c) \<Rightarrow> Some c | _ \<Rightarrow> None)"

definition query_meta_property :: "head_elem list \<Rightarrow> string \<Rightarrow> string option" where
  "query_meta_property h n =
     (case find (is_meta_property n) h of Some (MetaProperty _ c) \<Rightarrow> Some c | _ \<Rightarrow> None)"

definition query_link_href :: "head_elem list \<Rightarrow> string \<Rightarrow> string option" where
  "query_link_href h r = (case find (is_link_rel r) h of Some (LinkRel _ u) \<Rightarrow> Some u | _ \<Rightarrow> None)"

definition SEOConfigs :: "(string \<times> string \<times> string \<times> string) list" where
  "SEOConfigs =
     [(''home'', ''SAIR REIT - Halal Real Estate Investment Trust'',
       ''Invest in Sharia-compliant real estate with SAIR REIT. Get transparent, asset-backed returns with complete profit sharing. Join thousands of satisfied investors.'',
       ''REIT, real estate investment, halal investment, sharia compliant, property investment, Pakistan real estate, Dubai real estate, Singapore real estate''),
      (''projects'', ''Investment Projects - SAIR REIT'',
       ''Explore our diverse portfolio of real estate investment projects. From luxury apartments to commercial properties, find your perfect halal investment opportunity.'',
       ''real estate projects, investment opportunities, property portfolio, halal investments, Dubai properties, Singapore properties''),
      (''dashboard'', ''Investor Dashboard - SAIR REIT'',
       ''Track your investments, monitor performance, and manage your portfolio with our comprehensive investor dashboard.'',
       ''investor dashboard, portfolio management, investment tracking, performance monitoring''),
      (''education'', ''Investment Education - SAIR REIT'',
       ''Learn about halal investing, real estate markets, and investment strategies with our comprehensive educational resources.'',
       ''investment education, halal investing, real estate education, investment strategies, financial literacy''),
      (''faq'', ''Frequently Asked Questions - SAIR REIT'',
       ''Find answers to common questions about SAIR REIT investments, halal compliance, and real estate investment processes.'',
       ''FAQ, frequently asked questions, investment FAQ, halal investment questions, REIT FAQ''),
      (''aiTools'', ''AI Investment Tools - SAIR REIT'',
       ''Use our advanced AI-powered tools to analyze investments, find properties, and make informed investment decisions.'',
       ''AI tools, investment analysis, property finder, market analysis, investment calculator'')]"

text \<open>\<open><SEOMeta {...SEOConfigs.name} />\<close>: the configuration's fields over the defaults.\<close>

definition seo_config :: "string \<Rightarrow> string \<Rightarrow> seo_props" where
  "seo_config name href =
     (case map_of SEOConfigs name of
        Some (t, d, k) \<Rightarrow> (seo_defaults href)\<lparr>seo_title := t, seo_description := d, seo_keywords := k,
                                             seo_type := Website\<rparr>
      | None \<Rightarrow> seo_defaults href)"

text \<open>
  The pages that mount the component: the home page with the home configuration, the
  not-found page with its own title and description. The other pages mount none.
\<close>

fun page_seo :: "page \<Rightarrow> string \<Rightarrow> seo_props option" where
  "page_seo HomePage href = Some (seo_config ''home'' href)"
| "page_seo NotFoundPage href =
     Some ((seo_defaults href)\<lparr>seo_title := ''Page Not Found - SAIR REIT'',
       seo_description := ''The page you're looking for doesn't exist. Explore our investment opportunities and find your perfect halal investment.'',
       seo_type := Website\<rparr>)"
| "page_seo _ href = None"

text \<open>Visiting a location renders its page; a mounted \<open>SEOMeta\<close> runs its effect.\<close>

definition visit :: "string \<Rightarrow> string \<Rightarrow> document \<Rightarrow> document" where
  "visit origin loc d =
     (case page_seo (route_page loc) (origin @ loc) of Some p \<Rightarrow> seo_effect p d | None \<Rightarrow> d)"

text \<open>A selector family: an element matches at most one key, and a new element its own.\<close>

definition selector :: "('k \<Rightarrow> 'a \<Rightarrow> bool) \<Rightarrow> ('k \<Rightarrow> 'v \<Rightarrow> 'a) \<Rightarrow> bool" where
  "selector sel mk \<longleftrightarrow> (\<forall>n m x. sel n x \<longrightarrow> sel m x \<longrightarrow> n = m) \<and> (\<forall>n m c. sel n (mk m c) \<longleftrightarrow> n = m)"

text \<open>
  The head after \<open>upsert\<close>, \<open>remove_first\<close> and a fold of upserts: last write wins
  for the updated key, every other selector and count is untouched.
\<close>

lemma find_upsert: "P new \<Longrightarrow> find P (upsert P new xs) = Some new"
  by (induction xs) auto

lemma upsert_found: "find P xs = Some new \<Longrightarrow> upsert P new xs = xs"
  by (induction xs) (auto split: if_splits)

lemma find_upsert_other:
  "(\<And>x. Q x \<Longrightarrow> \<not> P x) \<Longrightarrow> \<not> P new \<Longrightarrow> find P (upsert Q new xs) = find P xs"
  by (induction xs) auto

lemma filter_upsert_other:
  "(\<And>x. Q x \<Longrightarrow> \<not> R x) \<Longrightarrow> \<not> R new \<Longrightarrow> filter R (upsert Q new xs) = filter R xs"
  by (induction xs) auto

lemma filter_remove_first_other:
  "(\<And>x. Q x \<Longrightarrow> \<not> R x) \<Longrightarrow> filter R (remove_first Q xs) = filter R xs"
  by (induction xs) auto

lemma find_remove_first_other:
  "(\<And>x. Q x \<Longrightarrow> \<not> P x) \<Longrightarrow> find P (remove_first Q xs) = find P xs"
  by (induction xs) auto

lemma remove_first_none: "filter P xs = [] \<Longrightarrow> remove_first P xs = xs"
  by (induction xs) auto

lemma filter_remove_first_le_one:
  "length (filter P xs) \<le> 1 \<Longrightarrow> filter P (remove_first P xs) = []"
  by (induction xs) (auto simp: filter_empty_conv split: if_splits)

lemma find_upsert_sel:
  assumes "selector sel mk"
  shows "find (sel m) (upsert (sel n) (mk n c) xs) = (if m = n then Some (mk n c) else find (sel m) xs)"
proof (cases "m = n")
  case True
  then show ?thesis using assms by (simp add: find_upsert selector_def)
next
  case False
  then show ?thesis using assms by (auto simp: selector_def intro!: find_upsert_other)
qed

lemma find_fold_upsert:
  assumes "selector sel mk"
  shows "find (sel m) (fold (\<lambda>(n, c). upsert (sel n) (mk n c)) kvs xs) =
    (case map_of (rev kvs) m of Some c \<Rightarrow> Some (mk m c) | None \<Rightarrow> find (sel m) xs)"
  by (induction kvs arbitrary: xs) (auto simp: find_upsert_sel [OF assms] map_of_append split: option.splits)

lemma fold_upsert_found:
  "(\<forall>(n, c)\<in>set kvs. find (sel n) xs = Some (mk n c)) \<Longrightarrow>
     fold (\<lambda>(n, c). upsert (sel n) (mk n c)) kvs xs = xs"
  by (induction kvs) (auto simp: upsert_found)

lemma map_of_rev_distinct: "distinct (map fst kvs) \<Longrightarrow> (n, c) \<in> set kvs \<Longrightarrow> map_of (rev kvs) n = Some c"
  by (simp add: map_of_is_SomeI rev_map [symmetric])

lemma selector_meta_name: "selector is_meta_name MetaName"
  by (auto simp: selector_def elim: is_meta_name.elims)

lemma selector_meta_property: "selector is_meta_property MetaProperty"
  by (auto simp: selector_def elim: is_meta_property.elims)


lemma find_fold_upsert_other:
  "(\<And>k x. Q k x \<Longrightarrow> \<not> P x) \<Longrightarrow> (\<And>k c. \<not> P (mk k c)) \<Longrightarrow>
     find P (fold (\<lambda>(n, c). upsert (Q n) (mk n c)) kvs xs) = find P xs"
  by (induction kvs arbitrary: xs) (auto simp: find_upsert_other)

lemma filter_fold_upsert_other:
  "(\<And>k c x. (k, c) \<in> set kvs \<Longrightarrow> Q k x \<Longrightarrow> \<not> R x) \<Longrightarrow> (\<And>k c. (k, c) \<in> set kvs \<Longrightarrow> \<not> R (mk k c)) \<Longrightarrow>
     filter R (fold (\<lambda>(n, c). upsert (Q n) (mk n c)) kvs xs) = filter R xs"
proof (induction kvs arbitrary: xs)
  case (Cons kv kvs)
  obtain k c where kv: "kv = (k, c)" by fastforce
  have ih: "filter R (fold (\<lambda>(n, c). upsert (Q n) (mk n c)) kvs ys) = filter R ys" for ys
    using Cons.prems by (intro Cons.IH) auto
  have "filter R (upsert (Q k) (mk k c) xs) = filter R xs"
    using Cons.prems kv by (intro filter_upsert_other) auto
  then show ?case using ih kv by simp
qed simp

lemma find_append_found: "find P xs = Some x \<Longrightarrow> find P (xs @ ys) = Some x"
  by (induction xs) auto

lemmas head_upserts = updateMetaTag_def [abs_def] updatePropertyTag_def [abs_def]

lemma meta_head_name:
  assumes "(n, c) \<in> set (basic_tags p)"
  shows "find (is_meta_name n) (meta_head p h) = Some (MetaName n c)"
proof -
  have "find (is_meta_name n) (fold (\<lambda>(n, c). updateMetaTag n c) (basic_tags p) h) = Some (MetaName n c)"
    using assms map_of_rev_distinct [of "basic_tags p"]
    by (simp add: head_upserts find_fold_upsert [OF selector_meta_name]) (simp add: basic_tags_def)
  then show ?thesis
    unfolding meta_head_def head_upserts
    by (subst find_fold_upsert_other) (auto elim: is_meta_property.elims)
qed

lemma meta_head_property:
  assumes "(n, c) \<in> set (og_tags p)"
  shows "find (is_meta_property n) (meta_head p h) = Some (MetaProperty n c)"
  using assms map_of_rev_distinct [of "og_tags p"]
  by (simp add: meta_head_def head_upserts find_fold_upsert [OF selector_meta_property]) (simp add: og_tags_def)


lemma article_head_name:
  assumes "find (is_meta_name n) h = Some x"
  shows "find (is_meta_name n) (article_head p h) = Some x"
proof -
  have "find (is_meta_name n) (fold (\<lambda>(k, c). upsert (is_meta_property k) (MetaProperty k c)) kvs h) =
      find (is_meta_name n) h" for kvs
    by (rule find_fold_upsert_other; auto elim: is_meta_property.elims)
  then show ?thesis using assms unfolding article_head_def head_upserts by (auto intro!: find_append_found)
qed

lemma article_head_property:
  assumes "(n, c) \<in> set (og_tags p)" and "find (is_meta_property n) h = Some x"
  shows "find (is_meta_property n) (article_head p h) = Some x"
proof -
  have "map_of (rev (article_tags p)) n = None"
    using assms(1) by (auto simp: og_tags_def article_tags_def)
  then show ?thesis using assms(2)
    unfolding article_head_def head_upserts
    by (auto intro!: find_append_found simp: find_fold_upsert [OF selector_meta_property])
qed

lemma canonical_head_name: "find (is_meta_name n) (canonical_head p h) = find (is_meta_name n) h"
  unfolding canonical_head_def by (rule find_upsert_other; auto elim: is_link_rel.elims)

lemma canonical_head_property:
  "find (is_meta_property n) (canonical_head p h) = find (is_meta_property n) h"
  unfolding canonical_head_def by (rule find_upsert_other; auto elim: is_link_rel.elims)

lemma ld_head_found:
  "(\<And>x. is_script_type ''application/ld+json'' x \<Longrightarrow> \<not> P x) \<Longrightarrow> find P h = Some x \<Longrightarrow>
     find P (ld_head h) = Some x"
  unfolding ld_head_def by (simp add: find_remove_first_other find_append_found)

lemma seo_effect_canonical:
  "query_link_href (doc_head (seo_effect p d)) ''canonical'' = Some (seo_url p)"
proof -
  have c: "find (is_link_rel ''canonical'') (canonical_head p h) = Some (LinkRel ''canonical'' (seo_url p))" for h
    by (simp add: canonical_head_def find_upsert)
  have "\<And>x. is_script_type ''application/ld+json'' x \<Longrightarrow> \<not> is_link_rel ''canonical'' x"
    by (auto elim: is_script_type.elims)
  from ld_head_found [OF this c] show ?thesis by (simp add: seo_effect_def query_link_href_def)
qed

lemma ld_head_single:
  "length (filter (is_script_type ''application/ld+json'') h) \<le> 1 \<Longrightarrow>
     filter (is_script_type ''application/ld+json'') (ld_head h) =
       [ScriptElem ''application/ld+json'' (json_stringify structuredData)]"
  unfolding ld_head_def by (simp add: filter_remove_first_le_one)

lemma stages_keep_ld:
  "filter (is_script_type t) (canonical_head p (article_head p (meta_head p h))) =
     filter (is_script_type t) h"
proof -
  have n: "filter (is_script_type t) (fold (\<lambda>(k, c). upsert (is_meta_name k) (MetaName k c)) kvs h') =
      filter (is_script_type t) h'" for kvs h'
    by (rule filter_fold_upsert_other; auto elim: is_meta_name.elims)
  have p: "filter (is_script_type t) (fold (\<lambda>(k, c). upsert (is_meta_property k) (MetaProperty k c)) kvs h') =
      filter (is_script_type t) h'" for kvs h'
    by (rule filter_fold_upsert_other; auto elim: is_meta_property.elims)
  have l: "filter (is_script_type t) (upsert (is_link_rel r) (LinkRel r u) h') = filter (is_script_type t) h'"
    for r u h'
    by (rule filter_upsert_other; auto elim: is_link_rel.elims)
  show ?thesis
    unfolding canonical_head_def article_head_def meta_head_def head_upserts by (simp add: n p l)
qed


lemma filter_map_article_tag:
  "filter (is_meta_property ''article:tag'') (map (MetaProperty ''article:tag'') ts) = map (MetaProperty ''article:tag'') ts"
  by (induction ts) simp_all

lemma seo_effect_article_tags:
  assumes "seo_type p = Article"
  shows "filter (is_meta_property ''article:tag'') (doc_head (seo_effect p d)) =
    filter (is_meta_property ''article:tag'') (doc_head d) @ map (MetaProperty ''article:tag'') (seo_tags p)"
proof -
  let ?R = "is_meta_property ''article:tag''"
  have b: "filter ?R (fold (\<lambda>(k, c). upsert (is_meta_name k) (MetaName k c)) (basic_tags p) h) = filter ?R h" for h
    by (rule filter_fold_upsert_other; auto elim: is_meta_name.elims)
  have o: "filter ?R (fold (\<lambda>(k, c). upsert (is_meta_property k) (MetaProperty k c)) (og_tags p) h) = filter ?R h"
    for h
    by (rule filter_fold_upsert_other; auto simp: og_tags_def elim: is_meta_property.elims)
  have a: "filter ?R (fold (\<lambda>(k, c). upsert (is_meta_property k) (MetaProperty k c)) (article_tags p) h) =
      filter ?R h" for h
    by (rule filter_fold_upsert_other; auto simp: article_tags_def split: if_splits elim: is_meta_property.elims)
  have c: "filter ?R (canonical_head p h) = filter ?R h" for h
    unfolding canonical_head_def by (rule filter_upsert_other; auto elim: is_link_rel.elims)
  have r: "filter ?R (remove_first (is_script_type ''application/ld+json'') h) = filter ?R h" for h
    by (rule filter_remove_first_other; auto elim: is_script_type.elims)
  have l: "filter ?R (ld_head h) = filter ?R h" for h
    unfolding ld_head_def by (simp add: r)
  show ?thesis using assms
    by (simp add: seo_effect_def l c article_head_def meta_head_def head_upserts a o b filter_map_article_tag)
qed

lemma concat_replicate_snoc: "concat (replicate n xs) @ xs = xs @ concat (replicate n xs)"
  by (induction n) simp_all

text \<open>
  C24. After the effect has run on a head with at most one JSON-LD script, the title,
  the three basic meta tags, the ten Open Graph and Twitter tags and the canonical link
  each read back the value the props give, and the head holds exactly one JSON-LD
  script, the organisation's.
\<close>

theorem seo_effect_sets_head:
  assumes "length (filter (is_script_type ''application/ld+json'') (doc_head d)) \<le> 1"
  shows "doc_title (seo_effect p d) = seo_title p \<and>
    (\<forall>(n, c)\<in>set (basic_tags p). query_meta_name (doc_head (seo_effect p d)) n = Some c) \<and>
    (\<forall>(n, c)\<in>set (og_tags p). query_meta_property (doc_head (seo_effect p d)) n = Some c) \<and>
    query_link_href (doc_head (seo_effect p d)) ''canonical'' = Some (seo_url p) \<and>
    filter (is_script_type ''application/ld+json'') (doc_head (seo_effect p d)) =
      [ScriptElem ''application/ld+json'' (json_stringify structuredData)]"
proof -
  let ?h = "canonical_head p (article_head p (meta_head p (doc_head d)))"
  have ld_name: "\<And>x. is_script_type ''application/ld+json'' x \<Longrightarrow> \<not> is_meta_name n x" for n
    by (auto elim: is_script_type.elims)
  have ld_prop: "\<And>x. is_script_type ''application/ld+json'' x \<Longrightarrow> \<not> is_meta_property n x" for n
    by (auto elim: is_script_type.elims)
  have names: "query_meta_name (doc_head (seo_effect p d)) n = Some c" if "(n, c) \<in> set (basic_tags p)" for n c
  proof -
    have "find (is_meta_name n) ?h = Some (MetaName n c)"
      using article_head_name [OF meta_head_name [OF that]] by (simp add: canonical_head_name)
    then show ?thesis by (simp add: seo_effect_def query_meta_name_def ld_head_found [OF ld_name])
  qed
  have props: "query_meta_property (doc_head (seo_effect p d)) n = Some c" if "(n, c) \<in> set (og_tags p)" for n c
  proof -
    have "find (is_meta_property n) ?h = Some (MetaProperty n c)"
      using article_head_property [OF that meta_head_property [OF that]] by (simp add: canonical_head_property)
    then show ?thesis by (simp add: seo_effect_def query_meta_property_def ld_head_found [OF ld_prop])
  qed
  have "filter (is_script_type ''application/ld+json'') (doc_head (seo_effect p d)) =
      [ScriptElem ''application/ld+json'' (json_stringify structuredData)]"
    using assms by (simp add: seo_effect_def ld_head_single stages_keep_ld)
  then show ?thesis using names props seo_effect_canonical by (auto simp: seo_effect_def)
qed

theorem seo_effect_sets_head_witness:
  "query_meta_name (doc_head (seo_effect (seo_config ''home'' ''https://sairreit.com/'')
      \<lparr>doc_title = [], doc_head = []\<rparr>)) ''keywords'' =
     Some ''REIT, real estate investment, halal investment, sharia compliant, property investment, Pakistan real estate, Dubai real estate, Singapore real estate''"
proof -
  let ?p = "seo_config ''home'' ''https://sairreit.com/''"
  let ?d = "\<lparr>doc_title = [], doc_head = []\<rparr> :: document"
  have h: "length (filter (is_script_type ''application/ld+json'') (doc_head ?d)) \<le> 1" by simp
  have "\<forall>(n, c)\<in>set (basic_tags ?p). query_meta_name (doc_head (seo_effect ?p ?d)) n = Some c"
    using seo_effect_sets_head [of ?d ?p, OF h] by blast
  moreover have "(''keywords'', seo_keywords ?p) \<in> set (basic_tags ?p)" by (simp add: basic_tags_def)
  ultimately have "query_meta_name (doc_head (seo_effect ?p ?d)) ''keywords'' = Some (seo_keywords ?p)"
    by blast
  then show ?thesis by (simp add: seo_config_def SEOConfigs_def)
qed

text \<open>
  C33. For an article (\<open>type = "article"\<close>) every run of the effect appends one
  \<open>article:tag\<close> element per tag and never removes the earlier ones: after \<open>n\<close> runs
  the head holds every tag \<open>n\<close> times over.
\<close>

theorem article_tags_accumulate:
  assumes "seo_type p = Article"
  shows "filter (is_meta_property ''article:tag'') (doc_head ((seo_effect p ^^ n) d)) =
    filter (is_meta_property ''article:tag'') (doc_head d) @
    concat (replicate n (map (MetaProperty ''article:tag'') (seo_tags p)))"
  using assms by (induction n) (simp_all add: seo_effect_article_tags concat_replicate_snoc)

theorem article_tags_accumulate_witness:
  "filter (is_meta_property ''article:tag'')
     (doc_head ((seo_effect ((seo_defaults ''/blog'')\<lparr>seo_type := Article, seo_tags := [''halal'']\<rparr>) ^^ 2)
       \<lparr>doc_title = [], doc_head = []\<rparr>)) =
   [MetaProperty ''article:tag'' ''halal'', MetaProperty ''article:tag'' ''halal'']"
  using article_tags_accumulate [of "(seo_defaults ''/blog'')\<lparr>seo_type := Article, seo_tags := [''halal'']\<rparr>" 2
      "\<lparr>doc_title = [], doc_head = []\<rparr>"]
  by (simp add: numeral_2_eq_2)

end
