(* ===== verification/Charts.thy ===== *)
theory Charts
  imports ProjectCard
begin

text \<open>
  The dashboard's chart and table components: \<open>components/common/interactive-charts.tsx\<close>
  (a pie chart of the portfolio with its legend, an area chart of the monthly returns,
  a bar chart of the projects' funding, all with one custom tooltip) and
  \<open>components/common/dashboard-widget.tsx\<close> (the recent-transactions table). Drawing
  is not modelled; what is modelled is every text the components compute. The chart
  library (recharts) is modelled from its documentation: a tooltip's \<open>content\<close>
  element receives \<open>active\<close>, \<open>payload\<close> (one entry per series at the hovered point,
  named by the series' \<open>dataKey\<close>, or by the slice's name in a pie) and \<open>label\<close>; a pie
  label receives \<open>percent\<close>, the slice's share of the total. \<open>Number.prototype.toLocaleString()\<close>
  is the en-US format with at most three fraction digits, rounding half away from
  zero; the infinity sign is written in UTF-8, as strings are byte lists.
\<close>

subsection \<open>Number formatting\<close>

text \<open>\<open>x.toFixed(0)\<close>: the nearest integer, the larger one on a tie, with the sign of \<open>x\<close>.\<close>

fun js_toFixed0 :: "jsnum \<Rightarrow> string option" where
  "js_toFixed0 NaN = Some ''NaN''"
| "js_toFixed0 PosInf = Some ''Infinity''"
| "js_toFixed0 NegInf = Some ''-Infinity''"
| "js_toFixed0 (Fin x) =
     (if 10 ^ 21 \<le> \<bar>x\<bar> then None
      else Some ((if x < 0 then ''-'' else []) @ nat_digits (nat \<lfloor>\<bar>x\<bar> + 1 / 2\<rfloor>)))"

definition strip_trailing_zeros :: "string \<Rightarrow> string" where
  "strip_trailing_zeros s = rev (dropWhile (\<lambda>c. c = CHR ''0'') (rev s))"

text \<open>The fraction part of a value scaled by 1000: nothing when it is zero.\<close>

definition locale_fraction :: "nat \<Rightarrow> string" where
  "locale_fraction f =
     (if f = 0 then []
      else ''.'' @ strip_trailing_zeros (replicate (3 - length (nat_digits f)) CHR ''0'' @ nat_digits f))"

definition infinity_sign :: string where
  "infinity_sign = [CHR 0xE2, CHR 0x88, CHR 0x9E]"

fun js_num_toLocaleString :: "jsnum \<Rightarrow> string" where
  "js_num_toLocaleString NaN = ''NaN''"
| "js_num_toLocaleString PosInf = infinity_sign"
| "js_num_toLocaleString NegInf = ''-'' @ infinity_sign"
| "js_num_toLocaleString (Fin q) =
     (let n = nat \<lfloor>\<bar>q\<bar> * 1000 + 1 / 2\<rfloor> in
      (if q < 0 then ''-'' else []) @ locale_nat (n div 1000) @ locale_fraction (n mod 1000))"

subsection \<open>The charts\<close>

text \<open>\<open>CustomTooltip\<close>: the label and one line per payload entry.\<close>

definition tooltip_line :: "string \<times> jsnum \<Rightarrow> string" where
  "tooltip_line e =
     fst e @ '': '' @ js_num_toLocaleString (snd e) @
     (if js_includes (fst e) ''returns'' \<or> js_includes (fst e) ''ROI'' then ''%'' else [])"

definition CustomTooltip :: "bool \<Rightarrow> (string \<times> jsnum) list \<Rightarrow> string \<Rightarrow> (string \<times> string list) option" where
  "CustomTooltip active payload label =
     (if active \<and> payload \<noteq> [] then Some (label, map tooltip_line payload) else None)"

definition pie_payload :: "chart_slice \<Rightarrow> (string \<times> jsnum) list" where
  "pie_payload s = [(ch_name s, Fin (of_nat (ch_value s)))]"

definition area_payload :: "perf_point \<Rightarrow> (string \<times> jsnum) list" where
  "area_payload pt = [(''returns'', Fin (pf_returns pt))]"

definition bar_payload :: "project_chart \<Rightarrow> (string \<times> jsnum) list" where
  "bar_payload pc = [(''funded'', Fin (of_int (pc_funded pc))), (''target'', Fin (of_int (pc_target pc)))]"

text \<open>\<open>renderCustomizedLabel\<close>: the slice's share of the total, in percent, no decimals.\<close>

definition pie_label :: "chart_slice list \<Rightarrow> chart_slice \<Rightarrow> string option" where
  "pie_label ss s =
     map_option (\<lambda>t. t @ ''%'')
       (js_toFixed0 (js_mul (js_div (Fin (of_nat (ch_value s))) (Fin (of_nat (sum_list (map ch_value ss))))) (Fin 100)))"

text \<open>The legend beside the pie: \<open>{item.value}%\<close>.\<close>

definition pie_legend :: "chart_slice \<Rightarrow> string" where
  "pie_legend s = nat_digits (ch_value s) @ ''%''"

text \<open>The bar chart's y-axis \<open>tickFormatter\<close>, and the \<open>formatter\<close> given to its tooltip.\<close>

definition bar_tick :: "jsnum \<Rightarrow> string option" where
  "bar_tick v = map_option (\<lambda>t. ''$'' @ t @ ''M'') (js_toFixed1 (js_div v (Fin 1000000)))"

definition bar_formatter :: "jsnum \<Rightarrow> string \<Rightarrow> string option \<times> string" where
  "bar_formatter v name =
     (if name = ''funded'' then bar_tick v
      else if name = ''target'' then bar_tick v
      else map_option (\<lambda>t. t @ ''%'') (js_num_toString v),
      if name = ''funded'' then ''Funded'' else if name = ''target'' then ''Target'' else ''ROI'')"

subsection \<open>The recent-transactions table\<close>

definition widget_statusColors :: "(string \<times> string) list" where
  "widget_statusColors =
     [(''ACTIVE'', ''bg-light-mint text-navy''), (''FUNDING'', ''bg-electric-violet text-white''),
      (''COMPLETE'', ''bg-neon-cyan text-navy'')]"

record tx_row =
  tr_project :: string
  tr_date :: string
  tr_amount :: string
  tr_return :: string
  tr_status :: string
  tr_badge :: "string option"

definition DashboardWidget :: "recent_tx list \<Rightarrow> tx_row list" where
  "DashboardWidget txs =
     map (\<lambda>t. \<lparr>tr_project = rt_project t, tr_date = rt_date t,
               tr_amount = ''$'' @ js_num_toLocaleString (Fin (of_int (rt_amount t))),
               tr_return = rt_return t, tr_status = rt_status t,
               tr_badge = map_of widget_statusColors (rt_status t)\<rparr>) txs"

subsection \<open>Properties\<close>

lemma nat_digits_dec: "set (nat_digits n) \<subseteq> Collect is_dec"
  using nat_digits_props [of n] by (auto simp: list_all_iff)

lemma is_dec_zero: "is_dec CHR ''0''"
  by code_simp

lemma locale_nat_chars: "set (locale_nat n) \<subseteq> Collect is_dec \<union> {CHR '',''}"
proof (induction n rule: locale_nat.induct)
  case (1 n)
  show ?case
  proof (cases "n < 1000")
    case True
    then show ?thesis using nat_digits_dec [of n] by (subst locale_nat.simps) auto
  next
    case False
    then show ?thesis using 1 nat_digits_dec [of "n mod 1000"] is_dec_zero
      by (subst locale_nat.simps) (auto simp: Let_def)
  qed
qed

lemma strip_trailing_zeros_subset: "set (strip_trailing_zeros s) \<subseteq> set s"
  by (auto simp: strip_trailing_zeros_def dest: set_dropWhileD)

lemma locale_fraction_chars: "set (locale_fraction f) \<subseteq> Collect is_dec \<union> {CHR ''.''}"
  using nat_digits_dec [of f] strip_trailing_zeros_subset
    [of "replicate (3 - length (nat_digits f)) CHR ''0'' @ nat_digits f"]
  by (auto simp: locale_fraction_def is_dec_zero)

lemma dollar_not_dec: "\<not> is_dec CHR ''$''"
  by code_simp

lemma toLocaleString_no_dollar: "CHR ''$'' \<notin> set (js_num_toLocaleString x)"
proof (cases x)
  case (Fin q)
  then show ?thesis
    using locale_nat_chars [of "nat \<lfloor>\<bar>q\<bar> * 1000 + 1 / 2\<rfloor> div 1000"]
      locale_fraction_chars [of "nat \<lfloor>\<bar>q\<bar> * 1000 + 1 / 2\<rfloor> mod 1000"] dollar_not_dec
    by (auto simp: Let_def)
qed (simp_all add: infinity_sign_def)

lemma js_num_toLocaleString_int:
  "js_num_toLocaleString (Fin (of_int i)) = (if i < 0 then ''-'' else []) @ locale_nat (nat \<bar>i\<bar>)"
proof -
  have f: "\<lfloor>\<bar>(of_int i :: rat)\<bar> * 1000 + 1 / 2\<rfloor> = \<bar>i\<bar> * 1000"
    by (rule floor_unique) simp_all
  have "nat (\<bar>i\<bar> * 1000) div 1000 = nat \<bar>i\<bar>" "nat (\<bar>i\<bar> * 1000) mod 1000 = 0"
    by (simp_all add: nat_mult_distrib)
  then show ?thesis by (simp only: js_num_toLocaleString.simps Let_def f) (simp add: locale_fraction_def)
qed

lemma toLocaleString_agrees:
  assumes "js_toLocaleString x = Some s"
  shows "js_num_toLocaleString x = s"
proof -
  obtain q where x: "x = Fin q" and q: "of_int \<lfloor>q\<rfloor> = q"
    and s: "s = (if q < 0 then ''-'' else []) @ locale_nat (nat \<bar>\<lfloor>q\<rfloor>\<bar>)"
    using assms by (auto simp: js_toLocaleString_def split: jsnum.splits if_splits)
  have "(q < 0) = (\<lfloor>q\<rfloor> < 0)" by (simp add: floor_less_zero)
  then show ?thesis
    using js_num_toLocaleString_int [of "\<lfloor>q\<rfloor>"] by (simp add: x s q)
qed

text \<open>
  The transactions table: every mock transaction's status has a badge colour, and the
  amounts read in dollars with thousands separators.
\<close>

lemma widget_mock_rows:
  "map tr_amount (DashboardWidget mockRecentTransactions) = [''$5,000'', ''$7,500'', ''$12,000''] \<and>
   None \<notin> set (map tr_badge (DashboardWidget mockRecentTransactions))"
proof -
  have "js_num_toLocaleString (Fin 5000) = ''5,000''" "js_num_toLocaleString (Fin 7500) = ''7,500''"
    "js_num_toLocaleString (Fin 12000) = ''12,000''"
    using js_num_toLocaleString_int [of 5000] js_num_toLocaleString_int [of 7500]
      js_num_toLocaleString_int [of 12000]
    by (simp_all add: locale_nat.simps nat_digits.simps char_of_digits replicate_small)
  then show ?thesis
    by (simp add: DashboardWidget_def mockRecentTransactions_def widget_statusColors_def
        del: js_num_toLocaleString.simps)
qed

text \<open>
  C10. When the portfolio's values add up to 100, every slice's label on the pie
  (its share of the total, in percent, from the chart library) is the text of its
  legend entry (its raw value followed by "%").
\<close>

theorem pie_labels_match_legend:
  assumes "sum_list (map ch_value ss) = 100" and "s \<in> set ss"
  shows "pie_label ss s = Some (pie_legend s)"
proof -
  have le: "ch_value s \<le> 100"
    using assms member_le_sum_list [of "ch_value s" "map ch_value ss"] by simp
  have "\<lfloor>\<bar>(of_nat (ch_value s) :: rat)\<bar> + 1 / 2\<rfloor> = int (ch_value s)"
    by (simp add: floor_unique)
  moreover have "\<bar>(of_nat (ch_value s) :: rat)\<bar> < 10 ^ 21"
    using le by simp
  ultimately show ?thesis using assms(1)
    by (simp add: pie_label_def pie_legend_def js_eval)
qed

theorem pie_labels_match_legend_witness:
  "map (pie_label portfolioData) portfolioData = map (Some \<circ> pie_legend) portfolioData"
proof -
  have s: "sum_list (map ch_value portfolioData) = 100" by (simp add: portfolioData_def)
  show ?thesis using pie_labels_match_legend [OF s] by simp
qed

text \<open>
  C36. The funding chart's tooltip ignores the \<open>formatter\<close> it is given: hovering a
  project shows "funded: " and "target: " with the raw amounts in locale format, never
  the "$x.xM" the formatter would print.
\<close>

theorem bar_tooltip_raw_amounts:
  "\<exists>f t. CustomTooltip True (bar_payload pc) l = Some (l, [''funded: '' @ f, ''target: '' @ t]) \<and>
     f = js_num_toLocaleString (Fin (of_int (pc_funded pc))) \<and> CHR ''$'' \<notin> set f \<and>
     t = js_num_toLocaleString (Fin (of_int (pc_target pc))) \<and> CHR ''$'' \<notin> set t \<and>
     fst (bar_formatter (Fin (of_int (pc_funded pc))) ''funded'') = bar_tick (Fin (of_int (pc_funded pc)))"
proof -
  have "\<not> js_includes ''funded'' ''returns''" "\<not> js_includes ''funded'' ''ROI''"
    "\<not> js_includes ''target'' ''returns''" "\<not> js_includes ''target'' ''ROI''"
    by code_simp+
  then show ?thesis
    by (simp add: CustomTooltip_def bar_payload_def tooltip_line_def toLocaleString_no_dollar
        bar_formatter_def del: js_num_toLocaleString.simps)
qed

end
