(* ===== verification/HomePage.thy ===== *)
theory HomePage
  imports TestimonialSlider ProjectsPage
begin

text \<open>
  The home page (\<open>src/client/src/pages/home.tsx\<close>): its static feature, statistics and
  achievement lists, the first three fetched projects, the "Featured Local Projects"
  (\<open>customProjects\<close> of \<open>lib/custom-projects\<close>, a module the repository does not
  contain, so here a parameter), and the testimonial carousel of theory
  TestimonialSlider fed with the fetched testimonials. Both queries default their data
  to \<open>[]\<close> (\<open>query_data\<close>), so a page whose fetch is pending or failed shows no project
  and an empty carousel.
\<close>

definition query_data :: "'a list query \<Rightarrow> 'a list" where
  "query_data q = (case q of QSuccess xs \<Rightarrow> xs | _ \<Rightarrow> [])"

definition home_features :: "(string \<times> string) list" where
  "home_features =
     [(''Halal Income'', ''Sharia-compliant investments ensuring your wealth grows through ethical means.''),
      (''Asset-Backed ROI'', ''Real estate assets providing tangible value and consistent returns.''),
      (''Transparent Sharing'', ''Complete transparency in profit distribution and investment allocation.''),
      (''Real-Time Tracking'', ''Monitor your investments with live updates and detailed analytics.'')]"

definition home_stats :: "(string \<times> string) list" where
  "home_stats =
     [(''Total Investors'', ''2,847''), (''Properties Owned'', ''156''), (''Average ROI'', ''18.5%''),
      (''Years Experience'', ''8+'')]"

definition home_achievements :: "(string \<times> string) list" where
  "home_achievements =
     [(''Best REIT Platform 2024'', ''Awarded by Financial Times''),
      (''100% Halal Certified'', ''Sharia compliance verified''),
      (''24/7 Support'', ''Round-the-clock assistance''),
      (''Zero Hidden Fees'', ''Complete transparency'')]"

record home_display =
  hd_stats :: "(string \<times> string) list"
  hd_features :: "(string \<times> string) list"
  hd_achievements :: "(string \<times> string) list"
  hd_featured :: "project list"
  hd_local :: "project list"
  hd_slider :: slider_view

text \<open>
  The page as rendered; \<open>None\<close> when a component it contains does not finish rendering.
  The carousel starts on page 0.
\<close>

definition home_view ::
  "project list query \<Rightarrow> testimonial list query \<Rightarrow> project list \<Rightarrow> home_display option" where
  "home_view pq tq customProjects =
     map_option
       (\<lambda>sv. \<lparr>hd_stats = home_stats, hd_features = home_features, hd_achievements = home_achievements,
              hd_featured = js_slice (query_data pq) 0 3, hd_local = customProjects, hd_slider = sv\<rparr>)
       (slider_view 0 (query_data tq))"

text \<open>
  Whatever its two queries return, and while they are pending, the home page renders:
  the first three fetched projects in the order fetched, the local projects, and a
  carousel that shows "no testimonials" until testimonials arrive.
\<close>

lemma home_view_renders:
  "\<exists>sv. home_view pq tq cps =
     Some \<lparr>hd_stats = home_stats, hd_features = home_features, hd_achievements = home_achievements,
           hd_featured = take 3 (query_data pq), hd_local = cps, hd_slider = sv\<rparr> \<and>
     (query_data tq = [] \<longrightarrow> sv = NoTestimonials)"
proof (cases "query_data tq = []")
  case True
  then show ?thesis by (simp add: home_view_def slider_view_def js_slice_def)
next
  case False
  then obtain v where "visibleTestimonials 0 (query_data tq) = Some v"
    using fill_visible_Some [OF False] by (auto simp: visibleTestimonials_def Let_def)
  then show ?thesis using False by (auto simp: home_view_def slider_view_def js_slice_def)
qed

end
