(* ===== verification/Spec2Isabelle.thy ===== *)
theory Spec2Isabelle
  imports Dashboard ProjectFilter Routes InvestorAITools TestimonialSlider FaqPage ProjectCard Navigation
    ProjectsPage SeoMeta Charts HomePage
begin

text \<open>
  A verification development of the SAIR REIT web application (the repository's
  \<open>src/\<close>): an Express server with two storage backends behind one interface and four
  JSON routes, and a React client whose pages fetch, filter, compute and display the
  stored data. The model is a shallow embedding: each part of the code is a HOL
  definition of the same name where Isabelle allows it, executable, and the lemmas
  below and in the component theories state what the code does.

  \<^bold>\<open>Parts and theories.\<close>
  \<^item> JavaScript built-ins the code relies on, modelled from the ECMAScript
    specification: theory JsNumber (the Number type as \<open>Fin rat | PosInf | NegInf | NaN\<close>
    with \<open>+ - * /\<close>, \<open>Math.floor\<close>, \<open>isNaN\<close>, the relational operators, \<open>toFixed(1)\<close>,
    \<open>x || 0\<close>); JsString (\<open>toLowerCase\<close>, \<open>includes\<close>, \<open>startsWith\<close>, \<open>trim\<close>,
    \<open>parseFloat\<close>, \<open>parseInt\<close>, \<open>Number(string)\<close>); JsSort (\<open>Array.prototype.sort\<close> as a
    stable insertion sort driven by the comparator's sign); JsMap (a \<open>Map<number, V>\<close>
    as an association list in insertion order, its key lookup, the keyed-table
    invariant).
  \<^item> The schema \<open>src/shared/schema.ts\<close>: theory Schema (the \<open>projects\<close> row) and
    Tables (the other nine tables, the insert types, the three-valued \<open>nullish\<close>
    property of an insert body).
  \<^item> The storage interface \<open>IStorage\<close> (\<open>src/server/storage.ts\<close> 7--32): theory
    StorageApi, a request/response datatype and the step-function type
    \<open>'s storage\<close> both backends implement; \<open>Partial<Project>\<close> and its spread.
  \<^item> \<open>MemStorage\<close> (\<open>storage.ts\<close> 34--542): theory MemStorage, the state record, the
    seeded constructor and the fifteen methods, each a function of the state
    (\<open>new Date()\<close> is the argument \<open>now\<close>), and \<open>mem_exec\<close> dispatching requests.
  \<^item> \<open>DbStorage\<close> (\<open>src/server/db-storage.ts\<close>, over \<open>src/server/db.ts\<close>): theory
    DbStorage, an inductive step relation over the tables and sequences, since an
    unordered \<open>SELECT\<close> may return the rows in any order; inserts fill column defaults,
    and PostgreSQL's constraint violations and rejected integer parameters are error
    results.
  \<^item> Backend selection (\<open>storage.ts\<close> 547 with \<open>db.ts\<close>): theory StorageSelect.
  \<^item> \<open>GET /api/dashboard/stats\<close> (\<open>src/server/routes.ts\<close> 61--86): theory Dashboard,
    \<open>compute_stats\<close> from the stored projects to the response body.
  \<^item> The route handlers (\<open>routes.ts\<close>): theory Routes, each handler as the storage
    request it sends and the reply it builds from the result, run against the
    in-memory step function (\<open>serve\<close>) or the selected backend (\<open>app_serve\<close>).
  \<^item> The projects page filter and sort (\<open>src/client/src/pages/projects.tsx\<close> 48--93,
    296--332): theory ProjectFilter; the card it shows per project
    (\<open>components/common/project-card.tsx\<close>): theory ProjectCard; the page around
    them (its state, drop-downs, loading gate, summary and results area): theory
    ProjectsPage.
  \<^item> The investor dashboard page (\<open>pages/dashboard.tsx\<close>, \<open>components/common/stats-grid.tsx\<close>):
    theory DashboardPage, the statistics as they arrive over JSON, the stat cards, the
    chart data, the page's state and the loading gate.
  \<^item> The testimonial carousel of the home page (\<open>components/common/testimonial-slider.tsx\<close>):
    theory TestimonialSlider. The Education Center page (\<open>pages/faq.tsx\<close> with the
    FAQ entries of \<open>lib/mock-data.ts\<close>): theory FaqPage. The Investor AI tools page
    (\<open>pages/InvestorAITools.tsx\<close>): theory InvestorAITools. Each page is a state
    record, its handlers as a step function, the events its markup offers, and a view.
  \<^item> Client-side navigation (\<open>App.tsx\<close>'s router, \<open>components/layout/navbar.tsx\<close>,
    \<open>components/common/error-boundary.tsx\<close>): theory Navigation, the route table with
    its not-found fallback, the navigation bar's links, highlight and mobile menu, and
    the error boundary's state machine.
  \<^item> The document-head effect \<open>components/common/seo-meta.tsx\<close> and the pages that
    mount it (\<open>pages/home.tsx\<close>, \<open>pages/not-found.tsx\<close>): theory SeoMeta, the head as
    a list of elements in document order, each \<open>querySelector\<close> its first match.
  \<^item> The dashboard's charts and transactions table (\<open>components/common/interactive-charts.tsx\<close>,
    \<open>components/common/dashboard-widget.tsx\<close>): theory Charts, every text they compute,
    with \<open>toLocaleString\<close> and \<open>toFixed(0)\<close> of any number.
  \<^item> The home page (\<open>pages/home.tsx\<close>): theory HomePage, its lists, the first three
    fetched projects and the carousel; it renders whatever its queries return.

  \<^bold>\<open>What the lemmas show.\<close> ProjectFilter: the page shows exactly the matching
  projects (C1), in fetched order by default (C2), ordered by ROI or funding with ties
  stable (C3, C11), the same list in every conforming browser (C12); the ROI bands
  and the search's meaning (C4, C18); what the filters do on unusual data (C15).
  ProjectCard: the card's random statistics stay in their ranges (C9). ProjectsPage:
  one click brings the whole catalogue back (C7); choosing a city empties the page
  (C13). Dashboard: order independence
  (C5), the mean (C6), the non-finite case (C16), the ROI text round
  trip (C20). MemStorage: the table invariant on every reachable state by rule
  induction (C22), refinement of the abstract map \<open>int \<rightharpoonup> project\<close> by
  \<open>createProject\<close> and \<open>updateProject\<close> (C23, C25), and two
  behaviours the schema forbids (C26, C27). DbStorage: every step preserves the
  schema's constraints (C28). StorageSelect: the \<open>"Database not connected"\<close> error is
  unreachable (C29); the backends store different defaults (C30). Routes: a posted
  project is served back by its id (C38), a non-numeric id gives 404 on one backend
  and 500 on the other (C39), the in-memory server never answers 500 (C40).
  TestimonialSlider: the render terminates on every list (C8), every testimonial is
  shown within \<open>totalPages\<close> ticks (C14). FaqPage: the state keeps its type on every
  reachable state (C17), the full list is always reachable (C21). Navigation: every
  in-app link reaches a page of the router (C19). InvestorAITools:
  the recommendations, the stale analysis and the NaN budget (C32, C35, C37). Charts:
  the pie labels agree with the legend when the values sum to 100 (C10); the funding
  tooltip shows raw amounts, its formatter unused (C36).
  SeoMeta: the effect writes every tag it owns and keeps one JSON-LD script (C24),
  and an article's tags multiply with each run (C33). Below: the seeded server's
  dashboard page end to end, server computation, JSON transport and display (C31),
  and the not-found page's title outliving it (C34).

  \<^bold>\<open>Abstractions.\<close> Finite JS numbers are exact rationals: rounding to doubles and
  \<open>-0\<close> are not modelled (the witnesses use values whose double results agree).
  \<open>toFixed(1)\<close> of a magnitude \<open>\<ge> 10^21\<close> (exponential notation) is \<open>None\<close>;
  \<open>toLocaleString\<close> is the en-US format of integral values. Strings are lists of 8-bit
  characters; \<open>toLowerCase\<close> maps ASCII letters only. The clock is one reading \<open>now\<close>
  per call, and \<open>Math.random()\<close> draws are arguments in \<open>[0, 1)\<close>. SQL is modelled by
  its effect on rows (defaults, sequences, constraints, unspecified row order), not by
  its text. A query's outcome on the client is loading, failed or its data; how the
  client's fetch function (\<open>lib/queryClient\<close>, not in the repository) turns an error
  status into that outcome is not modelled.

  \<^bold>\<open>Termination and fuel.\<close> Every recursion is structural or has a measure (digit
  grouping \<open>locale_nat\<close> divides by 1000) except the carousel's top-up \<open>while\<close> loop,
  \<open>fill_visible\<close>, a \<open>partial_function\<close> in the option monad: it returns on every
  non-empty list (C8) and runs forever on the empty one, which the component's early
  return excludes. No fuel is used.

  \<^bold>\<open>Not modelled.\<close> The drizzle-zod validators (\<open>insertProjectSchema.parse\<close>): the
  library's version is not pinned in the repository, so a handler's validated body is
  taken as given. Styling and animation; presentational pages and components without
  state or computation (philosophy, the not-found page's markup, footer, loading
  spinners, chart drawing); the Express and Vite plumbing of
  \<open>src/server/index.ts\<close>; the migration and seeding scripts (\<open>migrate.ts\<close>,
  \<open>seed.ts\<close>), which only issue SQL against a live database.
\<close>

lemma seeded_rois:
  "map (\<lambda>p. js_parseFloat (roi p)) (getAllProjects (mem_new now)) =
     [Fin (1250/100), Fin (1520/100), Fin (875/100), Fin (2876/100), Fin (3000/100), Fin (2500/100)]"
  by (simp add: getAllProjects_def sampleProjects_def sample_dubai_marina_def
      sample_singapore_hub_def sample_london_tech_def sample_petaro_pump_def
      sample_banglow_120_def sample_banglow_150_def js_eval)

text \<open>
  The statistics endpoint on a freshly started in-memory server: the six seeded projects
  hold 61,000,000 in total with an average ROI of 20.035 (reported as "20.0") and a
  monthly estimate of 1,018,445, and no project counts as active, because the seed
  data uses the statuses FUNDING, COMPLETE and WAITING_FOR_SALE while the endpoint
  counts only ACTIVE.
\<close>

lemma seeded_dashboard:
  "compute_stats (getAllProjects (mem_new now)) =
     \<lparr>totalInvested = 61000000, monthlyReturns = Fin 1018445, activeProjects = 0,
      totalProjects = 6, avgROI = Some ''20.0''\<rparr>"
proof -
  have v: "valid_rois (getAllProjects (mem_new now)) =
     [Fin (1250/100), Fin (1520/100), Fin (875/100), Fin (2876/100), Fin (3000/100), Fin (2500/100)]"
    using seeded_rois by (simp add: valid_rois_def js_isNaN_def)
  have a: "avg_roi (getAllProjects (mem_new now)) = Fin (4007/200)"
    by (simp add: avg_roi_def v Let_def js_add_plus)
  have t: "total_invested (getAllProjects (mem_new now)) = 61000000"
    by (simp add: total_invested_def getAllProjects_def sampleProjects_def sample_dubai_marina_def
        sample_singapore_hub_def sample_london_tech_def sample_petaro_pump_def
        sample_banglow_120_def sample_banglow_150_def current_or_zero_def)
  have n: "active_projects (getAllProjects (mem_new now)) = 0"
    by (simp add: active_projects_def getAllProjects_def sampleProjects_def sample_dubai_marina_def
        sample_singapore_hub_def sample_london_tech_def sample_petaro_pump_def
        sample_banglow_120_def sample_banglow_150_def)
  have m: "monthly_returns 61000000 (Fin (4007/200)) = Fin 1018445"
    by code_simp
  have f: "js_toFixed1 (Fin (4007/200)) = Some ''20.0''"
    by code_simp
  have l: "length (getAllProjects (mem_new now)) = 6"
    by (simp add: getAllProjects_def)
  show ?thesis
    by (simp add: compute_stats_def Let_def a t n m f l del: js_toFixed1.simps)
qed

text \<open>
  C31. End to end, on a freshly started in-memory server: \<open>GET /api/dashboard/stats\<close>
  answers 200, and the investor dashboard page built from the response shows the cards
  "$61,000,000" (total invested), "$1,018,445" (monthly returns) and "0" (active
  projects), and an average ROI of "20.0%".
\<close>

theorem seeded_dashboard_page:
  "\<exists>cs. stats_query (fst (serve mem_exec now GetDashboardStats (mem_new now))) = QSuccess cs \<and>
     map si_value (statItems cs) = [Some ''$61,000,000'', Some ''$1,018,445'', Some ''0''] \<and>
     avg_roi_display cs = Some ''20.0%''"
proof -
  have r: "fst (serve mem_exec now GetDashboardStats (mem_new now)) =
     (200, BStats \<lparr>totalInvested = 61000000, monthlyReturns = Fin 1018445, activeProjects = 0,
      totalProjects = 6, avgROI = Some ''20.0''\<rparr>)"
    using seeded_dashboard by (simp add: serve_dashboard_stats mem_exec_def)
  have l1: "locale_nat 61000000 = ''61,000,000''"
    by (simp add: locale_nat.simps nat_digits.simps char_of_digits replicate_small)
  have l2: "locale_nat 1018445 = ''1,018,445''"
    by (simp add: locale_nat.simps nat_digits.simps char_of_digits replicate_small)
  have d0: "nat_digits 0 = ''0''" by (simp add: nat_digits.simps char_of_digits)
  show ?thesis
    by (simp add: r stats_query_def stats_json_def statItems_values json_number_def
        or_zero_nullable_def js_or_zero_def js_toLocaleString_def js_int_toString_def l1 l2 d0
        avg_roi_display_def del: locale_nat.simps)
qed



end
